(* ===== verification/Prelude.thy ===== *)
theory Prelude
  imports Main "HOL-Library.AList" "HOL-Library.Multiset" "HOL-Library.Sublist" "HOL-Library.List_Lexorder" "HOL-Library.Char_ord"
begin

text \<open>
  Shared vocabulary of the development: the Python exceptions the two scripts can raise,
  the exception-propagating sequencing of statements (\<open>ebind\<close>, \<open>mapE\<close>), and the
  generic lemmas on lists, association lists and sums that the component theories use.
  A Python statement that may raise is modelled as a value of \<open>py_exc + 'a\<close>:
  \<open>Inl\<close> is the exception that propagates, \<open>Inr\<close> the normal result.
\<close>

named_theorems py_simps "evaluation rules of the modelled Python builtins"
named_theorems wf_simps "unfolding rules of the well-formedness predicates on rows"

section \<open>Python exceptions\<close>

text \<open>
  \<open>SystemExit\<close> is raised by \<^verbatim>\<open>sys.exit(n)\<close>; it derives from \<^verbatim>\<open>BaseException\<close>, not from
  \<^verbatim>\<open>Exception\<close>, so an \<^verbatim>\<open>except Exception\<close> handler does not catch it
  (\<open>is_exception\<close> below). \<open>ValueError\<close> is what \<^verbatim>\<open>pandas.read_json\<close> raises on a
  document it cannot read as a table; \<open>ReError\<close> is \<^verbatim>\<open>re.error\<close>, raised when a search
  pattern is not a valid regular expression.
\<close>

datatype py_exc =
    KeyError
  | TypeError
  | AttributeError
  | JSONDecodeError
  | FileNotFoundError
  | ValueError
  | ReError
  | SystemExit int

definition is_exception :: "py_exc \<Rightarrow> bool" where
  "is_exception e = (case e of SystemExit _ \<Rightarrow> False | _ \<Rightarrow> True)"

lemma is_exception_simps [simp]:
  "is_exception (SystemExit n) = False"
  "is_exception KeyError" "is_exception TypeError" "is_exception AttributeError"
  "is_exception JSONDecodeError" "is_exception FileNotFoundError"
  "is_exception ValueError" "is_exception ReError"
  by (simp_all add: is_exception_def)

section \<open>Sequencing statements that may raise\<close>

definition ebind :: "'e + 'a \<Rightarrow> ('a \<Rightarrow> 'e + 'b) \<Rightarrow> 'e + 'b" where
  "ebind m f = (case m of Inl e \<Rightarrow> Inl e | Inr a \<Rightarrow> f a)"

lemma ebind_simps [simp]:
  "ebind (Inl e) f = Inl e"
  "ebind (Inr a) f = f a"
  by (simp_all add: ebind_def)

lemma ebind_eq_Inr:
  "ebind m f = Inr b \<longleftrightarrow> (\<exists>a. m = Inr a \<and> f a = Inr b)"
  by (cases m) simp_all

lemma ebind_eq_Inl:
  "ebind m f = Inl e \<longleftrightarrow> m = Inl e \<or> (\<exists>a. m = Inr a \<and> f a = Inl e)"
  by (cases m) simp_all

text \<open>A list comprehension or a \<^verbatim>\<open>for\<close> loop whose body may raise: the first exception wins.\<close>

fun mapE :: "('a \<Rightarrow> 'e + 'b) \<Rightarrow> 'a list \<Rightarrow> 'e + 'b list" where
  "mapE f [] = Inr []"
| "mapE f (x # xs) = ebind (f x) (\<lambda>y. ebind (mapE f xs) (\<lambda>ys. Inr (y # ys)))"

lemma mapE_Inr_iff:
  "mapE f xs = Inr ys \<longleftrightarrow> list_all2 (\<lambda>x y. f x = Inr y) xs ys"
proof (induction xs arbitrary: ys)
  case Nil
  then show ?case by auto
next
  case (Cons x xs)
  then show ?case
    by (cases ys) (auto simp: ebind_eq_Inr)
qed

lemma mapE_map:
  "mapE (\<lambda>x. Inr (g x)) xs = Inr (map g xs)"
  by (induction xs) simp_all

lemma mapE_length:
  "mapE f xs = Inr ys \<Longrightarrow> length ys = length xs"
  by (auto simp: mapE_Inr_iff dest: list_all2_lengthD)

lemma mapE_nth:
  "mapE f xs = Inr ys \<Longrightarrow> i < length xs \<Longrightarrow> f (xs ! i) = Inr (ys ! i)"
  by (auto simp: mapE_Inr_iff list_all2_conv_all_nth)

lemma mapE_map_eq:
  "mapE f xs = Inr ys \<Longrightarrow> (\<And>x y. f x = Inr y \<Longrightarrow> g y = h x) \<Longrightarrow> map g ys = map h xs"
  by (induction xs arbitrary: ys) (auto simp: ebind_eq_Inr)

lemma mapE_ok:
  "(\<And>x. x \<in> set xs \<Longrightarrow> \<exists>y. f x = Inr y) \<Longrightarrow> \<exists>ys. mapE f xs = Inr ys"
  by (induction xs) force+

lemma mapE_isl:
  "isl (mapE f xs) \<longleftrightarrow> (\<exists>x \<in> set xs. isl (f x))"
  by (induction xs) (auto simp: ebind_def split: sum.splits)

section \<open>Association lists as Python dictionaries\<close>

text \<open>
  A Python \<^verbatim>\<open>dict\<close> keeps its keys in insertion order; assigning to a present key
  replaces the value in place. \<open>AList.update\<close> does exactly that, and \<open>map_of\<close>
  reads the dictionary as a map.
\<close>

lemma map_of_update_same [simp]:
  "map_of (AList.update k v al) k = Some v"
  by (simp add: update_conv')

lemma map_of_update_other [simp]:
  "k' \<noteq> k \<Longrightarrow> map_of (AList.update k v al) k' = map_of al k'"
  by (simp add: update_conv')

lemma keys_update_present:
  "k \<in> fst ` set al \<Longrightarrow> map fst (AList.update k v al) = map fst al"
  by (induction al) auto

lemma keys_update_absent:
  "k \<notin> fst ` set al \<Longrightarrow> map fst (AList.update k v al) = map fst al @ [k]"
  by (induction al) auto

lemma distinct_keys_update:
  "distinct (map fst al) \<Longrightarrow> distinct (map fst (AList.update k v al))"
  by (cases "k \<in> fst ` set al") (simp_all add: keys_update_present keys_update_absent)

section \<open>Lists\<close>

lemma take_append_ge:
  "n \<le> length xs \<Longrightarrow> take n (xs @ ys) = take n xs"
  by simp

lemma sublist_in_middle:
  "sublist x y \<Longrightarrow> sublist x (a @ y @ b)"
  unfolding sublist_def by (metis append.assoc)

lemma filter_map_concat_length:
  "length [y. x \<leftarrow> xs, y \<leftarrow> f x] = sum_list (map (length \<circ> f) xs)"
  by (induction xs) simp_all

section \<open>Lists: counting, comprehensions, duplicates\<close>

lemma mapE_Inl_mem:
  "x \<in> set xs \<Longrightarrow> f x = Inl e \<Longrightarrow> \<exists>e'. mapE f xs = Inl e'"
proof (induction xs)
  case (Cons y ys)
  show ?case
  proof (cases "f y")
    case (Inl a) then show ?thesis by simp
  next
    case (Inr b)
    with Cons have "x \<in> set ys" by auto
    with Cons.IH Cons.prems(2) obtain e' where "mapE f ys = Inl e'" by blast
    with Inr show ?thesis by simp
  qed
qed simp

lemma comprehension_fst: "map fst [(t, c t). t \<leftarrow> ts, P t] = filter P ts"
  by (induction ts) auto

lemma comprehension_snd: "map snd [(t, c t). t \<leftarrow> ts, P t] = map c (filter P ts)"
  by (induction ts) auto

lemma remdups_map_inj: "inj f \<Longrightarrow> remdups (map f xs) = map f (remdups xs)"
  by (induction xs) (auto simp: inj_image_mem_iff)

lemma sum_counts_distinct:
  assumes "distinct ts" and "\<forall>r \<in> set rows. g r \<in> set ts"
  shows "sum_list (map (\<lambda>t. length (filter (\<lambda>r. g r = t) rows)) ts) = length rows"
  using assms(2)
proof (induction rows)
  case Nil
  then show ?case by (induction ts) simp_all
next
  case (Cons r rows)
  have "sum_list (map (\<lambda>t. length (filter (\<lambda>x. g x = t) (r # rows))) ts) =
        sum_list (map (\<lambda>t. (if g r = t then 1 else 0) + length (filter (\<lambda>x. g x = t) rows)) ts)"
    by (rule arg_cong [where f = sum_list], rule map_cong) auto
  also have "\<dots> = sum_list (map (\<lambda>t. if g r = t then 1 else 0) ts) + length rows"
    using Cons by (simp add: sum_list_addf)
  also have "sum_list (map (\<lambda>t. if g r = t then 1 else (0::nat)) ts) = 1"
    using assms(1) Cons.prems by (simp add: sum_list_map_eq_sum_count2 [symmetric] sum_list_distinct_conv_sum_set
        sum.delta)
  finally show ?case by simp
qed

end
