(* ===== verification/Py_Json.thy ===== *)
theory Py_Json
  imports Prelude
begin

text \<open>
  The runtime both scripts execute on: JSON values as \<^verbatim>\<open>json.load\<close> returns them,
  the Python builtins the scripts apply to them (truthiness, \<^verbatim>\<open>dict.get\<close>, subscription,
  iteration, hashing, \<^verbatim>\<open>str.lower\<close>, \<^verbatim>\<open>str.join\<close>, f-string formatting, \<^verbatim>\<open>sorted\<close>
  on dictionary items), and the outside world: a file system of JSON files, the
  log of HTTP requests issued and of \<^verbatim>\<open>time.sleep\<close> delays.
  Strings are byte lists (\<open>char\<close> is a byte), so \<open>py_lower\<close> lowers ASCII letters
  only and string order is byte order, which for UTF-8 text is Python's code point order.
\<close>

section \<open>JSON values\<close>

text \<open>
  JSON numbers are taken as Python \<open>int\<close>s (no floats). Objects are association lists
  in the order \<^verbatim>\<open>json.load\<close> produces them.
\<close>

datatype json =
    JNull
  | JBool bool
  | JInt int
  | JStr string
  | JList "json list"
  | JDict "(string \<times> json) list"

section \<open>Truthiness, subscription, \<^verbatim>\<open>dict.get\<close>, iteration, hashing\<close>

fun py_truthy :: "json \<Rightarrow> bool" where
  "py_truthy JNull = False"
| "py_truthy (JBool b) = b"
| "py_truthy (JInt i) = (i \<noteq> 0)"
| "py_truthy (JStr s) = (s \<noteq> [])"
| "py_truthy (JList xs) = (xs \<noteq> [])"
| "py_truthy (JDict kvs) = (kvs \<noteq> [])"

text \<open>\<^verbatim>\<open>d.get(k, default)\<close>: only a \<^verbatim>\<open>dict\<close> has a \<^verbatim>\<open>get\<close> method.\<close>

fun dict_get :: "json \<Rightarrow> string \<Rightarrow> json \<Rightarrow> py_exc + json" where
  "dict_get (JDict kvs) k d = Inr (case map_of kvs k of None \<Rightarrow> d | Some v \<Rightarrow> v)"
| "dict_get _ k d = Inl AttributeError"

text \<open>\<^verbatim>\<open>d[k]\<close> with a string key: \<^verbatim>\<open>KeyError\<close> on a dict without \<open>k\<close>, \<^verbatim>\<open>TypeError\<close>
  on anything else (lists want integer indices, scalars are not subscriptable).\<close>

fun dict_getitem :: "json \<Rightarrow> string \<Rightarrow> py_exc + json" where
  "dict_getitem (JDict kvs) k = (case map_of kvs k of None \<Rightarrow> Inl KeyError | Some v \<Rightarrow> Inr v)"
| "dict_getitem _ k = Inl TypeError"

text \<open>The value of \<^verbatim>\<open>k\<close> in a dictionary, used where the code has checked
  \<^verbatim>\<open>k in d\<close> on a value already known to be a dict.\<close>

fun dict_lookup :: "json \<Rightarrow> string \<Rightarrow> json option" where
  "dict_lookup (JDict kvs) k = map_of kvs k"
| "dict_lookup _ k = None"

text \<open>\<^verbatim>\<open>for x in v\<close>: a list yields its items, a string its characters, a dict its keys;
  \<^verbatim>\<open>None\<close>, numbers and booleans are not iterable.\<close>

fun py_iter :: "json \<Rightarrow> py_exc + json list" where
  "py_iter (JList xs) = Inr xs"
| "py_iter (JStr s) = Inr (map (\<lambda>c. JStr [c]) s)"
| "py_iter (JDict kvs) = Inr (map (\<lambda>kv. JStr (fst kv)) kvs)"
| "py_iter _ = Inl TypeError"

text \<open>Lists and dicts are unhashable: using one as a dictionary key raises \<^verbatim>\<open>TypeError\<close>.\<close>

fun hashable :: "json \<Rightarrow> bool" where
  "hashable (JList _) = False"
| "hashable (JDict _) = False"
| "hashable _ = True"

declare py_truthy.simps [py_simps] dict_get.simps [py_simps] dict_getitem.simps [py_simps]
  dict_lookup.simps [py_simps] py_iter.simps [py_simps] hashable.simps [py_simps]

lemma dict_getitem_Inr_dict:
  "dict_getitem j k = Inr v \<Longrightarrow> \<exists>kvs. j = JDict kvs \<and> map_of kvs k = Some v"
  by (cases j) (auto split: option.splits)

lemma dict_get_of_getitem:
  "dict_getitem j k = Inr v \<Longrightarrow> dict_get j k' d = Inr (case dict_lookup j k' of None \<Rightarrow> d | Some x \<Rightarrow> x)"
  by (auto dest: dict_getitem_Inr_dict)

section \<open>Strings: \<^verbatim>\<open>str.lower\<close>, \<^verbatim>\<open>str.join\<close>, \<^verbatim>\<open>str()\<close>\<close>

definition lower_char :: "char \<Rightarrow> char" where
  "lower_char c = (if CHR ''A'' \<le> c \<and> c \<le> CHR ''Z'' then char_of (of_char c + (32::nat)) else c)"

definition py_lower :: "string \<Rightarrow> string" where
  "py_lower s = map lower_char s"

lemma lower_char_idem [simp]: "lower_char (lower_char c) = lower_char c"
proof -
  have "of_char c + (32::nat) < 256" if "c \<le> CHR ''Z''" for c :: char
    using that by (simp add: less_eq_char_def)
  then show ?thesis
    by (auto simp: lower_char_def less_eq_char_def)
qed

lemma py_lower_idem [simp]: "py_lower (py_lower s) = py_lower s"
  by (simp add: py_lower_def comp_def)

lemma py_lower_append [simp]: "py_lower (xs @ ys) = py_lower xs @ py_lower ys"
  by (simp add: py_lower_def)

lemma py_lower_length [simp]: "length (py_lower s) = length s"
  by (simp add: py_lower_def)

text \<open>\<^verbatim>\<open>sep.join(xs)\<close> accepts only strings.\<close>

fun py_join :: "string \<Rightarrow> json list \<Rightarrow> py_exc + string" where
  "py_join sep [] = Inr []"
| "py_join sep [JStr s] = Inr s"
| "py_join sep (JStr s # x # xs) = ebind (py_join sep (x # xs)) (\<lambda>r. Inr (s @ sep @ r))"
| "py_join sep (_ # xs) = Inl TypeError"

declare py_join.simps [py_simps]

fun str_of_nat :: "nat \<Rightarrow> string" where
  "str_of_nat n =
     (if n < 10 then [char_of (48 + n)] else str_of_nat (n div 10) @ [char_of (48 + n mod 10)])"

declare str_of_nat.simps [simp del]

definition str_of_int :: "int \<Rightarrow> string" where
  "str_of_int i = (if i < 0 then CHR ''-'' # str_of_nat (nat (- i)) else str_of_nat (nat i))"

text \<open>
  \<^verbatim>\<open>str(v)\<close>, as an f-string formats a value: a string is itself, everything else is its
  \<^verbatim>\<open>repr\<close>. String \<^verbatim>\<open>repr\<close> is approximated by single quotes without escaping.
\<close>

fun py_repr :: "json \<Rightarrow> string" where
  "py_repr JNull = ''None''"
| "py_repr (JBool b) = (if b then ''True'' else ''False'')"
| "py_repr (JInt i) = str_of_int i"
| "py_repr (JStr s) = CHR 0x27 # s @ [CHR 0x27]"
| "py_repr (JList xs) = ''['' @ concat (map py_repr xs) @ '']''"
| "py_repr (JDict kvs) =
     ''{'' @ concat (map (\<lambda>(k, v). CHR 0x27 # k @ CHR 0x27 # '': '' @ py_repr v) kvs) @ ''}''"

fun py_str :: "json \<Rightarrow> string" where
  "py_str (JStr s) = s"
| "py_str v = py_repr v"

declare py_str.simps [py_simps]

lemma py_join_ok:
  "\<forall>x \<in> set xs. \<exists>s. x = JStr s \<Longrightarrow> \<exists>r. py_join sep xs = Inr r"
  by (induction sep xs rule: py_join.induct) auto

lemma py_join_sublist:
  "py_join sep xs = Inr r \<Longrightarrow> JStr g \<in> set xs \<Longrightarrow> sublist g r"
proof (induction sep xs arbitrary: r rule: py_join.induct)
  case (3 sep s x xs)
  then obtain r' where r': "py_join sep (x # xs) = Inr r'" and r: "r = s @ sep @ r'"
    by (auto simp: ebind_eq_Inr)
  show ?case
  proof (cases "g = s")
    case True
    with r show ?thesis
      using sublist_in_middle [of g g "[]" "sep @ r'"] by (simp add: sublist_def)
  next
    case False
    with "3.prems"(2) have "JStr g \<in> set (x # xs)" by auto
    then have "sublist g r'" by (rule "3.IH" [OF r'])
    with r show ?thesis
      using sublist_in_middle [of g r' "s @ sep" "[]"] by simp
  qed
qed auto

lemma sublist_py_lower:
  "sublist a b \<Longrightarrow> sublist (py_lower a) (py_lower b)"
  unfolding sublist_def py_lower_def by (metis map_append)

lemma py_lower_Cons [simp]: "py_lower (c # s) = lower_char c # py_lower s"
  by (simp add: py_lower_def)

lemma lower_char_space [simp]: "lower_char CHR '' '' = CHR '' ''"
  by (simp add: lower_char_def less_eq_char_def)

lemma dict_getitem_lookup:
  "dict_getitem j k = Inr v \<Longrightarrow> dict_lookup j k = Some v"
  by (auto dest: dict_getitem_Inr_dict)

section \<open>\<^verbatim>\<open>sorted(d.items())\<close>\<close>

text \<open>
  Items are compared as pairs; the keys of a dict are distinct, so only keys are
  compared. Python orders strings among strings and numbers (\<open>bool\<close> counts as \<open>int\<close>)
  among numbers; any other comparison raises \<^verbatim>\<open>TypeError\<close>, and with two or more items
  each adjacent pair of the result is compared, so a mix raises. One item is never compared.
\<close>

fun str_key :: "json \<Rightarrow> string option" where
  "str_key (JStr s) = Some s"
| "str_key _ = None"

fun num_key :: "json \<Rightarrow> int option" where
  "num_key (JInt i) = Some i"
| "num_key (JBool b) = Some (if b then 1 else 0)"
| "num_key _ = None"

definition py_sorted_items :: "(json \<times> 'v) list \<Rightarrow> py_exc + (json \<times> 'v) list" where
  "py_sorted_items kvs =
     (if length kvs \<le> 1 then Inr kvs
      else if list_all (\<lambda>kv. str_key (fst kv) \<noteq> None) kvs
        then Inr (sort_key (\<lambda>kv. the (str_key (fst kv))) kvs)
      else if list_all (\<lambda>kv. num_key (fst kv) \<noteq> None) kvs
        then Inr (sort_key (\<lambda>kv. the (num_key (fst kv))) kvs)
      else Inl TypeError)"

lemma py_sorted_items_mset:
  "py_sorted_items kvs = Inr ys \<Longrightarrow> mset ys = mset kvs"
  by (auto simp: py_sorted_items_def split: if_splits)

lemma py_sorted_items_strings:
  assumes "list_all (\<lambda>kv. \<exists>s. fst kv = JStr s) kvs"
  shows "py_sorted_items kvs = Inr (sort_key (\<lambda>kv. the (str_key (fst kv))) kvs)"
proof -
  have all: "list_all (\<lambda>kv. str_key (fst kv) \<noteq> None) kvs"
    using assms by (auto simp: list_all_iff)
  show ?thesis
  proof (cases "length kvs \<le> 1")
    case True
    then have "sort_key (\<lambda>kv. the (str_key (fst kv))) kvs = kvs"
      by (cases kvs) (auto simp: length_Suc_conv)
    with True show ?thesis by (simp add: py_sorted_items_def)
  next
    case False
    with all show ?thesis by (simp add: py_sorted_items_def)
  qed
qed

section \<open>Files and the world\<close>

text \<open>
  A file holds a JSON document (what \<^verbatim>\<open>json.dump\<close> writes) or text that is not JSON.
  Paths are strings, joined with \<^verbatim>\<open>/\<close> as \<^verbatim>\<open>pathlib\<close> does; directories are implicit.
\<close>

datatype file_content = JsonFile json | NonJsonFile string

type_synonym fs = "string \<rightharpoonup> file_content"

definition path_join :: "string \<Rightarrow> string \<Rightarrow> string" where
  "path_join d n = d @ ''/'' @ n"

text \<open>\<^verbatim>\<open>with open(p) as f: json.load(f)\<close>\<close>

definition json_load :: "fs \<Rightarrow> string \<Rightarrow> py_exc + json" where
  "json_load fsys p =
     (case fsys p of
        None \<Rightarrow> Inl FileNotFoundError
      | Some (JsonFile j) \<Rightarrow> Inr j
      | Some (NonJsonFile _) \<Rightarrow> Inl JSONDecodeError)"

text \<open>\<^verbatim>\<open>with open(p, 'w') as f: json.dump(v, f)\<close>: the file is replaced wholesale.\<close>

definition json_dump :: "fs \<Rightarrow> string \<Rightarrow> json \<Rightarrow> fs" where
  "json_dump fsys p v = fsys(p \<mapsto> JsonFile v)"

lemma json_load_dump_same [simp]: "json_load (json_dump fsys p v) p = Inr v"
  by (simp add: json_load_def json_dump_def)

lemma json_load_dump_other [simp]:
  "q \<noteq> p \<Longrightarrow> json_load (json_dump fsys p v) q = json_load fsys q"
  by (simp add: json_load_def json_dump_def)

text \<open>
  The world a run acts on: the files, the HTTP GET requests issued (their URLs, in
  order) and the delays passed to \<^verbatim>\<open>time.sleep\<close>, in order.
\<close>

record world =
  fsys :: fs
  requests :: "string list"
  sleeps :: "int list"

end
