(* ===== verification/Fetch_Retry.thy ===== *)
theory Fetch_Retry
  imports Py_Json
begin

text \<open>
  The Fetcher's configuration and its retry loop (\<^verbatim>\<open>fetch_baserow_tables.py\<close>, the
  module constants and the inner \<^verbatim>\<open>for attempt in range(MAX_RETRIES)\<close> loop of
  \<^verbatim>\<open>fetch_table_with_pagination\<close>). The remote API is a \<open>network\<close>: the outcome of the
  GET of a URL issued as the \<open>n\<close>-th request of the run. A timeout or connection failure
  is \<open>RequestException\<close>; a response carries its status and its body, parsed
  (\<open>None\<close> when the body is not JSON).
\<close>

section \<open>Configuration\<close>

record config =
  baserow_token :: string
  baserow_base_url :: string
  baserow_page_size :: int
  baserow_output_dir :: string

definition TABLES :: "(string \<times> int) list" where
  "TABLES = [(''companies'', 813469), (''tools'', 813470), (''libraries'', 813471)]"

definition MAX_RETRIES :: nat where
  "MAX_RETRIES = 3"

definition RETRY_DELAYS :: "int list" where
  "RETRY_DELAYS = [1, 2, 4]"

section \<open>The network\<close>

datatype http_outcome = Response nat "json option" | RequestException

type_synonym network = "string \<Rightarrow> nat \<Rightarrow> http_outcome"

text \<open>The outcomes the loop retries: HTTP 429 and 5xx in the code's list, and transport failures.\<close>

fun transient :: "http_outcome \<Rightarrow> bool" where
  "transient (Response st _) = (st \<in> set [429, 500, 502, 503, 504])"
| "transient RequestException = True"

section \<open>The retry loop\<close>

text \<open>
  One call runs the attempts \<open>attempt # rest\<close> of \<^verbatim>\<open>range(MAX_RETRIES)\<close>. Every attempt
  issues one request (the request log grows by its URL). Status 200 breaks out with the
  body; a retryable outcome sleeps \<^verbatim>\<open>RETRY_DELAYS[attempt]\<close> and continues unless it is
  the last attempt, where the code calls \<^verbatim>\<open>sys.exit(1)\<close>; any other status exits at once.
  If the range is empty the loop never assigns \<^verbatim>\<open>response\<close>, and \<^verbatim>\<open>None.json()\<close>
  raises \<^verbatim>\<open>AttributeError\<close>.
\<close>

fun get_with_retry :: "network \<Rightarrow> string \<Rightarrow> nat list \<Rightarrow> world \<Rightarrow> (py_exc + json option) \<times> world" where
  "get_with_retry net url [] w = (Inl AttributeError, w)"
| "get_with_retry net url (attempt # rest) w =
     (let r = net url (length (requests w));
          w' = w\<lparr>requests := requests w @ [url]\<rparr>
      in case r of
           Response st body \<Rightarrow>
             if st = 200 then (Inr body, w')
             else if st \<in> set [429, 500, 502, 503, 504] then
               (if attempt < MAX_RETRIES - 1
                then get_with_retry net url rest (w'\<lparr>sleeps := sleeps w' @ [RETRY_DELAYS ! attempt]\<rparr>)
                else (Inl (SystemExit 1), w'))
             else (Inl (SystemExit 1), w')
         | RequestException \<Rightarrow>
             if attempt < MAX_RETRIES - 1
             then get_with_retry net url rest (w'\<lparr>sleeps := sleeps w' @ [RETRY_DELAYS ! attempt]\<rparr>)
             else (Inl (SystemExit 1), w'))"

text \<open>The attempts of one page request, as the code runs them.\<close>

definition get_page :: "network \<Rightarrow> string \<Rightarrow> world \<Rightarrow> (py_exc + json option) \<times> world" where
  "get_page net url w = get_with_retry net url [0..<MAX_RETRIES] w"

section \<open>Behaviour of one attempt\<close>

lemma get_with_retry_transient:
  "transient (net url (length (requests w))) \<Longrightarrow> attempt < MAX_RETRIES - 1 \<Longrightarrow>
   get_with_retry net url (attempt # rest) w =
   get_with_retry net url rest
     (w\<lparr>requests := requests w @ [url], sleeps := sleeps w @ [RETRY_DELAYS ! attempt]\<rparr>)"
  by (cases "net url (length (requests w))") auto

lemma get_with_retry_last_transient:
  "transient (net url (length (requests w))) \<Longrightarrow> \<not> attempt < MAX_RETRIES - 1 \<Longrightarrow>
   get_with_retry net url (attempt # rest) w = (Inl (SystemExit 1), w\<lparr>requests := requests w @ [url]\<rparr>)"
  by (cases "net url (length (requests w))") auto

lemma get_with_retry_ok:
  "net url (length (requests w)) = Response 200 body \<Longrightarrow>
   get_with_retry net url (attempt # rest) w = (Inr body, w\<lparr>requests := requests w @ [url]\<rparr>)"
  by simp

lemma get_with_retry_fatal:
  "net url (length (requests w)) = Response st body \<Longrightarrow> st \<noteq> 200 \<Longrightarrow>
   st \<notin> set [429, 500, 502, 503, 504] \<Longrightarrow>
   get_with_retry net url (attempt # rest) w = (Inl (SystemExit 1), w\<lparr>requests := requests w @ [url]\<rparr>)"
  by simp

lemma get_with_retry_files [simp]:
  "fsys (snd (get_with_retry net url as w)) = fsys w"
  by (induction net url as w rule: get_with_retry.induct) (auto simp: Let_def split: http_outcome.splits)

lemma upt_retries_Cons:
  "a < MAX_RETRIES \<Longrightarrow> [a..<MAX_RETRIES] = a # [Suc a..<MAX_RETRIES]"
  by (simp add: upt_conv_Cons)

lemma take_Suc_drop_delays:
  "a < length RETRY_DELAYS \<Longrightarrow>
   RETRY_DELAYS ! a # take k (drop (Suc a) RETRY_DELAYS) = take (Suc k) (drop a RETRY_DELAYS)"
  by (metis Cons_nth_drop_Suc take_Suc_Cons)

text \<open>
  \<open>k\<close> retryable outcomes in a row, none of them on the last attempt: the loop has issued
  \<open>k\<close> requests for the URL, slept the next \<open>k\<close> delays, and continues at attempt \<open>a + k\<close>.
\<close>

lemma get_with_retry_skip:
  assumes "\<forall>i<k. transient (net url (length (requests w) + i))"
    and "a + k < MAX_RETRIES"
  shows "get_with_retry net url [a..<MAX_RETRIES] w =
         get_with_retry net url [a + k..<MAX_RETRIES]
           (w\<lparr>requests := requests w @ replicate k url,
              sleeps := sleeps w @ take k (drop a RETRY_DELAYS)\<rparr>)"
  using assms
proof (induction k arbitrary: a w)
  case 0
  then show ?case by simp
next
  case (Suc k)
  let ?w' = "w\<lparr>requests := requests w @ [url], sleeps := sleeps w @ [RETRY_DELAYS ! a]\<rparr>"
  from Suc.prems(1) have tr: "transient (net url (length (requests w)))"
    by (metis add_0_right zero_less_Suc)
  from Suc.prems(2) have a: "a < MAX_RETRIES - 1" "a < length RETRY_DELAYS"
    by (simp_all add: MAX_RETRIES_def RETRY_DELAYS_def)
  have upt: "[a..<MAX_RETRIES] = a # [Suc a..<MAX_RETRIES]"
    using a(1) by (simp add: upt_retries_Cons)
  have step: "get_with_retry net url [a..<MAX_RETRIES] w = get_with_retry net url [Suc a..<MAX_RETRIES] ?w'"
    using get_with_retry_transient [where net = net and url = url and w = w and attempt = a and rest = "[Suc a..<MAX_RETRIES]", OF tr a(1)] upt by (simp only:)
  have "\<forall>i<k. transient (net url (length (requests ?w') + i))"
    using Suc.prems(1) by auto
  moreover have "Suc a + k < MAX_RETRIES" using Suc.prems(2) by simp
  ultimately have IH: "get_with_retry net url [Suc a..<MAX_RETRIES] ?w' =
         get_with_retry net url [Suc a + k..<MAX_RETRIES]
           (?w'\<lparr>requests := requests ?w' @ replicate k url,
                sleeps := sleeps ?w' @ take k (drop (Suc a) RETRY_DELAYS)\<rparr>)"
    by (rule Suc.IH)
  show ?case
    using step IH take_Suc_drop_delays [OF a(2), of k] by (simp add: replicate_append_same)
qed

section \<open>Properties of the retry loop\<close>

text \<open>
  C2 (retry recovers): when the first \<open>k < MAX_RETRIES\<close> attempts for a page meet a
  retryable outcome (HTTP 429/5xx or a transport failure) and the next one returns 200,
  the page request succeeds with that response's body after exactly \<open>k + 1\<close> requests,
  having slept the first \<open>k\<close> configured backoff delays in order.
\<close>

theorem get_page_recovers:
  assumes "\<forall>i<k. transient (net url (length (requests w) + i))"
    and "net url (length (requests w) + k) = Response 200 body"
    and "k < MAX_RETRIES"
  shows "get_page net url w =
         (Inr body, w\<lparr>requests := requests w @ replicate (Suc k) url,
                      sleeps := sleeps w @ take k RETRY_DELAYS\<rparr>)"
proof -
  let ?w = "w\<lparr>requests := requests w @ replicate k url, sleeps := sleeps w @ take k RETRY_DELAYS\<rparr>"
  have "get_page net url w = get_with_retry net url [k..<MAX_RETRIES] ?w"
    using get_with_retry_skip [of k net url w 0] assms(1,3) by (simp add: get_page_def)
  also have "\<dots> = get_with_retry net url (k # [Suc k..<MAX_RETRIES]) ?w"
    using assms(3) by (simp add: upt_retries_Cons)
  also have "\<dots> = (Inr body, ?w\<lparr>requests := requests ?w @ [url]\<rparr>)"
    using assms(2) by simp
  finally show ?thesis by (simp add: replicate_append_same)
qed

theorem get_page_recovers_witness:
  "get_page (\<lambda>u n. if n < 2 then Response 503 None else Response 200 (Some JNull)) ''u''
     \<lparr>fsys = Map.empty, requests = [], sleeps = []\<rparr> =
   (Inr (Some JNull), \<lparr>fsys = Map.empty, requests = [''u'', ''u'', ''u''], sleeps = [1, 2]\<rparr>)"
  using get_page_recovers [of 2 "\<lambda>u n. if n < 2 then Response 503 None else Response 200 (Some JNull)"
      "''u''" "\<lparr>fsys = Map.empty, requests = [], sleeps = []\<rparr>" "Some JNull"]
  by (simp add: MAX_RETRIES_def RETRY_DELAYS_def numeral_eq_Suc less_Suc_eq)

text \<open>Every attempt of the loop meets a retryable outcome.\<close>

lemma get_page_all_transient:
  assumes "\<forall>i<MAX_RETRIES. transient (net url (length (requests w) + i))"
  shows "get_page net url w =
         (Inl (SystemExit 1), w\<lparr>requests := requests w @ replicate MAX_RETRIES url,
                                sleeps := sleeps w @ butlast RETRY_DELAYS\<rparr>)"
proof -
  let ?k = "MAX_RETRIES - 1"
  let ?w = "w\<lparr>requests := requests w @ replicate ?k url, sleeps := sleeps w @ take ?k RETRY_DELAYS\<rparr>"
  have k: "0 + ?k < MAX_RETRIES" by (simp add: MAX_RETRIES_def)
  have "\<forall>i<?k. transient (net url (length (requests w) + i))"
    using assms by simp
  then have skip: "get_page net url w = get_with_retry net url [?k..<MAX_RETRIES] ?w"
    using get_with_retry_skip [of ?k net url w 0, OF _ k] by (simp add: get_page_def)
  have upt: "[?k..<MAX_RETRIES] = [?k]"
    by (simp add: MAX_RETRIES_def)
  have "transient (net url (length (requests w) + 2))"
    using assms [unfolded MAX_RETRIES_def, rule_format, of 2] by simp
  then have tr: "transient (net url (length (requests ?w)))"
    by (simp add: MAX_RETRIES_def)
  have last: "\<not> ?k < MAX_RETRIES - 1"
    by simp
  have "get_page net url w = (Inl (SystemExit 1), ?w\<lparr>requests := requests ?w @ [url]\<rparr>)"
    using skip get_with_retry_last_transient [where net = net and url = url and w = ?w and attempt = ?k and rest = "[]", OF tr last] by (simp only: upt)
  then show ?thesis
    by (simp add: MAX_RETRIES_def RETRY_DELAYS_def numeral_eq_Suc)
qed

text \<open>
  C3 (retry budget): when all \<open>MAX_RETRIES\<close> attempts for a page meet a retryable
  outcome, the Fetcher exits with status 1 after exactly \<open>MAX_RETRIES\<close> requests, having
  slept all configured delays but the last one: the final delay of \<open>RETRY_DELAYS\<close>
  is never used.
\<close>

theorem get_page_exhausted:
  assumes "\<forall>i<MAX_RETRIES. transient (net url (length (requests w) + i))"
  shows "get_page net url w =
         (Inl (SystemExit 1), w\<lparr>requests := requests w @ replicate MAX_RETRIES url,
                                sleeps := sleeps w @ butlast RETRY_DELAYS\<rparr>)"
  using assms by (rule get_page_all_transient)

theorem get_page_exhausted_witness:
  "get_page (\<lambda>u n. RequestException) ''u'' \<lparr>fsys = Map.empty, requests = [], sleeps = []\<rparr> =
   (Inl (SystemExit 1), \<lparr>fsys = Map.empty, requests = [''u'', ''u'', ''u''], sleeps = [1, 2]\<rparr>)"
  using get_page_exhausted [of "\<lambda>u n. RequestException" "''u''" "\<lparr>fsys = Map.empty, requests = [], sleeps = []\<rparr>"]
  by (simp add: MAX_RETRIES_def RETRY_DELAYS_def numeral_eq_Suc)

text \<open>
  C4 (non-retryable status): a status other than 200 that is not retryable ends the
  Fetcher with status 1 at that attempt, without a further request or delay.
\<close>

theorem get_page_non_retryable:
  assumes "\<forall>i<k. transient (net url (length (requests w) + i))"
    and "net url (length (requests w) + k) = Response st body"
    and "st \<noteq> 200" and "\<not> transient (Response st body)"
    and "k < MAX_RETRIES"
  shows "get_page net url w =
         (Inl (SystemExit 1), w\<lparr>requests := requests w @ replicate (Suc k) url,
                                sleeps := sleeps w @ take k RETRY_DELAYS\<rparr>)"
proof -
  let ?w = "w\<lparr>requests := requests w @ replicate k url, sleeps := sleeps w @ take k RETRY_DELAYS\<rparr>"
  have "get_page net url w = get_with_retry net url [k..<MAX_RETRIES] ?w"
    using get_with_retry_skip [of k net url w 0] assms(1,5) by (simp add: get_page_def)
  also have "\<dots> = get_with_retry net url (k # [Suc k..<MAX_RETRIES]) ?w"
    using assms(5) by (simp add: upt_retries_Cons)
  also have "\<dots> = (Inl (SystemExit 1), ?w\<lparr>requests := requests ?w @ [url]\<rparr>)"
    using assms(2,3,4) by simp
  finally show ?thesis by (simp add: replicate_append_same)
qed

theorem get_page_non_retryable_witness:
  "get_page (\<lambda>u n. if n = 0 then Response 502 None else Response 404 None) ''u''
     \<lparr>fsys = Map.empty, requests = [], sleeps = []\<rparr> =
   (Inl (SystemExit 1), \<lparr>fsys = Map.empty, requests = [''u'', ''u''], sleeps = [1]\<rparr>)"
  using get_page_non_retryable [of 1 "\<lambda>u n. if n = 0 then Response 502 None else Response 404 None"
      "''u''" "\<lparr>fsys = Map.empty, requests = [], sleeps = []\<rparr>" 404 None]
  by (simp add: MAX_RETRIES_def RETRY_DELAYS_def)

end
