(* ===== verification/Fetch_Pages.thy ===== *)
theory Fetch_Pages
  imports Fetch_Retry
begin

text \<open>
  The page-following loop of \<^verbatim>\<open>fetch_table_with_pagination\<close>
  (\<^verbatim>\<open>fetch_baserow_tables.py\<close>): \<^verbatim>\<open>while url:\<close> issues the page request with retries,
  parses the body, stops on an empty page, extends the accumulated rows, truncates at the
  optional row limit, and follows \<^verbatim>\<open>data.get("next")\<close>. Nothing bounds the number of
  pages (a server whose \<^verbatim>\<open>next\<close> pointers form a cycle makes the code loop forever), so
  the loop is a \<^theory_text>\<open>partial_function\<close> in the option monad: \<open>None\<close> is
  non-termination. The theorems show that it returns on every finite chain of pages.
\<close>

section \<open>The row limit\<close>

text \<open>\<^verbatim>\<open>rows[:l]\<close>: a negative bound counts from the end.\<close>

definition py_slice_to :: "int \<Rightarrow> 'a list \<Rightarrow> 'a list" where
  "py_slice_to l xs = (if 0 \<le> l then take (nat l) xs else take (nat (int (length xs) + l)) xs)"

text \<open>\<^verbatim>\<open>if limit and len(all_rows) >= limit: all_rows = all_rows[:limit]\<close>: \<open>Some\<close> of the
  truncated rows when the loop stops there. \<^verbatim>\<open>limit\<close> is falsy when it is \<^verbatim>\<open>None\<close> or 0.\<close>

definition limit_cut :: "int option \<Rightarrow> json list \<Rightarrow> json list option" where
  "limit_cut limit rows =
     (case limit of
        None \<Rightarrow> None
      | Some l \<Rightarrow> if l \<noteq> 0 \<and> l \<le> int (length rows) then Some (py_slice_to l rows) else None)"

section \<open>The page loop\<close>

partial_function (option) paginate ::
  "network \<Rightarrow> int option \<Rightarrow> json \<Rightarrow> json list \<Rightarrow> world \<Rightarrow> ((py_exc + json list) \<times> world) option"
where
  "paginate net limit url all_rows w =
     (if \<not> py_truthy url then Some (Inr all_rows, w)
      else (case get_page net (py_str url) w of
              (Inl e, w1) \<Rightarrow> Some (Inl e, w1)
            | (Inr None, w1) \<Rightarrow> Some (Inl JSONDecodeError, w1)
            | (Inr (Some data), w1) \<Rightarrow>
                (case dict_get data ''results'' (JList []) of
                   Inl e \<Rightarrow> Some (Inl e, w1)
                 | Inr rows \<Rightarrow>
                     if \<not> py_truthy rows then Some (Inr all_rows, w1)
                     else (case py_iter rows of
                             Inl e \<Rightarrow> Some (Inl e, w1)
                           | Inr rs \<Rightarrow>
                               (case limit_cut limit (all_rows @ rs) of
                                  Some kept \<Rightarrow> Some (Inr kept, w1)
                                | None \<Rightarrow>
                                    (case dict_get data ''next'' JNull of
                                       Inl e \<Rightarrow> Some (Inl e, w1)
                                     | Inr nxt \<Rightarrow> paginate net limit nxt (all_rows @ rs) w1))))))"

text \<open>
  \<^verbatim>\<open>f"{BASEROW_BASE_URL}/api/database/rows/table/{table_id}/?size={BASEROW_PAGE_SIZE}"\<close>
\<close>

definition initial_url :: "config \<Rightarrow> int \<Rightarrow> string" where
  "initial_url cfg table_id =
     baserow_base_url cfg @ ''/api/database/rows/table/'' @ str_of_int table_id @
     ''/?size='' @ str_of_int (baserow_page_size cfg)"

definition fetch_table_with_pagination ::
  "config \<Rightarrow> network \<Rightarrow> string \<Rightarrow> int \<Rightarrow> int option \<Rightarrow> world \<Rightarrow> ((py_exc + json list) \<times> world) option"
where
  "fetch_table_with_pagination cfg net table_name table_id limit w =
     paginate net limit (JStr (initial_url cfg table_id)) [] w"

section \<open>Finite chains of pages\<close>

text \<open>
  \<open>serves_pages net n url pages\<close>: starting with the \<open>n\<close>-th request at \<open>url\<close>, the server
  answers 200 with the non-empty rows of each page of \<open>pages\<close> and the page's \<open>next\<close>
  pointer, and the last pointer is falsy (\<^verbatim>\<open>null\<close>).
\<close>

fun serves_pages :: "network \<Rightarrow> nat \<Rightarrow> json \<Rightarrow> (json list \<times> json) list \<Rightarrow> bool" where
  "serves_pages net n url [] = (\<not> py_truthy url)"
| "serves_pages net n url ((rows, nxt) # pages) =
     (py_truthy url \<and> rows \<noteq> [] \<and>
      net (py_str url) n = Response 200 (Some (JDict [(''results'', JList rows), (''next'', nxt)])) \<and>
      serves_pages net (Suc n) nxt pages)"

lemma get_page_ok:
  "net url (length (requests w)) = Response 200 body \<Longrightarrow>
   get_page net url w = (Inr body, w\<lparr>requests := requests w @ [url]\<rparr>)"
  by (simp add: get_page_def MAX_RETRIES_def upt_conv_Cons)

text \<open>One page of a chain: the loop requests it, appends its rows and moves to its pointer.\<close>

lemma paginate_step:
  assumes "py_truthy url" and "rows \<noteq> []"
    and "net (py_str url) (length (requests w)) =
           Response 200 (Some (JDict [(''results'', JList rows), (''next'', nxt)]))"
    and "limit_cut limit (acc @ rows) = None"
  shows "paginate net limit url acc w =
         paginate net limit nxt (acc @ rows) (w\<lparr>requests := requests w @ [py_str url]\<rparr>)"
  using assms get_page_ok [where net = net and url = "py_str url" and w = w, OF assms(3)] by (subst paginate.simps) simp

lemma paginate_step_cut:
  assumes "py_truthy url" and "rows \<noteq> []"
    and "net (py_str url) (length (requests w)) =
           Response 200 (Some (JDict [(''results'', JList rows), (''next'', nxt)]))"
    and "limit_cut limit (acc @ rows) = Some kept"
  shows "paginate net limit url acc w = Some (Inr kept, w\<lparr>requests := requests w @ [py_str url]\<rparr>)"
  using assms get_page_ok [where net = net and url = "py_str url" and w = w, OF assms(3)] by (subst paginate.simps) simp

lemma paginate_request_error:
  "py_truthy url \<Longrightarrow> get_page net (py_str url) w = (Inl e, w1) \<Longrightarrow>
   paginate net limit url acc w = Some (Inl e, w1)"
  by (subst paginate.simps) simp

lemma initial_url_truthy [simp]: "py_truthy (JStr (initial_url cfg table_id))"
  by (simp add: initial_url_def)

lemma paginate_stop:
  "\<not> py_truthy url \<Longrightarrow> paginate net limit url acc w = Some (Inr acc, w)"
  by (subst paginate.simps) simp

lemma paginate_chain:
  assumes "serves_pages net (length (requests w)) url pages"
  shows "\<exists>w'. paginate net None url acc w = Some (Inr (acc @ concat (map fst pages)), w') \<and>
              length (requests w') = length (requests w) + length pages \<and>
              sleeps w' = sleeps w \<and> fsys w' = fsys w"
  using assms
proof (induction pages arbitrary: url acc w)
  case Nil
  then show ?case by (simp add: paginate_stop)
next
  case (Cons p pages)
  obtain rows nxt where p: "p = (rows, nxt)" by fastforce
  let ?w1 = "w\<lparr>requests := requests w @ [py_str url]\<rparr>"
  from Cons.prems p have url: "py_truthy url" and rows: "rows \<noteq> []"
    and resp: "net (py_str url) (length (requests w)) =
                 Response 200 (Some (JDict [(''results'', JList rows), (''next'', nxt)]))"
    and rest: "serves_pages net (length (requests ?w1)) nxt pages"
    by auto
  have "paginate net None url acc w = paginate net None nxt (acc @ rows) ?w1"
    using url rows resp by (rule paginate_step) (simp add: limit_cut_def)
  with Cons.IH [OF rest, of "acc @ rows"] p show ?case by auto
qed

lemma paginate_chain_limit:
  assumes "serves_pages net (length (requests w)) url pages"
    and "0 < l" and "int (length acc) < l"
  shows "\<exists>w'. paginate net (Some l) url acc w = Some (Inr (take (nat l) (acc @ concat (map fst pages))), w')"
  using assms
proof (induction pages arbitrary: url acc w)
  case Nil
  then show ?case by (simp add: paginate_stop)
next
  case (Cons p pages)
  obtain rows nxt where p: "p = (rows, nxt)" by fastforce
  let ?w1 = "w\<lparr>requests := requests w @ [py_str url]\<rparr>"
  from Cons.prems p have url: "py_truthy url" and rows: "rows \<noteq> []"
    and resp: "net (py_str url) (length (requests w)) =
                 Response 200 (Some (JDict [(''results'', JList rows), (''next'', nxt)]))"
    and rest: "serves_pages net (length (requests ?w1)) nxt pages"
    by auto
  show ?case
  proof (cases "l \<le> int (length (acc @ rows))")
    case True
    then have "limit_cut (Some l) (acc @ rows) = Some (take (nat l) (acc @ rows))"
      using Cons.prems(2) by (simp add: limit_cut_def py_slice_to_def)
    moreover have "take (nat l) (acc @ rows @ concat (map fst pages)) = take (nat l) (acc @ rows)"
      using True by (simp add: take_append)
    ultimately show ?thesis
      using paginate_step_cut [where net = net and url = url and w = w and acc = acc, OF url rows resp] p
      by simp
  next
    case False
    then have "limit_cut (Some l) (acc @ rows) = None"
      by (simp add: limit_cut_def)
    then have "paginate net (Some l) url acc w = paginate net (Some l) nxt (acc @ rows) ?w1"
      by (rule paginate_step [where net = net and url = url and w = w, OF url rows resp])
    with Cons.IH [OF rest Cons.prems(2), of "acc @ rows"] False p show ?thesis by auto
  qed
qed

section \<open>Endless chains of pages\<close>

text \<open>
  Nothing bounds the loop: against a server whose every page is non-empty and points to
  a next page, no run of the loop returns (raw induction over the fixpoint: a returning
  run would have a returning run for the next page, and no such run ends on a truthy URL).
\<close>

lemma paginate_endless_aux:
  assumes srv: "\<And>u n. \<exists>rows nxt. rows \<noteq> [] \<and> py_truthy nxt \<and>
                   net u n = Response 200 (Some (JDict [(''results'', JList rows), (''next'', nxt)]))"
    and run: "paginate net None u0 a0 w0 = Some y0"
  shows "\<not> py_truthy u0"
proof -
  have "net = net \<longrightarrow> (None :: int option) = None \<longrightarrow> \<not> py_truthy u0"
  proof (rule paginate.raw_induct [where P = "\<lambda>nt lm ur ac wr yr. nt = net \<longrightarrow> lm = None \<longrightarrow> \<not> py_truthy ur",
           OF _ run], goal_cases)
    case (1 pag nt lm ur ac wr yr)
    show ?case
    proof (intro impI notI)
      assume n: "nt = net" and l: "lm = None" and u: "py_truthy ur"
      obtain rows nxt where r: "rows \<noteq> []" "py_truthy nxt"
        and resp: "net (py_str ur) (length (requests wr)) =
                   Response 200 (Some (JDict [(''results'', JList rows), (''next'', nxt)]))"
        using srv by blast
      from 1(2) u resp r n l
      have "pag net None nxt (ac @ rows) (wr\<lparr>requests := requests wr @ [py_str ur]\<rparr>) = Some yr"
        by (simp add: get_page_ok limit_cut_def)
      from 1(1) [OF this] r show False by simp
    qed
  qed
  then show ?thesis by simp
qed

section \<open>Properties of the page loop\<close>

text \<open>
  C1 (pagination terminates without dropping or duplicating rows): when the server serves
  a finite chain of non-empty pages whose last \<^verbatim>\<open>next\<close> is null, fetching a table without
  a row limit returns, and returns exactly the rows of all pages concatenated in order,
  after one request per page and without sleeping or touching the files.
\<close>

theorem fetch_table_all_pages:
  assumes "serves_pages net (length (requests w)) (JStr (initial_url cfg table_id)) pages"
  shows "\<exists>w'. fetch_table_with_pagination cfg net table_name table_id None w =
                Some (Inr (concat (map fst pages)), w') \<and>
              length (requests w') = length (requests w) + length pages \<and>
              sleeps w' = sleeps w \<and> fsys w' = fsys w"
  using paginate_chain [OF assms, of "[]"] by (simp add: fetch_table_with_pagination_def)

theorem fetch_table_all_pages_witness:
  "serves_pages (\<lambda>u n. if u = ''p2''
                        then Response 200 (Some (JDict [(''results'', JList [JInt 2]), (''next'', JNull)]))
                        else Response 200 (Some (JDict [(''results'', JList [JInt 1]), (''next'', JStr ''p2'')])))
     0 (JStr (initial_url \<lparr>baserow_token = ''t'', baserow_base_url = ''b'', baserow_page_size = 5,
                           baserow_output_dir = ''d''\<rparr> 7))
     [([JInt 1], JStr ''p2''), ([JInt 2], JNull)] \<and>
   (\<exists>w'. fetch_table_with_pagination
           \<lparr>baserow_token = ''t'', baserow_base_url = ''b'', baserow_page_size = 5, baserow_output_dir = ''d''\<rparr>
           (\<lambda>u n. if u = ''p2''
                   then Response 200 (Some (JDict [(''results'', JList [JInt 2]), (''next'', JNull)]))
                   else Response 200 (Some (JDict [(''results'', JList [JInt 1]), (''next'', JStr ''p2'')])))
           ''tools'' 7 None \<lparr>fsys = Map.empty, requests = [], sleeps = []\<rparr> =
         Some (Inr [JInt 1, JInt 2], w') \<and> length (requests w') = 2 \<and> sleeps w' = [] \<and> fsys w' = Map.empty)"
proof -
  have s: "serves_pages (\<lambda>u n. if u = ''p2''
                        then Response 200 (Some (JDict [(''results'', JList [JInt 2]), (''next'', JNull)]))
                        else Response 200 (Some (JDict [(''results'', JList [JInt 1]), (''next'', JStr ''p2'')])))
     (length (requests \<lparr>fsys = Map.empty, requests = [], sleeps = []\<rparr>))
     (JStr (initial_url \<lparr>baserow_token = ''t'', baserow_base_url = ''b'', baserow_page_size = 5,
                           baserow_output_dir = ''d''\<rparr> 7))
     [([JInt 1], JStr ''p2''), ([JInt 2], JNull)]"
    by (simp add: initial_url_def)
  show ?thesis
    using s fetch_table_all_pages [OF s, of "''tools''"] by (simp add: initial_url_def numeral_2_eq_2)
qed

text \<open>
  C5 (row limit): with a positive row limit \<open>l\<close> on the same finite chain, the fetch
  returns exactly the first \<open>l\<close> rows of the concatenated pages (all of them when there are
  fewer).
\<close>

theorem fetch_table_limit:
  assumes "serves_pages net (length (requests w)) (JStr (initial_url cfg table_id)) pages"
    and "0 < l"
  shows "\<exists>w'. fetch_table_with_pagination cfg net table_name table_id (Some l) w =
                Some (Inr (take (nat l) (concat (map fst pages))), w')"
  using paginate_chain_limit [OF assms(1,2), of "[]"] assms(2)
  by (simp add: fetch_table_with_pagination_def)

theorem fetch_table_limit_witness:
  "\<exists>w'. fetch_table_with_pagination
           \<lparr>baserow_token = ''t'', baserow_base_url = ''b'', baserow_page_size = 5, baserow_output_dir = ''d''\<rparr>
           (\<lambda>u n. if u = ''p2''
                   then Response 200 (Some (JDict [(''results'', JList [JInt 3, JInt 4]), (''next'', JNull)]))
                   else Response 200 (Some (JDict [(''results'', JList [JInt 1, JInt 2]), (''next'', JStr ''p2'')])))
           ''tools'' 7 (Some 3) \<lparr>fsys = Map.empty, requests = [], sleeps = []\<rparr> =
         Some (Inr [JInt 1, JInt 2, JInt 3], w')"
proof -
  have s: "serves_pages (\<lambda>u n. if u = ''p2''
                   then Response 200 (Some (JDict [(''results'', JList [JInt 3, JInt 4]), (''next'', JNull)]))
                   else Response 200 (Some (JDict [(''results'', JList [JInt 1, JInt 2]), (''next'', JStr ''p2'')])))
     (length (requests \<lparr>fsys = Map.empty, requests = [], sleeps = []\<rparr>))
     (JStr (initial_url \<lparr>baserow_token = ''t'', baserow_base_url = ''b'', baserow_page_size = 5,
                           baserow_output_dir = ''d''\<rparr> 7))
     [([JInt 1, JInt 2], JStr ''p2''), ([JInt 3, JInt 4], JNull)]"
    by (simp add: initial_url_def)
  show ?thesis
    using fetch_table_limit [OF s, of 3 "''tools''"] by (simp add: numeral_eq_Suc)
qed

text \<open>
  C21 (no bound on the pages): when every response is a non-empty page whose \<^verbatim>\<open>next\<close>
  pointer is truthy (for instance a server whose pointers form a cycle), fetching a table
  without row limit never returns.
\<close>

theorem fetch_table_endless:
  assumes "\<forall>u n. \<exists>rows nxt. rows \<noteq> [] \<and> py_truthy nxt \<and>
                   net u n = Response 200 (Some (JDict [(''results'', JList rows), (''next'', nxt)]))"
  shows "fetch_table_with_pagination cfg net table_name table_id None w = None"
proof -
  have "paginate net None (JStr (initial_url cfg table_id)) [] w \<noteq> Some y" for y
    using paginate_endless_aux [of net "JStr (initial_url cfg table_id)" "[]" w y] assms
      initial_url_truthy [of cfg table_id] by blast
  then show ?thesis
    unfolding fetch_table_with_pagination_def by (cases "paginate net None (JStr (initial_url cfg table_id)) [] w") auto
qed

theorem fetch_table_endless_witness:
  "fetch_table_with_pagination \<lparr>baserow_token = ''t'', baserow_base_url = ''b'', baserow_page_size = 5,
       baserow_output_dir = ''d''\<rparr>
     (\<lambda>u n. Response 200 (Some (JDict [(''results'', JList [JInt 1]), (''next'', JStr ''p'')])))
     ''companies'' 813469 None \<lparr>fsys = Map.empty, requests = [], sleeps = []\<rparr> = None"
  by (rule fetch_table_endless) auto

end
