(* ===== verification/Fetch_Main.thy ===== *)
theory Fetch_Main
  imports Fetch_Pages
begin

text \<open>
  The Fetcher's driver (\<^verbatim>\<open>fetch_baserow_tables.py\<close>: \<^verbatim>\<open>validate_config\<close>,
  \<^verbatim>\<open>export_to_json\<close>, \<^verbatim>\<open>main\<close>). \<^verbatim>\<open>main\<close> checks the token, then fetches and exports
  the tables of \<open>TABLES\<close> in order. Its \<^verbatim>\<open>except Exception\<close> handler records a failed
  table and goes on; \<^verbatim>\<open>sys.exit\<close> raises \<^verbatim>\<open>SystemExit\<close>, which that handler does not
  catch, so an exhausted retry budget or a non-retryable status ends the whole run.
  \<^verbatim>\<open>ensure_output_directory\<close> creates the output directory; directories are implicit in
  the file model, so it changes nothing here.
\<close>

section \<open>Driver\<close>

definition validate_config :: "config \<Rightarrow> py_exc + unit" where
  "validate_config cfg = (if baserow_token cfg = [] then Inl (SystemExit 1) else Inr ())"

definition snapshot_path :: "config \<Rightarrow> string \<Rightarrow> string" where
  "snapshot_path cfg table_name = path_join (baserow_output_dir cfg) (table_name @ ''.json'')"

definition export_to_json :: "config \<Rightarrow> string \<Rightarrow> json list \<Rightarrow> world \<Rightarrow> world" where
  "export_to_json cfg table_name rows w =
     w\<lparr>fsys := json_dump (fsys w) (snapshot_path cfg table_name) (JList rows)\<rparr>"

text \<open>An entry of \<^verbatim>\<open>results_summary\<close>: the row count on success, the exception otherwise.\<close>

datatype table_status = Success nat | Failed py_exc

type_synonym summary = "(string \<times> table_status) list"

fun fetch_all ::
  "config \<Rightarrow> network \<Rightarrow> (string \<times> int) list \<Rightarrow> summary \<Rightarrow> world \<Rightarrow> ((py_exc + summary) \<times> world) option"
where
  "fetch_all cfg net [] results_summary w = Some (Inr results_summary, w)"
| "fetch_all cfg net ((table_name, table_id) # tables) results_summary w =
     Option.bind (fetch_table_with_pagination cfg net table_name table_id None w)
       (\<lambda>(r, w1). case r of
          Inr rows \<Rightarrow>
            fetch_all cfg net tables (AList.update table_name (Success (length rows)) results_summary)
              (export_to_json cfg table_name rows w1)
        | Inl e \<Rightarrow>
            if is_exception e
            then fetch_all cfg net tables (AList.update table_name (Failed e) results_summary) w1
            else Some (Inl e, w1))"

definition fetch_main :: "config \<Rightarrow> network \<Rightarrow> world \<Rightarrow> ((py_exc + summary) \<times> world) option" where
  "fetch_main cfg net w =
     (case validate_config cfg of
        Inl e \<Rightarrow> Some (Inl e, w)
      | Inr _ \<Rightarrow> fetch_all cfg net TABLES [] w)"

text \<open>The process's exit status: \<^verbatim>\<open>sys.exit(n)\<close> gives \<open>n\<close>, an uncaught exception 1.\<close>

fun exit_status :: "py_exc + 'a \<Rightarrow> int" where
  "exit_status (Inl (SystemExit n)) = n"
| "exit_status (Inl _) = 1"
| "exit_status (Inr _) = 0"

section \<open>Steps of the driver\<close>

lemma fetch_all_ok:
  "fetch_table_with_pagination cfg net table_name table_id None w = Some (Inr rows, w1) \<Longrightarrow>
   fetch_all cfg net ((table_name, table_id) # tables) s w =
   fetch_all cfg net tables (AList.update table_name (Success (length rows)) s)
     (export_to_json cfg table_name rows w1)"
  by simp

lemma fetch_all_caught:
  "fetch_table_with_pagination cfg net table_name table_id None w = Some (Inl e, w1) \<Longrightarrow>
   is_exception e \<Longrightarrow>
   fetch_all cfg net ((table_name, table_id) # tables) s w =
   fetch_all cfg net tables (AList.update table_name (Failed e) s) w1"
  by simp

lemma fetch_all_exit:
  "fetch_table_with_pagination cfg net table_name table_id None w = Some (Inl e, w1) \<Longrightarrow>
   \<not> is_exception e \<Longrightarrow>
   fetch_all cfg net ((table_name, table_id) # tables) s w = Some (Inl e, w1)"
  by simp

lemma export_to_json_requests [simp]:
  "requests (export_to_json cfg n rows w) = requests w"
  "sleeps (export_to_json cfg n rows w) = sleeps w"
  by (simp_all add: export_to_json_def)

lemma snapshot_path_inj [simp]:
  "snapshot_path cfg a = snapshot_path cfg b \<longleftrightarrow> a = b"
  by (simp add: snapshot_path_def path_join_def)

text \<open>A table served as a finite chain of pages is fetched whole, with one request per page.\<close>

lemma fetch_table_served:
  assumes "serves_pages net (length (requests w)) (JStr (initial_url cfg table_id)) pages"
  shows "\<exists>w'. fetch_table_with_pagination cfg net table_name table_id None w =
                Some (Inr (concat (map fst pages)), w') \<and>
              length (requests w') = length (requests w) + length pages \<and>
              sleeps w' = sleeps w \<and> fsys w' = fsys w"
  using paginate_chain [OF assms, of "[]"] by (simp add: fetch_table_with_pagination_def)

section \<open>Properties of the driver\<close>

text \<open>
  C6 (configuration check): with an empty token the Fetcher exits with status 1 before
  any request and without writing a file.
\<close>

theorem fetch_main_no_token:
  assumes "baserow_token cfg = []"
  shows "fetch_main cfg net w = Some (Inl (SystemExit 1), w)"
  using assms by (simp add: fetch_main_def validate_config_def)

theorem fetch_main_no_token_witness:
  "fetch_main \<lparr>baserow_token = [], baserow_base_url = ''b'', baserow_page_size = 5, baserow_output_dir = ''d''\<rparr>
     (\<lambda>u n. RequestException) \<lparr>fsys = Map.empty, requests = [], sleeps = []\<rparr> =
   Some (Inl (SystemExit 1), \<lparr>fsys = Map.empty, requests = [], sleeps = []\<rparr>)"
  by (rule fetch_main_no_token) simp

text \<open>
  C7 (an exhausted retry budget ends the whole run): when every attempt for the first
  page of the first table (companies) meets a retryable outcome, the run ends with
  status 1 after the three requests for that page; the other tables are never requested
  and no snapshot file is written.
\<close>

theorem fetch_main_exit_stops_run:
  assumes "baserow_token cfg \<noteq> []"
    and "\<forall>i<MAX_RETRIES. transient (net (initial_url cfg 813469) (length (requests w) + i))"
  shows "fetch_main cfg net w =
         Some (Inl (SystemExit 1),
               w\<lparr>requests := requests w @ replicate MAX_RETRIES (initial_url cfg 813469),
                  sleeps := sleeps w @ butlast RETRY_DELAYS\<rparr>)"
proof -
  let ?w1 = "w\<lparr>requests := requests w @ replicate MAX_RETRIES (initial_url cfg 813469),
                 sleeps := sleeps w @ butlast RETRY_DELAYS\<rparr>"
  have "get_page net (py_str (JStr (initial_url cfg 813469))) w = (Inl (SystemExit 1), ?w1)"
    using get_page_all_transient [where net = net and url = "initial_url cfg 813469" and w = w, OF assms(2)] by simp
  then have "fetch_table_with_pagination cfg net ''companies'' 813469 None w = Some (Inl (SystemExit 1), ?w1)"
    unfolding fetch_table_with_pagination_def by (rule paginate_request_error [OF initial_url_truthy])
  then show ?thesis
    using assms(1) by (simp add: fetch_main_def validate_config_def TABLES_def)
qed

theorem fetch_main_exit_stops_run_witness:
  "fetch_main \<lparr>baserow_token = ''t'', baserow_base_url = ''b'', baserow_page_size = 5, baserow_output_dir = ''d''\<rparr>
     (\<lambda>u n. Response 503 None) \<lparr>fsys = Map.empty, requests = [], sleeps = []\<rparr> =
   Some (Inl (SystemExit 1),
         \<lparr>fsys = Map.empty,
          requests = replicate 3 (initial_url \<lparr>baserow_token = ''t'', baserow_base_url = ''b'',
                                   baserow_page_size = 5, baserow_output_dir = ''d''\<rparr> 813469),
          sleeps = [1, 2]\<rparr>)"
  using fetch_main_exit_stops_run [of "\<lparr>baserow_token = ''t'', baserow_base_url = ''b'', baserow_page_size = 5,
      baserow_output_dir = ''d''\<rparr>" "\<lambda>u n. Response 503 None" "\<lparr>fsys = Map.empty, requests = [], sleeps = []\<rparr>"]
  by (simp add: MAX_RETRIES_def RETRY_DELAYS_def)

text \<open>The three tables served one after the other as finite chains of pages.\<close>

lemma fetch_main_served:
  assumes "baserow_token cfg \<noteq> []"
    and c: "serves_pages net (length (requests w)) (JStr (initial_url cfg 813469)) pc"
    and t: "serves_pages net (length (requests w) + length pc) (JStr (initial_url cfg 813470)) pt"
    and l: "serves_pages net (length (requests w) + length pc + length pt)
              (JStr (initial_url cfg 813471)) pl"
  shows "\<exists>w'. fetch_main cfg net w =
                Some (Inr [(''companies'', Success (length (concat (map fst pc)))),
                           (''tools'', Success (length (concat (map fst pt)))),
                           (''libraries'', Success (length (concat (map fst pl))))], w') \<and>
              json_load (fsys w') (snapshot_path cfg ''companies'') = Inr (JList (concat (map fst pc))) \<and>
              json_load (fsys w') (snapshot_path cfg ''tools'') = Inr (JList (concat (map fst pt))) \<and>
              json_load (fsys w') (snapshot_path cfg ''libraries'') = Inr (JList (concat (map fst pl)))"
proof -
  obtain w1 where w1: "fetch_table_with_pagination cfg net ''companies'' 813469 None w =
      Some (Inr (concat (map fst pc)), w1)"
    and r1: "length (requests w1) = length (requests w) + length pc" and f1: "fsys w1 = fsys w"
    using fetch_table_served [OF c] by blast
  let ?v1 = "export_to_json cfg ''companies'' (concat (map fst pc)) w1"
  have t': "serves_pages net (length (requests ?v1)) (JStr (initial_url cfg 813470)) pt"
    using t r1 by simp
  obtain w2 where w2: "fetch_table_with_pagination cfg net ''tools'' 813470 None ?v1 =
      Some (Inr (concat (map fst pt)), w2)"
    and r2: "length (requests w2) = length (requests w) + length pc + length pt"
    and f2: "fsys w2 = fsys ?v1"
    using fetch_table_served [OF t'] r1 by auto
  let ?v2 = "export_to_json cfg ''tools'' (concat (map fst pt)) w2"
  have l': "serves_pages net (length (requests ?v2)) (JStr (initial_url cfg 813471)) pl"
    using l r2 by simp
  obtain w3 where w3: "fetch_table_with_pagination cfg net ''libraries'' 813471 None ?v2 =
      Some (Inr (concat (map fst pl)), w3)"
    and f3: "fsys w3 = fsys ?v2"
    using fetch_table_served [OF l'] by blast
  let ?v3 = "export_to_json cfg ''libraries'' (concat (map fst pl)) w3"
  have run: "fetch_main cfg net w =
      Some (Inr [(''companies'', Success (length (concat (map fst pc)))),
                 (''tools'', Success (length (concat (map fst pt)))),
                 (''libraries'', Success (length (concat (map fst pl))))], ?v3)"
    using assms(1) w1 w2 w3 by (simp add: fetch_main_def validate_config_def TABLES_def)
  have "json_load (fsys ?v3) (snapshot_path cfg ''companies'') = Inr (JList (concat (map fst pc)))"
    "json_load (fsys ?v3) (snapshot_path cfg ''tools'') = Inr (JList (concat (map fst pt)))"
    "json_load (fsys ?v3) (snapshot_path cfg ''libraries'') = Inr (JList (concat (map fst pl)))"
    using f2 f3 by (simp_all add: export_to_json_def)
  with run show ?thesis by blast
qed

text \<open>
  C8 (snapshots hold the fetched rows): when the server serves each of the three tables
  as a finite chain of pages, one after the other, the run succeeds with a summary of the
  three row counts, and each table's snapshot file loads back as exactly the rows of its
  pages, in order.
\<close>

theorem fetch_main_snapshots:
  assumes "baserow_token cfg \<noteq> []"
    and c: "serves_pages net (length (requests w)) (JStr (initial_url cfg 813469)) pc"
    and t: "serves_pages net (length (requests w) + length pc) (JStr (initial_url cfg 813470)) pt"
    and l: "serves_pages net (length (requests w) + length pc + length pt)
              (JStr (initial_url cfg 813471)) pl"
  shows "\<exists>w'. fetch_main cfg net w =
                Some (Inr [(''companies'', Success (length (concat (map fst pc)))),
                           (''tools'', Success (length (concat (map fst pt)))),
                           (''libraries'', Success (length (concat (map fst pl))))], w') \<and>
              json_load (fsys w') (snapshot_path cfg ''companies'') = Inr (JList (concat (map fst pc))) \<and>
              json_load (fsys w') (snapshot_path cfg ''tools'') = Inr (JList (concat (map fst pt))) \<and>
              json_load (fsys w') (snapshot_path cfg ''libraries'') = Inr (JList (concat (map fst pl)))"
  using assms by (rule fetch_main_served)

theorem fetch_main_snapshots_witness:
  "\<exists>w'. fetch_main \<lparr>baserow_token = ''t'', baserow_base_url = ''b'', baserow_page_size = 5, baserow_output_dir = ''d''\<rparr>
          (\<lambda>u n. Response 200 (Some (JDict [(''results'', JList [JInt (int n)]), (''next'', JNull)])))
          \<lparr>fsys = Map.empty, requests = [], sleeps = []\<rparr> =
        Some (Inr [(''companies'', Success 1), (''tools'', Success 1), (''libraries'', Success 1)], w') \<and>
        json_load (fsys w') ''d/tools.json'' = Inr (JList [JInt 1])"
proof -
  let ?cfg = "\<lparr>baserow_token = ''t'', baserow_base_url = ''b'', baserow_page_size = 5, baserow_output_dir = ''d''\<rparr>"
  let ?net = "\<lambda>(u::string) n. Response 200 (Some (JDict [(''results'', JList [JInt (int n)]), (''next'', JNull)]))"
  let ?w = "\<lparr>fsys = Map.empty, requests = [], sleeps = []\<rparr>"
  have tok: "baserow_token ?cfg \<noteq> []" by simp
  have s1: "serves_pages ?net (length (requests ?w)) (JStr (initial_url ?cfg 813469)) [([JInt 0], JNull)]"
    by (simp add: initial_url_def)
  have s2: "serves_pages ?net (length (requests ?w) + length [([JInt 0], JNull)])
              (JStr (initial_url ?cfg 813470)) [([JInt 1], JNull)]"
    by (simp add: initial_url_def)
  have s3: "serves_pages ?net (length (requests ?w) + length [([JInt 0], JNull)] + length [([JInt 1], JNull)])
              (JStr (initial_url ?cfg 813471)) [([JInt 2], JNull)]"
    by (simp add: initial_url_def)
  from fetch_main_snapshots [OF tok s1 s2 s3] obtain w' where
    run: "fetch_main ?cfg ?net ?w =
            Some (Inr [(''companies'', Success 1), (''tools'', Success 1), (''libraries'', Success 1)], w')"
    and ld: "json_load (fsys w') (snapshot_path ?cfg ''tools'') = Inr (JList [JInt 1])"
    by auto
  from ld have "json_load (fsys w') ''d/tools.json'' = Inr (JList [JInt 1])"
    by (simp add: snapshot_path_def path_join_def)
  with run show ?thesis by blast
qed

end
