(* ===== verification/Denorm_Enrich.thy ===== *)
theory Denorm_Enrich
  imports Py_Json
begin

text \<open>
  Indexing and enrichment of the Denormalizer (\<^verbatim>\<open>process_for_web.py\<close>: the lookup
  dictionaries of \<^verbatim>\<open>main\<close>, \<^verbatim>\<open>create_web_companies\<close>, \<^verbatim>\<open>create_web_tools\<close>). Rows are
  the raw JSON values of the snapshots; every subscription, \<^verbatim>\<open>.get\<close> and iteration the
  code performs on them is the corresponding builtin of \<open>Py_Json\<close>, with its exceptions.
  A lookup dictionary is an association list from row id to row. The dicts the code
  builds with literal keys are records.
\<close>

section \<open>Lookup dictionaries\<close>

text \<open>\<^verbatim>\<open>{t['id']: t for t in rows}\<close>: a later row with the same id replaces an earlier one.\<close>

fun index_rows :: "json list \<Rightarrow> (json \<times> json) list \<Rightarrow> py_exc + (json \<times> json) list" where
  "index_rows [] d = Inr d"
| "index_rows (r # rs) d =
     ebind (dict_getitem r ''id'') (\<lambda>k. if hashable k then index_rows rs (AList.update k r d) else Inl TypeError)"

definition build_index :: "json \<Rightarrow> py_exc + (json \<times> json) list" where
  "build_index rows = ebind (py_iter rows) (\<lambda>rs. index_rows rs [])"

text \<open>\<^verbatim>\<open>by_id.get(ref['id'])\<close>: \<^verbatim>\<open>None\<close> for a missing key, \<^verbatim>\<open>TypeError\<close> for an unhashable one.\<close>

definition index_get :: "(json \<times> json) list \<Rightarrow> json \<Rightarrow> py_exc + json" where
  "index_get idx k = (if hashable k then Inr (case map_of idx k of None \<Rightarrow> JNull | Some v \<Rightarrow> v) else Inl TypeError)"

section \<open>Resolving a reference list\<close>

text \<open>
  The loop both enrichment functions run over a reference field:
  \<^verbatim>\<open>for ref in refs: row = by_id.get(ref['id']); if row: out.append(summary(row))\<close>.
  A reference whose id is not in the index gives \<^verbatim>\<open>None\<close>, which is falsy: it is dropped.
\<close>

fun resolve_refs ::
  "(json \<Rightarrow> py_exc + 'a) \<Rightarrow> (json \<times> json) list \<Rightarrow> json list \<Rightarrow> py_exc + 'a list"
where
  "resolve_refs summary idx [] = Inr []"
| "resolve_refs summary idx (ref # refs) =
     ebind (dict_getitem ref ''id'') (\<lambda>k. ebind (index_get idx k) (\<lambda>row.
       if py_truthy row
       then ebind (summary row) (\<lambda>s. ebind (resolve_refs summary idx refs) (\<lambda>ss. Inr (s # ss)))
       else resolve_refs summary idx refs))"

section \<open>Companies\<close>

record tool_summary =
  ts_id :: json
  ts_name :: json
  ts_description_short :: json
  ts_description_long :: json
  ts_tags :: "json list"
  ts_rating :: json
  ts_cost :: json
  ts_url :: json

text \<open>\<^verbatim>\<open>[t['value'] for t in tool.get('Tool Tags', [])]\<close>\<close>

definition tag_values :: "json \<Rightarrow> py_exc + json list" where
  "tag_values tool =
     ebind (dict_get tool ''Tool Tags'' (JList [])) (\<lambda>tags.
     ebind (py_iter tags) (mapE (\<lambda>t. dict_getitem t ''value'')))"

definition tool_summary_of :: "json \<Rightarrow> py_exc + tool_summary" where
  "tool_summary_of tool =
     ebind (dict_getitem tool ''UUID'') (\<lambda>tid.
     ebind (dict_getitem tool ''ToolName'') (\<lambda>name.
     ebind (dict_get tool ''Tool Description Short'' (JStr [])) (\<lambda>ds.
     ebind (dict_get tool ''ToolDescription_long'' (JStr [])) (\<lambda>dl.
     ebind (tag_values tool) (\<lambda>tags.
     ebind (dict_get tool ''Overall Rating'' (JStr ''0'')) (\<lambda>rating.
     ebind (dict_get tool ''Annual License Cost'' JNull) (\<lambda>cost.
     ebind (dict_get tool ''URL'' (JStr [])) (\<lambda>url.
     Inr \<lparr>ts_id = tid, ts_name = name, ts_description_short = ds, ts_description_long = dl,
          ts_tags = tags, ts_rating = rating, ts_cost = cost, ts_url = url\<rparr>))))))))"

record web_company =
  wc_id :: json
  wc_name :: json
  wc_url :: json
  wc_notes :: json
  wc_tools :: "tool_summary list"
  wc_tool_count :: nat

definition web_company_of :: "(json \<times> json) list \<Rightarrow> json \<Rightarrow> py_exc + web_company" where
  "web_company_of tools_by_id company =
     ebind (dict_get company ''Tools'' (JList [])) (\<lambda>refs.
     ebind (py_iter refs) (\<lambda>rs.
     ebind (resolve_refs tool_summary_of tools_by_id rs) (\<lambda>company_tools.
     ebind (dict_getitem company ''UUID'') (\<lambda>cid.
     ebind (dict_getitem company ''Company Name'') (\<lambda>name.
     ebind (dict_get company ''URL'' (JStr [])) (\<lambda>url.
     ebind (dict_get company ''Notes'' (JStr [])) (\<lambda>notes.
     Inr \<lparr>wc_id = cid, wc_name = name, wc_url = url, wc_notes = notes,
          wc_tools = company_tools, wc_tool_count = length company_tools\<rparr>)))))))"

definition create_web_companies :: "json \<Rightarrow> (json \<times> json) list \<Rightarrow> py_exc + web_company list" where
  "create_web_companies companies tools_by_id =
     ebind (py_iter companies) (mapE (web_company_of tools_by_id))"

section \<open>Tools\<close>

record company_summary =
  cs_id :: json
  cs_name :: json
  cs_url :: json

definition company_summary_of :: "json \<Rightarrow> py_exc + company_summary" where
  "company_summary_of company =
     ebind (dict_getitem company ''UUID'') (\<lambda>cid.
     ebind (dict_getitem company ''Company Name'') (\<lambda>name.
     ebind (dict_get company ''URL'' (JStr [])) (\<lambda>url.
     Inr \<lparr>cs_id = cid, cs_name = name, cs_url = url\<rparr>)))"

text \<open>
  The tag loop of \<^verbatim>\<open>create_web_tools\<close>: every tag's \<^verbatim>\<open>value\<close> is appended to \<^verbatim>\<open>tags\<close>;
  when the tag has a \<^verbatim>\<open>color\<close>, \<^verbatim>\<open>tag_colors[tag_name] = tag['color']\<close> stores it, so a
  later tag of the same name overwrites the colour in place. The subscription
  \<^verbatim>\<open>tag['value']\<close> has succeeded, so \<^verbatim>\<open>tag\<close> is a dict and \<^verbatim>\<open>'color' in tag\<close> is a
  key test.
\<close>

fun tag_info :: "json list \<Rightarrow> json list \<Rightarrow> (json \<times> json) list \<Rightarrow> py_exc + json list \<times> (json \<times> json) list" where
  "tag_info [] tags tag_colors = Inr (tags, tag_colors)"
| "tag_info (tag # rest) tags tag_colors =
     ebind (dict_getitem tag ''value'') (\<lambda>tag_name.
       case dict_lookup tag ''color'' of
         None \<Rightarrow> tag_info rest (tags @ [tag_name]) tag_colors
       | Some c \<Rightarrow>
           if hashable tag_name
           then tag_info rest (tags @ [tag_name]) (AList.update tag_name c tag_colors)
           else Inl TypeError)"

record web_tool =
  wt_id :: json
  wt_name :: json
  wt_description_short :: json
  wt_description_long :: json
  wt_tags :: "json list"
  wt_tag_colors :: "(json \<times> json) list"
  wt_companies :: "company_summary list"
  wt_rating :: json
  wt_cost :: json
  wt_url :: json
  wt_last_modified :: json

definition web_tool_of :: "(json \<times> json) list \<Rightarrow> json \<Rightarrow> py_exc + web_tool" where
  "web_tool_of companies_by_id tool =
     ebind (dict_get tool ''ToolCompany'' (JList [])) (\<lambda>refs.
     ebind (py_iter refs) (\<lambda>rs.
     ebind (resolve_refs company_summary_of companies_by_id rs) (\<lambda>tool_companies.
     ebind (dict_get tool ''Tool Tags'' (JList [])) (\<lambda>tt.
     ebind (py_iter tt) (\<lambda>tl.
     ebind (tag_info tl [] []) (\<lambda>(tags, tag_colors).
     ebind (dict_getitem tool ''UUID'') (\<lambda>tid.
     ebind (dict_getitem tool ''ToolName'') (\<lambda>name.
     ebind (dict_get tool ''Tool Description Short'' (JStr [])) (\<lambda>ds.
     ebind (dict_get tool ''ToolDescription_long'' (JStr [])) (\<lambda>dl.
     ebind (dict_get tool ''Overall Rating'' (JStr ''0'')) (\<lambda>rating.
     ebind (dict_get tool ''Annual License Cost'' JNull) (\<lambda>cost.
     ebind (dict_get tool ''URL'' (JStr [])) (\<lambda>url.
     ebind (dict_get tool ''Last modified'' (JStr [])) (\<lambda>lm.
     Inr \<lparr>wt_id = tid, wt_name = name, wt_description_short = ds, wt_description_long = dl,
          wt_tags = tags, wt_tag_colors = tag_colors, wt_companies = tool_companies,
          wt_rating = rating, wt_cost = cost, wt_url = url, wt_last_modified = lm\<rparr>))))))))))))))"

definition create_web_tools :: "json \<Rightarrow> (json \<times> json) list \<Rightarrow> py_exc + web_tool list" where
  "create_web_tools tools companies_by_id =
     ebind (py_iter tools) (mapE (web_tool_of companies_by_id))"

section \<open>Abstract view of a reference\<close>

text \<open>The row a reference points to, \<^verbatim>\<open>None\<close> (\<open>JNull\<close>) when it dangles.\<close>

definition ref_target :: "(json \<times> json) list \<Rightarrow> json \<Rightarrow> json" where
  "ref_target idx ref =
     (case dict_getitem ref ''id'' of
        Inr k \<Rightarrow> (case map_of idx k of Some t \<Rightarrow> t | None \<Rightarrow> JNull)
      | Inl _ \<Rightarrow> JNull)"

text \<open>A well-formed reference is a dict with a hashable \<^verbatim>\<open>id\<close>.\<close>

definition wf_ref :: "json \<Rightarrow> bool" where
  "wf_ref ref = (case dict_getitem ref ''id'' of Inr k \<Rightarrow> hashable k | Inl _ \<Rightarrow> False)"

declare wf_ref_def [wf_simps]

text \<open>The \<^verbatim>\<open>(value, color)\<close> pairs of the coloured tags of a tag list, in order.\<close>

definition colored_tags :: "json list \<Rightarrow> (json \<times> json) list" where
  "colored_tags tgs =
     [(the (dict_lookup tag ''value''), the (dict_lookup tag ''color'')). tag \<leftarrow> tgs, dict_lookup tag ''color'' \<noteq> None]"

section \<open>The lookup dictionary\<close>

text \<open>The last row carrying an id is the one the dictionary keeps.\<close>

lemma index_rows_lookup:
  "index_rows rs d = Inr idx \<Longrightarrow>
   map_of idx k = (case rev (filter (\<lambda>t. dict_getitem t ''id'' = Inr k) rs) of
                     [] \<Rightarrow> map_of d k
                   | t # _ \<Rightarrow> Some t)"
proof (induction rs arbitrary: d)
  case Nil
  then show ?case by simp
next
  case (Cons r rs)
  from Cons.prems obtain k' where k': "dict_getitem r ''id'' = Inr k'" and h: "hashable k'"
    and rest: "index_rows rs (AList.update k' r d) = Inr idx"
    by (auto simp: ebind_eq_Inr split: if_splits)
  show ?case
    using Cons.IH [OF rest] k' by (auto split: list.splits)
qed

lemma index_rows_sound:
  "index_rows rs [] = Inr idx \<Longrightarrow> map_of idx k = Some t \<Longrightarrow>
   t \<in> set rs \<and> dict_getitem t ''id'' = Inr k"
proof -
  assume ix: "index_rows rs [] = Inr idx" and m: "map_of idx k = Some t"
  then have "(case rev (filter (\<lambda>t. dict_getitem t ''id'' = Inr k) rs) of [] \<Rightarrow> None | t # _ \<Rightarrow> Some t) = Some t"
    using index_rows_lookup [OF ix, of k] m by (auto split: list.splits)
  then obtain ts where "rev (filter (\<lambda>t. dict_getitem t ''id'' = Inr k) rs) = t # ts"
    by (auto split: list.splits)
  then have "t \<in> set (filter (\<lambda>t. dict_getitem t ''id'' = Inr k) rs)"
    by (metis list.set_intros(1) set_rev)
  then show ?thesis by simp
qed

section \<open>The reference loop\<close>

lemma resolve_refs_sound:
  "resolve_refs summary idx refs = Inr xs \<Longrightarrow> x \<in> set xs \<Longrightarrow>
   \<exists>ref \<in> set refs. \<exists>k t. dict_getitem ref ''id'' = Inr k \<and> map_of idx k = Some t \<and> summary t = Inr x"
proof (induction refs arbitrary: xs)
  case Nil
  then show ?case by simp
next
  case (Cons ref refs)
  from Cons.prems(1) obtain k row where k: "dict_getitem ref ''id'' = Inr k"
    and row: "index_get idx k = Inr row"
    and rest: "(if py_truthy row
                then ebind (summary row) (\<lambda>s. ebind (resolve_refs summary idx refs) (\<lambda>ss. Inr (s # ss)))
                else resolve_refs summary idx refs) = Inr xs"
    by (auto simp: ebind_eq_Inr)
  show ?case
  proof (cases "py_truthy row")
    case True
    with rest obtain s ss where s: "summary row = Inr s" and ss: "resolve_refs summary idx refs = Inr ss"
      and xs: "xs = s # ss"
      by (auto simp: ebind_eq_Inr)
    from True row have "map_of idx k = Some row"
      by (auto simp: index_get_def split: if_splits option.splits)
    with k s xs Cons.IH [OF ss] Cons.prems(2) show ?thesis by auto
  next
    case False
    with rest Cons.IH Cons.prems(2) show ?thesis by auto
  qed
qed

text \<open>On well-formed references the loop is a map over the targets that are truthy.\<close>

lemma resolve_refs_spec:
  "list_all wf_ref refs \<Longrightarrow>
   resolve_refs summary idx refs = mapE summary (filter py_truthy (map (ref_target idx) refs))"
proof (induction refs)
  case Nil
  then show ?case by simp
next
  case (Cons ref refs)
  then obtain k where k: "dict_getitem ref ''id'' = Inr k" and h: "hashable k"
    by (auto simp: wf_ref_def split: sum.splits)
  have tgt: "index_get idx k = Inr (ref_target idx ref)"
    using k h by (simp add: index_get_def ref_target_def)
  show ?case
    using Cons k tgt by simp
qed

lemma resolve_refs_length:
  "list_all wf_ref refs \<Longrightarrow> resolve_refs summary idx refs = Inr xs \<Longrightarrow>
   length xs = length (filter py_truthy (map (ref_target idx) refs))"
  by (simp add: resolve_refs_spec mapE_length)

lemma resolve_refs_ok:
  "list_all wf_ref refs \<Longrightarrow>
   (\<And>r. r \<in> set refs \<Longrightarrow> py_truthy (ref_target idx r) \<Longrightarrow> \<exists>y. summary (ref_target idx r) = Inr y) \<Longrightarrow>
   \<exists>xs. resolve_refs summary idx refs = Inr xs"
  by (simp add: resolve_refs_spec) (rule mapE_ok, auto)



section \<open>Properties of company enrichment\<close>

lemma web_company_of_Inr:
  "web_company_of idx company = Inr c \<Longrightarrow>
   \<exists>refs rs. dict_get company ''Tools'' (JList []) = Inr refs \<and> py_iter refs = Inr rs \<and>
             resolve_refs tool_summary_of idx rs = Inr (wc_tools c) \<and>
             wc_tool_count c = length (wc_tools c)"
  by (auto simp: web_company_of_def ebind_eq_Inr)

lemma create_web_companies_Inr:
  assumes "create_web_companies companies idx = Inr wcs"
  shows "(\<exists>cs. py_iter companies = Inr cs \<and> length wcs = length cs) \<and>
         (\<forall>c \<in> set wcs. wc_tool_count c = length (wc_tools c))"
proof -
  obtain cs where i: "py_iter companies = Inr cs" and m: "mapE (web_company_of idx) cs = Inr wcs"
    using assms by (auto simp: create_web_companies_def ebind_eq_Inr)
  have "\<forall>c \<in> set wcs. wc_tool_count c = length (wc_tools c)"
  proof
    fix c assume "c \<in> set wcs"
    then obtain i where i: "i < length wcs" and c: "c = wcs ! i" by (auto simp: in_set_conv_nth)
    have "web_company_of idx (cs ! i) = Inr (wcs ! i)"
      using mapE_nth [OF m] i mapE_length [OF m] by simp
    then have "web_company_of idx (cs ! i) = Inr c" using c by simp
    then show "wc_tool_count c = length (wc_tools c)" using web_company_of_Inr by blast
  qed
  then show ?thesis using i mapE_length [OF m] by auto
qed

lemma dict_getitem_dict_get:
  "dict_getitem j k = Inr v \<Longrightarrow> \<exists>x. dict_get j k' d = Inr x"
  by (auto dest: dict_getitem_Inr_dict)

text \<open>
  C9 (reference resolution is sound): every tool embedded in an enriched company is the
  summary of a row of the tools snapshot whose internal id is the id of one of the
  company's own tool references.
\<close>

theorem web_company_tools_resolved:
  assumes "py_iter tools = Inr tool_rows" and "build_index tools = Inr tools_by_id"
    and "web_company_of tools_by_id company = Inr c" and "s \<in> set (wc_tools c)"
  shows "\<exists>refs rs ref k t. dict_get company ''Tools'' (JList []) = Inr refs \<and> py_iter refs = Inr rs \<and>
           ref \<in> set rs \<and> dict_getitem ref ''id'' = Inr k \<and>
           t \<in> set tool_rows \<and> dict_getitem t ''id'' = Inr k \<and> tool_summary_of t = Inr s"
proof -
  from assms(1,2) have ix: "index_rows tool_rows [] = Inr tools_by_id"
    by (simp add: build_index_def)
  from web_company_of_Inr [OF assms(3)] obtain refs rs where
    refs: "dict_get company ''Tools'' (JList []) = Inr refs" and rs: "py_iter refs = Inr rs"
    and res: "resolve_refs tool_summary_of tools_by_id rs = Inr (wc_tools c)"
    by blast
  from resolve_refs_sound [OF res assms(4)] obtain ref k t where
    "ref \<in> set rs" "dict_getitem ref ''id'' = Inr k" "map_of tools_by_id k = Some t"
    "tool_summary_of t = Inr s"
    by blast
  with index_rows_sound [OF ix] refs rs show ?thesis by blast
qed



theorem web_company_tools_resolved_witness:
  "\<exists>refs rs ref k t. dict_get (JDict [(''id'', JInt 1), (''UUID'', JStr ''c1''), (''Company Name'', JStr ''A''),
                                     (''Tools'', JList [JDict [(''id'', JInt 10)]])]) ''Tools'' (JList []) = Inr refs \<and>
     py_iter refs = Inr rs \<and> ref \<in> set rs \<and> dict_getitem ref ''id'' = Inr k \<and>
     t \<in> set [JDict [(''id'', JInt 10), (''UUID'', JStr ''t1''), (''ToolName'', JStr ''X'')]] \<and>
     dict_getitem t ''id'' = Inr k \<and>
     tool_summary_of t = Inr \<lparr>ts_id = JStr ''t1'', ts_name = JStr ''X'', ts_description_short = JStr [],
        ts_description_long = JStr [], ts_tags = [], ts_rating = JStr ''0'', ts_cost = JNull, ts_url = JStr []\<rparr>"
proof -
  let ?t = "JDict [(''id'', JInt 10), (''UUID'', JStr ''t1''), (''ToolName'', JStr ''X'')]"
  let ?c = "JDict [(''id'', JInt 1), (''UUID'', JStr ''c1''), (''Company Name'', JStr ''A''),
                  (''Tools'', JList [JDict [(''id'', JInt 10)]])]"
  let ?s = "\<lparr>ts_id = JStr ''t1'', ts_name = JStr ''X'', ts_description_short = JStr [],
        ts_description_long = JStr [], ts_tags = [], ts_rating = JStr ''0'', ts_cost = JNull, ts_url = JStr []\<rparr>"
  have i: "py_iter (JList [?t]) = Inr [?t]" by simp
  have b: "build_index (JList [?t]) = Inr [(JInt 10, ?t)]" by (simp add: build_index_def)
  have w: "web_company_of [(JInt 10, ?t)] ?c =
           Inr \<lparr>wc_id = JStr ''c1'', wc_name = JStr ''A'', wc_url = JStr [], wc_notes = JStr [],
                wc_tools = [?s], wc_tool_count = 1\<rparr>"
    by (simp add: web_company_of_def index_get_def tool_summary_of_def tag_values_def)
  show ?thesis
    using web_company_tools_resolved [OF i b w] by simp
qed


text \<open>
  C10 (dangling references are dropped, not errors): for a company with an id and a
  name whose tool references are well formed, and whose resolved targets summarise,
  enrichment succeeds and the tool count is the number of references that resolve to a
  row; references to ids absent from the tools snapshot contribute nothing.
\<close>

theorem web_company_tool_count:
  assumes "dict_get company ''Tools'' (JList []) = Inr refs" and "py_iter refs = Inr rs"
    and "list_all wf_ref rs"
    and "\<forall>r \<in> set rs. py_truthy (ref_target idx r) \<longrightarrow> (\<exists>s. tool_summary_of (ref_target idx r) = Inr s)"
    and "dict_getitem company ''UUID'' = Inr cid" and "dict_getitem company ''Company Name'' = Inr name"
  shows "\<exists>c. web_company_of idx company = Inr c \<and>
             wc_tool_count c = length (filter py_truthy (map (ref_target idx) rs))"
proof -
  have ok: "\<And>r. r \<in> set rs \<Longrightarrow> py_truthy (ref_target idx r) \<Longrightarrow>
              \<exists>y. tool_summary_of (ref_target idx r) = Inr y"
    using assms(4) by blast
  obtain xs where xs: "resolve_refs tool_summary_of idx rs = Inr xs"
    using resolve_refs_ok [where summary = tool_summary_of and idx = idx, OF assms(3) ok] by blast
  have len: "length xs = length (filter py_truthy (map (ref_target idx) rs))"
    by (rule resolve_refs_length [OF assms(3) xs])
  obtain url nts where "dict_get company ''URL'' (JStr []) = Inr url"
    and "dict_get company ''Notes'' (JStr []) = Inr nts"
    using dict_getitem_dict_get [OF assms(5)] by meson
  then have "web_company_of idx company =
      Inr \<lparr>wc_id = cid, wc_name = name, wc_url = url, wc_notes = nts,
           wc_tools = xs, wc_tool_count = length xs\<rparr>"
    using assms(1,2,5,6) xs by (simp add: web_company_of_def)
  with len show ?thesis by auto
qed


theorem web_company_tool_count_witness:
  "\<exists>c. web_company_of [(JInt 10, JDict [(''id'', JInt 10), (''UUID'', JStr ''t1''), (''ToolName'', JStr ''X'')])]
          (JDict [(''id'', JInt 1), (''UUID'', JStr ''c1''), (''Company Name'', JStr ''A''),
                  (''Tools'', JList [JDict [(''id'', JInt 10)], JDict [(''id'', JInt 99)]])]) = Inr c \<and>
       wc_tool_count c = 1"
  using web_company_tool_count
    [of "JDict [(''id'', JInt 1), (''UUID'', JStr ''c1''), (''Company Name'', JStr ''A''),
                (''Tools'', JList [JDict [(''id'', JInt 10)], JDict [(''id'', JInt 99)]])]"
        "JList [JDict [(''id'', JInt 10)], JDict [(''id'', JInt 99)]]"
        "[JDict [(''id'', JInt 10)], JDict [(''id'', JInt 99)]]"
        "[(JInt 10, JDict [(''id'', JInt 10), (''UUID'', JStr ''t1''), (''ToolName'', JStr ''X'')])]"
        "JStr ''c1''" "JStr ''A''"]
  by (simp add: wf_ref_def ref_target_def tool_summary_of_def tag_values_def)



section \<open>Properties of tool enrichment\<close>

lemma tag_info_colors:
  "tag_info tgs tags cols = Inr (tags', cols') \<Longrightarrow>
   map_of cols' n = (case map_of (rev (colored_tags tgs)) n of Some c \<Rightarrow> Some c | None \<Rightarrow> map_of cols n)"
proof (induction tgs arbitrary: tags cols)
  case Nil
  then show ?case by (simp add: colored_tags_def)
next
  case (Cons tag rest)
  from Cons.prems obtain name where v: "dict_getitem tag ''value'' = Inr name"
    by (auto simp: ebind_eq_Inr)
  show ?case
  proof (cases "dict_lookup tag ''color''")
    case None
    with Cons.prems v have "tag_info rest (tags @ [name]) cols = Inr (tags', cols')" by simp
    with None show ?thesis using Cons.IH by (simp add: colored_tags_def)
  next
    case (Some c)
    with Cons.prems v have h: "hashable name"
      and r: "tag_info rest (tags @ [name]) (AList.update name c cols) = Inr (tags', cols')"
      by (auto split: if_splits)
    have "colored_tags (tag # rest) = (name, c) # colored_tags rest"
      using Some dict_getitem_lookup [OF v] by (simp add: colored_tags_def)
    then show ?thesis
      using Cons.IH [OF r] by (auto simp: map_of_append update_conv' split: option.splits)
  qed
qed

lemma web_tool_of_Inr:
  "web_tool_of idx tool = Inr t \<Longrightarrow>
   \<exists>tt tgs. dict_get tool ''Tool Tags'' (JList []) = Inr tt \<and> py_iter tt = Inr tgs \<and>
          tag_info tgs [] [] = Inr (wt_tags t, wt_tag_colors t)"
  by (auto simp: web_tool_of_def ebind_eq_Inr split: prod.splits)

text \<open>
  C14 (a tool's colour map keeps the last colour): in an enriched tool, each tag name is
  mapped to the colour of its last coloured occurrence in the tool's own tag list.
\<close>

theorem web_tool_tag_colors_last:
  assumes "web_tool_of idx tool = Inr t"
    and "dict_get tool ''Tool Tags'' (JList []) = Inr tt" and "py_iter tt = Inr tgs"
  shows "map_of (wt_tag_colors t) n = map_of (rev (colored_tags tgs)) n"
proof -
  from web_tool_of_Inr [OF assms(1)] assms(2,3)
  have "tag_info tgs [] [] = Inr (wt_tags t, wt_tag_colors t)" by auto
  from tag_info_colors [OF this] show ?thesis by (simp split: option.splits)
qed

theorem web_tool_tag_colors_last_witness:
  "web_tool_of [] (JDict [(''id'', JInt 1), (''UUID'', JStr ''u''), (''ToolName'', JStr ''X''),
      (''Tool Tags'', JList [JDict [(''value'', JStr ''ml''), (''color'', JStr ''red'')],
                             JDict [(''value'', JStr ''ml''), (''color'', JStr ''blue'')]])]) =
     Inr \<lparr>wt_id = JStr ''u'', wt_name = JStr ''X'', wt_description_short = JStr [],
          wt_description_long = JStr [], wt_tags = [JStr ''ml'', JStr ''ml''],
          wt_tag_colors = [(JStr ''ml'', JStr ''blue'')], wt_companies = [], wt_rating = JStr ''0'',
          wt_cost = JNull, wt_url = JStr [], wt_last_modified = JStr []\<rparr> \<and>
   map_of [(JStr ''ml'', JStr ''blue'')] (JStr ''ml'') =
     map_of (rev (colored_tags [JDict [(''value'', JStr ''ml''), (''color'', JStr ''red'')],
                                JDict [(''value'', JStr ''ml''), (''color'', JStr ''blue'')]])) (JStr ''ml'')"
proof -
  let ?tl = "[JDict [(''value'', JStr ''ml''), (''color'', JStr ''red'')],
              JDict [(''value'', JStr ''ml''), (''color'', JStr ''blue'')]]"
  let ?tool = "JDict [(''id'', JInt 1), (''UUID'', JStr ''u''), (''ToolName'', JStr ''X''), (''Tool Tags'', JList ?tl)]"
  let ?t = "\<lparr>wt_id = JStr ''u'', wt_name = JStr ''X'', wt_description_short = JStr [],
          wt_description_long = JStr [], wt_tags = [JStr ''ml'', JStr ''ml''],
          wt_tag_colors = [(JStr ''ml'', JStr ''blue'')], wt_companies = [], wt_rating = JStr ''0'',
          wt_cost = JNull, wt_url = JStr [], wt_last_modified = JStr []\<rparr>"
  have w: "web_tool_of [] ?tool = Inr ?t"
    by (simp add: web_tool_of_def)
  have "map_of (wt_tag_colors ?t) (JStr ''ml'') = map_of (rev (colored_tags ?tl)) (JStr ''ml'')"
    by (rule web_tool_tag_colors_last [OF w, where tt = "JList ?tl" and tgs = ?tl]) simp_all
  with w show ?thesis by simp
qed

end
