(* ===== verification/Denorm_Index.thy ===== *)
theory Denorm_Index
  imports Denorm_Enrich "HOL-Library.Sublist"
begin

text \<open>
  The derived artifacts of the Denormalizer (\<^verbatim>\<open>process_for_web.py\<close>:
  \<^verbatim>\<open>create_search_index\<close>, \<^verbatim>\<open>extract_all_tags\<close>, \<^verbatim>\<open>calculate_stats\<close>), computed
  from the enriched companies and tools. The string operations raise as in Python:
  \<^verbatim>\<open>.lower()\<close> needs a string, \<^verbatim>\<open>' '.join\<close> a list of strings, and \<^verbatim>\<open>sorted\<close> keys
  that compare.
\<close>

section \<open>Search index\<close>

datatype index_entry =
    CompanyEntry json json json string nat
  | ToolEntry json json json "json list" string nat

text \<open>What identifies an entry: its \<^verbatim>\<open>type\<close> and \<^verbatim>\<open>id\<close> fields.\<close>

fun entry_key :: "index_entry \<Rightarrow> string \<times> json" where
  "entry_key (CompanyEntry eid _ _ _ _) = (''company'', eid)"
| "entry_key (ToolEntry eid _ _ _ _ _) = (''tool'', eid)"

fun entry_search_text :: "index_entry \<Rightarrow> string" where
  "entry_search_text (CompanyEntry _ _ _ st _) = st"
| "entry_search_text (ToolEntry _ _ _ _ st _) = st"

text \<open>\<^verbatim>\<open>v.lower()\<close> on a JSON value: only strings have the method.\<close>

fun py_lower_json :: "json \<Rightarrow> py_exc + string" where
  "py_lower_json (JStr s) = Inr (py_lower s)"
| "py_lower_json _ = Inl AttributeError"

definition company_entry :: "web_company \<Rightarrow> py_exc + index_entry" where
  "company_entry company =
     ebind (py_lower_json (wc_name company)) (\<lambda>search_text.
     Inr (CompanyEntry (wc_id company) (wc_name company) (wc_url company) search_text
            (wc_tool_count company)))"

definition tool_entry :: "web_tool \<Rightarrow> py_exc + index_entry" where
  "tool_entry tool =
     ebind (py_join '' '' (wt_tags tool)) (\<lambda>tags_joined.
     ebind (py_join '' '' (map cs_name (wt_companies tool))) (\<lambda>companies_joined.
     Inr (ToolEntry (wt_id tool) (wt_name tool) (wt_url tool) (wt_tags tool)
            (py_lower (py_str (wt_name tool) @ '' '' @ py_lower tags_joined @ '' '' @
                       py_lower companies_joined))
            (length (wt_companies tool)))))"

definition create_search_index :: "web_company list \<Rightarrow> web_tool list \<Rightarrow> py_exc + index_entry list" where
  "create_search_index companies tools =
     ebind (mapE company_entry companies) (\<lambda>company_entries.
     ebind (mapE tool_entry tools) (\<lambda>tool_entries.
     Inr (company_entries @ tool_entries)))"

section \<open>Tag catalog\<close>

text \<open>
  \<^verbatim>\<open>for name, color in tool.get('tag_colors', {}).items():
      if name not in tags_dict: tags_dict[name] = color\<close>
\<close>

fun first_colors :: "(json \<times> json) list \<Rightarrow> (json \<times> json) list \<Rightarrow> (json \<times> json) list" where
  "first_colors [] tags_dict = tags_dict"
| "first_colors ((name, color) # rest) tags_dict =
     first_colors rest (if map_of tags_dict name = None then tags_dict @ [(name, color)] else tags_dict)"

fun collect_tag_colors :: "web_tool list \<Rightarrow> (json \<times> json) list \<Rightarrow> (json \<times> json) list" where
  "collect_tag_colors [] tags_dict = tags_dict"
| "collect_tag_colors (tool # tools) tags_dict =
     collect_tag_colors tools (first_colors (wt_tag_colors tool) tags_dict)"

record tag_entry =
  tag_name :: json
  tag_color :: json

definition extract_all_tags :: "web_tool list \<Rightarrow> py_exc + tag_entry list" where
  "extract_all_tags tools =
     ebind (py_sorted_items (collect_tag_colors tools [])) (\<lambda>items.
     Inr (map (\<lambda>(name, color). \<lparr>tag_name = name, tag_color = color\<rparr>) items))"

section \<open>Statistics\<close>

record stats =
  total_companies :: nat
  total_tools :: nat
  companies_with_tools :: nat
  tools_with_companies :: nat
  total_tags :: nat

definition calculate_stats :: "web_company list \<Rightarrow> web_tool list \<Rightarrow> py_exc + stats" where
  "calculate_stats companies tools =
     ebind (extract_all_tags tools) (\<lambda>all_tags.
     Inr \<lparr>total_companies = length companies,
          total_tools = length tools,
          companies_with_tools = length (filter (\<lambda>c. 0 < wc_tool_count c) companies),
          tools_with_companies = length (filter (\<lambda>t. 0 < length (wt_companies t)) tools),
          total_tags = length all_tags\<rparr>)"


section \<open>The tag dictionary\<close>

lemma first_colors_lookup:
  "map_of (first_colors kvs d) n = (case map_of d n of Some c \<Rightarrow> Some c | None \<Rightarrow> map_of kvs n)"
  by (induction kvs d rule: first_colors.induct) (auto simp: map_of_append split: option.splits)

lemma first_colors_keys:
  "fst ` set (first_colors kvs d) = fst ` set d \<union> fst ` set kvs"
  by (induction kvs d rule: first_colors.induct) (auto simp: map_of_eq_None_iff)

lemma first_colors_distinct:
  "distinct (map fst d) \<Longrightarrow> distinct (map fst (first_colors kvs d))"
  by (induction kvs d rule: first_colors.induct) (auto simp: map_of_eq_None_iff)

lemma collect_tag_colors_lookup:
  "map_of (collect_tag_colors tools d) n =
   (case map_of d n of Some c \<Rightarrow> Some c | None \<Rightarrow> map_of (concat (map wt_tag_colors tools)) n)"
  by (induction tools arbitrary: d) (auto simp: first_colors_lookup map_of_append map_add_def split: option.splits)

lemma collect_tag_colors_keys:
  "fst ` set (collect_tag_colors tools d) = fst ` set d \<union> fst ` set (concat (map wt_tag_colors tools))"
  by (induction tools arbitrary: d) (auto simp: first_colors_keys)

lemma collect_tag_colors_distinct:
  "distinct (map fst d) \<Longrightarrow> distinct (map fst (collect_tag_colors tools d))"
  by (induction tools arbitrary: d) (auto simp: first_colors_distinct)

lemma collect_tag_colors_mem:
  "kv \<in> set (collect_tag_colors tools []) \<Longrightarrow> map_of (concat (map wt_tag_colors tools)) (fst kv) = Some (snd kv)"
proof -
  assume kv: "kv \<in> set (collect_tag_colors tools [])"
  have "distinct (map fst (collect_tag_colors tools []))"
    by (rule collect_tag_colors_distinct) simp
  with kv have "map_of (collect_tag_colors tools []) (fst kv) = Some (snd kv)"
    by (metis map_of_is_SomeI prod.collapse)
  then show ?thesis by (simp add: collect_tag_colors_lookup)
qed

section \<open>Properties of the tag catalog and the search index\<close>

lemma tag_entries_names:
  "map tag_name (map (\<lambda>(name, color). \<lparr>tag_name = name, tag_color = color\<rparr>) xs) = map fst xs"
  by (induction xs) auto

lemma tag_entries_set:
  "e \<in> set (map (\<lambda>(name, color). \<lparr>tag_name = name, tag_color = color\<rparr>) xs) \<Longrightarrow>
   (tag_name e, tag_color e) \<in> set xs"
  by auto

lemma extract_all_tags_props:
  assumes "\<forall>t \<in> set tools. \<forall>kv \<in> set (wt_tag_colors t). \<exists>s. fst kv = JStr s"
  shows "\<exists>cat. extract_all_tags tools = Inr cat \<and>
           sorted (map (\<lambda>e. the (str_key (tag_name e))) cat) \<and>
           distinct (map tag_name cat) \<and>
           tag_name ` set cat = fst ` set (concat (map wt_tag_colors tools)) \<and>
           (\<forall>e \<in> set cat. map_of (concat (map wt_tag_colors tools)) (tag_name e) = Some (tag_color e))"
proof -
  let ?d = "collect_tag_colors tools []"
  let ?k = "\<lambda>kv. the (str_key (fst kv))"
  let ?mk = "\<lambda>(name, color). \<lparr>tag_name = name, tag_color = color\<rparr>"
  let ?cat = "map ?mk (sort_key ?k ?d)"
  have strs: "list_all (\<lambda>kv. \<exists>s. fst kv = JStr s) ?d"
  proof (unfold list_all_iff, rule ballI)
    fix kv assume "kv \<in> set ?d"
    then have "fst kv \<in> fst ` set (concat (map wt_tag_colors tools))"
      using collect_tag_colors_keys [of tools "[]"] by auto
    with assms show "\<exists>s. fst kv = JStr s" by fastforce
  qed
  have ext: "extract_all_tags tools = Inr ?cat"
    using py_sorted_items_strings [OF strs] by (simp add: extract_all_tags_def)
  have names: "map tag_name ?cat = map fst (sort_key ?k ?d)"
    by (rule tag_entries_names)
  have perm: "mset (sort_key ?k ?d) = mset ?d"
    by (rule mset_sort)
  have "sorted (map ?k (sort_key ?k ?d))"
    by (rule sorted_sort_key)
  moreover have "map (\<lambda>e. the (str_key (tag_name e))) ?cat = map ?k (sort_key ?k ?d)"
  proof -
    have "map (\<lambda>e. the (str_key (tag_name e))) ?cat = map (\<lambda>n. the (str_key n)) (map tag_name ?cat)"
      by simp
    also have "\<dots> = map ?k (sort_key ?k ?d)"
      unfolding names by simp
    finally show ?thesis .
  qed
  ultimately have sorted: "sorted (map (\<lambda>e. the (str_key (tag_name e))) ?cat)"
    by (simp only:)
  have "distinct (map fst ?d)"
    by (rule collect_tag_colors_distinct) simp
  moreover have "mset (map fst (sort_key ?k ?d)) = mset (map fst ?d)"
    using perm by (metis mset_map)
  ultimately have dist: "distinct (map tag_name ?cat)"
    using names mset_eq_imp_distinct_iff by metis
  have setk: "set (sort_key ?k ?d) = set ?d"
    using perm by (metis set_mset_mset)
  have keys: "tag_name ` set ?cat = fst ` set (concat (map wt_tag_colors tools))"
    using names setk collect_tag_colors_keys [of tools "[]"] by (metis empty_set image_empty list.set_map sup_bot.left_neutral)
  have first: "\<forall>e \<in> set ?cat. map_of (concat (map wt_tag_colors tools)) (tag_name e) = Some (tag_color e)"
    using setk collect_tag_colors_mem tag_entries_set by fastforce
  show ?thesis
    using ext sorted dist keys first by blast
qed

lemma tool_entry_text:
  "tool_entry t = Inr e \<Longrightarrow>
   \<exists>tj cj. py_join '' '' (wt_tags t) = Inr tj \<and> py_join '' '' (map cs_name (wt_companies t)) = Inr cj \<and>
     entry_search_text e = py_lower (py_str (wt_name t)) @ '' '' @ py_lower tj @ '' '' @ py_lower cj"
  by (auto simp: tool_entry_def ebind_eq_Inr)

text \<open>
  C12 (tool search text): the search text of a tool's index entry starts with the
  lowercased tool name and contains, lowercased, every tag name of the tool and the name
  of every company embedded in it.
\<close>

theorem tool_entry_search_text:
  assumes "tool_entry t = Inr e"
  shows "prefix (py_lower (py_str (wt_name t))) (entry_search_text e) \<and>
         (\<forall>g. JStr g \<in> set (wt_tags t) \<longrightarrow> sublist (py_lower g) (entry_search_text e)) \<and>
         (\<forall>c \<in> set (wt_companies t). \<forall>g. cs_name c = JStr g \<longrightarrow> sublist (py_lower g) (entry_search_text e))"
proof -
  obtain tj cj where tj: "py_join '' '' (wt_tags t) = Inr tj"
    and cj: "py_join '' '' (map cs_name (wt_companies t)) = Inr cj"
    and st: "entry_search_text e = py_lower (py_str (wt_name t)) @ '' '' @ py_lower tj @ '' '' @ py_lower cj"
    using tool_entry_text [OF assms] by blast
  have tags: "sublist (py_lower g) (entry_search_text e)" if "JStr g \<in> set (wt_tags t)" for g
  proof -
    have "sublist (py_lower g) (py_lower tj)"
      using py_join_sublist [OF tj that] by (rule sublist_py_lower)
    then show ?thesis unfolding st
      using sublist_in_middle [of "py_lower g" "py_lower tj" "py_lower (py_str (wt_name t)) @ '' ''"
          "'' '' @ py_lower cj"] by simp
  qed
  have comps: "sublist (py_lower g) (entry_search_text e)"
    if "c \<in> set (wt_companies t)" and "cs_name c = JStr g" for c g
  proof -
    have "JStr g \<in> set (map cs_name (wt_companies t))" using that by force
    then have "sublist (py_lower g) (py_lower cj)"
      using py_join_sublist [OF cj] sublist_py_lower by blast
    then show ?thesis unfolding st
      using sublist_in_middle [of "py_lower g" "py_lower cj"
          "py_lower (py_str (wt_name t)) @ '' '' @ py_lower tj @ '' ''" "[]"] by simp
  qed
  have "prefix (py_lower (py_str (wt_name t))) (entry_search_text e)"
    unfolding st by simp
  with tags comps show ?thesis by blast
qed

theorem tool_entry_search_text_witness:
  "tool_entry \<lparr>wt_id = JStr ''u'', wt_name = JStr ''spark'', wt_description_short = JStr [],
          wt_description_long = JStr [], wt_tags = [JStr ''ml''],
          wt_tag_colors = [], wt_companies = [\<lparr>cs_id = JStr ''c'', cs_name = JStr ''acme'', cs_url = JStr []\<rparr>],
          wt_rating = JStr ''0'', wt_cost = JNull, wt_url = JStr [], wt_last_modified = JStr []\<rparr> =
     Inr (ToolEntry (JStr ''u'') (JStr ''spark'') (JStr []) [JStr ''ml''] ''spark ml acme'' 1) \<and>
   sublist ''ml'' ''spark ml acme'' \<and> sublist ''acme'' ''spark ml acme''"
proof -
  let ?t = "\<lparr>wt_id = JStr ''u'', wt_name = JStr ''spark'', wt_description_short = JStr [],
          wt_description_long = JStr [], wt_tags = [JStr ''ml''],
          wt_tag_colors = [], wt_companies = [\<lparr>cs_id = JStr ''c'', cs_name = JStr ''acme'', cs_url = JStr []\<rparr>],
          wt_rating = JStr ''0'', wt_cost = JNull, wt_url = JStr [], wt_last_modified = JStr []\<rparr>"
  have e: "tool_entry ?t = Inr (ToolEntry (JStr ''u'') (JStr ''spark'') (JStr []) [JStr ''ml''] ''spark ml acme'' 1)"
    by (simp add: tool_entry_def py_lower_def lower_char_def less_eq_char_def)
  from tool_entry_search_text [OF e] e show ?thesis
    by (simp add: py_lower_def lower_char_def less_eq_char_def)
qed

lemma company_entry_key:
  "company_entry c = Inr e \<Longrightarrow> entry_key e = (''company'', wc_id c)"
  by (auto simp: company_entry_def ebind_eq_Inr)

lemma tool_entry_key:
  "tool_entry t = Inr e \<Longrightarrow> entry_key e = (''tool'', wt_id t)"
  by (auto simp: tool_entry_def ebind_eq_Inr)

lemma company_entry_ok:
  "\<exists>s. wc_name c = JStr s \<Longrightarrow> \<exists>e. company_entry c = Inr e"
  by (auto simp: company_entry_def)

lemma tool_entry_ok:
  "\<forall>g \<in> set (wt_tags t). \<exists>s. g = JStr s \<Longrightarrow>
   \<forall>c \<in> set (wt_companies t). \<exists>s. cs_name c = JStr s \<Longrightarrow> \<exists>e. tool_entry t = Inr e"
proof -
  assume tg: "\<forall>g \<in> set (wt_tags t). \<exists>s. g = JStr s"
    and cn: "\<forall>c \<in> set (wt_companies t). \<exists>s. cs_name c = JStr s"
  obtain tj where "py_join '' '' (wt_tags t) = Inr tj" using py_join_ok [OF tg] by blast
  moreover obtain cj where "py_join '' '' (map cs_name (wt_companies t)) = Inr cj"
    using py_join_ok [of "map cs_name (wt_companies t)"] cn by auto
  ultimately show ?thesis by (simp add: tool_entry_def)
qed

text \<open>
  C11 (search index order): when every company name, tool tag and embedded company name
  is a string, the search index is built without error and lists one entry per company,
  in input order, followed by one entry per tool, in input order.
\<close>

theorem create_search_index_order:
  assumes "\<forall>c \<in> set companies. \<exists>s. wc_name c = JStr s"
    and "\<forall>t \<in> set tools. (\<forall>g \<in> set (wt_tags t). \<exists>s. g = JStr s) \<and>
                          (\<forall>c \<in> set (wt_companies t). \<exists>s. cs_name c = JStr s)"
  shows "\<exists>idx. create_search_index companies tools = Inr idx \<and>
           map entry_key idx = map (\<lambda>c. (''company'', wc_id c)) companies @ map (\<lambda>t. (''tool'', wt_id t)) tools"
proof -
  obtain ci where ci: "mapE company_entry companies = Inr ci"
    using mapE_ok [of companies company_entry] assms(1) company_entry_ok by blast
  obtain ti where ti: "mapE tool_entry tools = Inr ti"
    using mapE_ok [of tools tool_entry] assms(2) tool_entry_ok by blast
  have "map entry_key ci = map (\<lambda>c. (''company'', wc_id c)) companies"
    by (rule mapE_map_eq [OF ci company_entry_key])
  moreover have "map entry_key ti = map (\<lambda>t. (''tool'', wt_id t)) tools"
    by (rule mapE_map_eq [OF ti tool_entry_key])
  ultimately show ?thesis
    using ci ti by (simp add: create_search_index_def)
qed

theorem create_search_index_order_witness:
  "\<exists>idx. create_search_index
       [\<lparr>wc_id = JStr ''c1'', wc_name = JStr ''a'', wc_url = JStr [], wc_notes = JStr [], wc_tools = [],
         wc_tool_count = 0\<rparr>]
       [\<lparr>wt_id = JStr ''t1'', wt_name = JStr ''x'', wt_description_short = JStr [],
          wt_description_long = JStr [], wt_tags = [JStr ''ml''], wt_tag_colors = [], wt_companies = [],
          wt_rating = JStr ''0'', wt_cost = JNull, wt_url = JStr [], wt_last_modified = JStr []\<rparr>] = Inr idx \<and>
     map entry_key idx = [(''company'', JStr ''c1''), (''tool'', JStr ''t1'')]"
  using create_search_index_order
    [of "[\<lparr>wc_id = JStr ''c1'', wc_name = JStr ''a'', wc_url = JStr [], wc_notes = JStr [], wc_tools = [],
         wc_tool_count = 0\<rparr>]"
        "[\<lparr>wt_id = JStr ''t1'', wt_name = JStr ''x'', wt_description_short = JStr [],
          wt_description_long = JStr [], wt_tags = [JStr ''ml''], wt_tag_colors = [], wt_companies = [],
          wt_rating = JStr ''0'', wt_cost = JNull, wt_url = JStr [], wt_last_modified = JStr []\<rparr>]"]
  by simp

text \<open>
  C13 (tag catalog): when every coloured tag name of the enriched tools is a string, the
  catalog is computed without error; it is sorted by name, lists every coloured tag name
  exactly once, and gives each name the colour of its first occurrence in the tools'
  colour maps, taken in tool order.
\<close>

theorem extract_all_tags_catalog:
  assumes "\<forall>t \<in> set tools. \<forall>kv \<in> set (wt_tag_colors t). \<exists>s. fst kv = JStr s"
  shows "\<exists>cat. extract_all_tags tools = Inr cat \<and>
           sorted (map (\<lambda>e. the (str_key (tag_name e))) cat) \<and>
           distinct (map tag_name cat) \<and>
           tag_name ` set cat = fst ` set (concat (map wt_tag_colors tools)) \<and>
           (\<forall>e \<in> set cat. map_of (concat (map wt_tag_colors tools)) (tag_name e) = Some (tag_color e))"
  by (rule extract_all_tags_props [OF assms])

theorem extract_all_tags_catalog_witness:
  "(\<exists>cat. extract_all_tags [\<lparr>wt_id = JStr ''t1'', wt_name = JStr ''x'', wt_description_short = JStr [],
          wt_description_long = JStr [], wt_tags = [JStr ''ml'', JStr ''ai''],
          wt_tag_colors = [(JStr ''ml'', JStr ''blue''), (JStr ''ai'', JStr ''red'')], wt_companies = [],
          wt_rating = JStr ''0'', wt_cost = JNull, wt_url = JStr [], wt_last_modified = JStr []\<rparr>] = Inr cat \<and>
      distinct (map tag_name cat))"
proof -
  let ?t = "\<lparr>wt_id = JStr ''t1'', wt_name = JStr ''x'', wt_description_short = JStr [],
          wt_description_long = JStr [], wt_tags = [JStr ''ml'', JStr ''ai''],
          wt_tag_colors = [(JStr ''ml'', JStr ''blue''), (JStr ''ai'', JStr ''red'')], wt_companies = [],
          wt_rating = JStr ''0'', wt_cost = JNull, wt_url = JStr [], wt_last_modified = JStr []\<rparr>"
  have h: "\<forall>t \<in> set [?t]. \<forall>kv \<in> set (wt_tag_colors t). \<exists>s. fst kv = JStr s" by simp
  from extract_all_tags_catalog [OF h] h show ?thesis by blast
qed

text \<open>
  C15 (statistics): for the companies create_web_companies builds and tools whose coloured tag names are strings, the statistics are computed: the company total is the number of raw companies, the tool total the number of tools, a company counts as having tools exactly when its list of resolved tools is non-empty, a tool counts as having companies exactly when its list of companies is non-empty, and the tag total is the number of distinct coloured tag names across the tools.
\<close>

theorem calculate_stats_counts:
  assumes wcs: "create_web_companies companies tools_by_id = Inr wcs"
    and tags: "\<forall>t \<in> set tools. \<forall>kv \<in> set (wt_tag_colors t). \<exists>s. fst kv = JStr s"
  shows "\<exists>cs st. py_iter companies = Inr cs \<and> calculate_stats wcs tools = Inr st \<and>
           total_companies st = length cs \<and> total_tools st = length tools \<and>
           companies_with_tools st = length (filter (\<lambda>c. wc_tools c \<noteq> []) wcs) \<and>
           tools_with_companies st = length (filter (\<lambda>t. wt_companies t \<noteq> []) tools) \<and>
           total_tags st = card (fst ` set (concat (map wt_tag_colors tools)))"
proof -
  obtain cat where cat: "extract_all_tags tools = Inr cat" and d: "distinct (map tag_name cat)"
    and names: "tag_name ` set cat = fst ` set (concat (map wt_tag_colors tools))"
    using extract_all_tags_props [OF tags] by blast
  have n: "length cat = card (fst ` set (concat (map wt_tag_colors tools)))"
    using distinct_card [OF d] names by simp
  obtain cs where i: "py_iter companies = Inr cs" and l: "length wcs = length cs"
    and cnt: "\<forall>c \<in> set wcs. wc_tool_count c = length (wc_tools c)"
    using create_web_companies_Inr [OF wcs] by blast
  have "filter (\<lambda>c. 0 < wc_tool_count c) wcs = filter (\<lambda>c. wc_tools c \<noteq> []) wcs"
    using cnt by (intro filter_cong) auto
  moreover have "filter (\<lambda>t. 0 < length (wt_companies t)) tools = filter (\<lambda>t. wt_companies t \<noteq> []) tools"
    by (intro filter_cong) auto
  ultimately show ?thesis
    using cat n i l by (simp add: calculate_stats_def)
qed

theorem calculate_stats_counts_witness:
  "\<exists>wcs cs st. create_web_companies (JList [JDict [(''UUID'', JStr ''c1''), (''Company Name'', JStr ''Acme'')],
        JDict [(''UUID'', JStr ''c2''), (''Company Name'', JStr ''Beta''), (''Tools'', JList [JDict [(''id'', JInt 7)]])]]) [(JInt 7, JDict [(''UUID'', JStr ''t1''), (''ToolName'', JStr ''x'')])] = Inr wcs \<and>
     py_iter (JList [JDict [(''UUID'', JStr ''c1''), (''Company Name'', JStr ''Acme'')],
        JDict [(''UUID'', JStr ''c2''), (''Company Name'', JStr ''Beta''), (''Tools'', JList [JDict [(''id'', JInt 7)]])]]) = Inr cs \<and>
     calculate_stats wcs [\<lparr>wt_id = JStr ''t1'', wt_name = JStr ''x'', wt_description_short = JStr [],
          wt_description_long = JStr [], wt_tags = [JStr ''ml''],
          wt_tag_colors = [(JStr ''ml'', JStr ''blue'')], wt_companies = [],
          wt_rating = JStr ''0'', wt_cost = JNull, wt_url = JStr [], wt_last_modified = JStr []\<rparr>] = Inr st \<and>
     total_companies st = 2 \<and> companies_with_tools st = 1 \<and> tools_with_companies st = 0 \<and> total_tags st = 1"
proof -
  obtain wcs where w: "create_web_companies (JList [JDict [(''UUID'', JStr ''c1''), (''Company Name'', JStr ''Acme'')],
        JDict [(''UUID'', JStr ''c2''), (''Company Name'', JStr ''Beta''), (''Tools'', JList [JDict [(''id'', JInt 7)]])]]) [(JInt 7, JDict [(''UUID'', JStr ''t1''), (''ToolName'', JStr ''x'')])] = Inr wcs"
    and k: "length (filter (\<lambda>c. wc_tools c \<noteq> []) wcs) = 1"
    by (simp add: create_web_companies_def web_company_of_def index_get_def tool_summary_of_def tag_values_def)
  have h: "\<forall>t \<in> set [\<lparr>wt_id = JStr ''t1'', wt_name = JStr ''x'', wt_description_short = JStr [],
          wt_description_long = JStr [], wt_tags = [JStr ''ml''],
          wt_tag_colors = [(JStr ''ml'', JStr ''blue'')], wt_companies = [],
          wt_rating = JStr ''0'', wt_cost = JNull, wt_url = JStr [], wt_last_modified = JStr []\<rparr>]. \<forall>kv \<in> set (wt_tag_colors t). \<exists>s. fst kv = JStr s" by simp
  from calculate_stats_counts [OF w h] k w show ?thesis by auto
qed

end
