(* ===== verification/Denorm_Main.thy ===== *)
theory Denorm_Main
  imports Denorm_Index
begin

text \<open>
  The Denormalizer's driver (\<^verbatim>\<open>process_for_web.py\<close>: \<^verbatim>\<open>load_snapshots\<close>, \<^verbatim>\<open>main\<close>). The
  script's directory \<^verbatim>\<open>Path(__file__).parent.parent\<close> is the parameter \<open>root\<close>; the
  snapshots are read from \<open>root/data/snapshots\<close> and the six artifacts written to
  \<open>root/data/web\<close>, in the order of the code. The web records are turned into the JSON
  values \<^verbatim>\<open>json.dump\<close> writes: literal keys in the code's order, and the keys of a
  \<^verbatim>\<open>tag_colors\<close> dict converted to strings as the encoder does (an integer by \<^verbatim>\<open>str\<close>,
  \<^verbatim>\<open>True\<close>/\<^verbatim>\<open>False\<close>/\<^verbatim>\<open>None\<close> as \<^verbatim>\<open>true\<close>/\<^verbatim>\<open>false\<close>/\<^verbatim>\<open>null\<close>; a list or dict key raises
  \<^verbatim>\<open>TypeError\<close>). Two keys that convert to the same string are written twice, and
  \<^verbatim>\<open>json.load\<close> keeps the last value at the first position: the file holds that value.
\<close>

section \<open>Paths\<close>

definition snapshots_dir :: "string \<Rightarrow> string" where
  "snapshots_dir root = path_join (path_join root ''data'') ''snapshots''"

definition web_dir :: "string \<Rightarrow> string" where
  "web_dir root = path_join (path_join root ''data'') ''web''"

section \<open>Loading the snapshots\<close>

definition load_snapshots :: "string \<Rightarrow> fs \<Rightarrow> py_exc + json \<times> json \<times> json" where
  "load_snapshots root disk =
     ebind (json_load disk (path_join (snapshots_dir root) ''companies.json'')) (\<lambda>companies.
     ebind (json_load disk (path_join (snapshots_dir root) ''tools.json'')) (\<lambda>tools.
     ebind (json_load disk (path_join (snapshots_dir root) ''libraries.json'')) (\<lambda>libraries.
     Inr (companies, tools, libraries))))"

section \<open>JSON encoding of the artifacts\<close>

text \<open>The encoder's conversion of a dict key (\<^verbatim>\<open>json.encoder\<close>, \<^verbatim>\<open>skipkeys=False\<close>).\<close>

fun json_key :: "json \<Rightarrow> py_exc + string" where
  "json_key (JStr s) = Inr s"
| "json_key (JInt i) = Inr (str_of_int i)"
| "json_key (JBool b) = Inr (if b then ''true'' else ''false'')"
| "json_key JNull = Inr ''null''"
| "json_key (JList _) = Inl TypeError"
| "json_key (JDict _) = Inl TypeError"

text \<open>The object a dict with JSON-valued keys becomes once written and read back.\<close>

definition json_object :: "(json \<times> json) list \<Rightarrow> py_exc + json" where
  "json_object kvs =
     ebind (mapE (\<lambda>(k, v). ebind (json_key k) (\<lambda>s. Inr (s, v))) kvs) (\<lambda>skvs.
     Inr (JDict (foldl (\<lambda>d (s, v). AList.update s v d) [] skvs)))"

definition tool_summary_json :: "tool_summary \<Rightarrow> json" where
  "tool_summary_json t =
     JDict [(''id'', ts_id t), (''name'', ts_name t), (''description_short'', ts_description_short t),
            (''description_long'', ts_description_long t), (''tags'', JList (ts_tags t)),
            (''rating'', ts_rating t), (''cost'', ts_cost t), (''url'', ts_url t)]"

definition web_company_json :: "web_company \<Rightarrow> json" where
  "web_company_json c =
     JDict [(''id'', wc_id c), (''name'', wc_name c), (''url'', wc_url c), (''notes'', wc_notes c),
            (''tools'', JList (map tool_summary_json (wc_tools c))),
            (''tool_count'', JInt (int (wc_tool_count c)))]"

definition company_summary_json :: "company_summary \<Rightarrow> json" where
  "company_summary_json c = JDict [(''id'', cs_id c), (''name'', cs_name c), (''url'', cs_url c)]"

definition web_tool_json :: "web_tool \<Rightarrow> py_exc + json" where
  "web_tool_json t =
     ebind (json_object (wt_tag_colors t)) (\<lambda>colors.
     Inr (JDict [(''id'', wt_id t), (''name'', wt_name t), (''description_short'', wt_description_short t),
                 (''description_long'', wt_description_long t), (''tags'', JList (wt_tags t)),
                 (''tag_colors'', colors), (''companies'', JList (map company_summary_json (wt_companies t))),
                 (''rating'', wt_rating t), (''cost'', wt_cost t), (''url'', wt_url t),
                 (''last_modified'', wt_last_modified t)]))"

fun index_entry_json :: "index_entry \<Rightarrow> json" where
  "index_entry_json (CompanyEntry eid name url st n) =
     JDict [(''type'', JStr ''company''), (''id'', eid), (''name'', name), (''url'', url),
            (''search_text'', JStr st), (''tool_count'', JInt (int n))]"
| "index_entry_json (ToolEntry eid name url tags st n) =
     JDict [(''type'', JStr ''tool''), (''id'', eid), (''name'', name), (''url'', url),
            (''tags'', JList tags), (''search_text'', JStr st), (''company_count'', JInt (int n))]"

definition tag_entry_json :: "tag_entry \<Rightarrow> json" where
  "tag_entry_json e = JDict [(''name'', tag_name e), (''color'', tag_color e)]"

definition stats_json :: "stats \<Rightarrow> json" where
  "stats_json s =
     JDict [(''total_companies'', JInt (int (total_companies s))), (''total_tools'', JInt (int (total_tools s))),
            (''companies_with_tools'', JInt (int (companies_with_tools s))),
            (''tools_with_companies'', JInt (int (tools_with_companies s))),
            (''total_tags'', JInt (int (total_tags s)))]"

definition web_tools_json :: "web_tool list \<Rightarrow> py_exc + json" where
  "web_tools_json ts = ebind (mapE web_tool_json ts) (\<lambda>vs. Inr (JList vs))"

section \<open>Writing the artifacts\<close>

text \<open>
  \<^verbatim>\<open>with open(p, 'w') as f: json.dump(v, f)\<close> in sequence. A value that does not encode
  raises part-way: the file has been truncated and holds an incomplete document (its
  partial text is not modelled), and the later files are not written.
\<close>

fun dump_all :: "fs \<Rightarrow> (string \<times> (py_exc + json)) list \<Rightarrow> (py_exc + unit) \<times> fs" where
  "dump_all disk [] = (Inr (), disk)"
| "dump_all disk ((p, Inr v) # ws) = dump_all (json_dump disk p v) ws"
| "dump_all disk ((p, Inl e) # ws) = (Inl e, disk(p \<mapsto> NonJsonFile []))"

definition web_outputs ::
  "string \<Rightarrow> web_company list \<Rightarrow> web_tool list \<Rightarrow> index_entry list \<Rightarrow> tag_entry list \<Rightarrow> stats \<Rightarrow>
   (string \<times> (py_exc + json)) list"
where
  "web_outputs root web_companies web_tools search_index all_tags st =
     [(path_join (web_dir root) ''companies.json'', Inr (JList (map web_company_json web_companies))),
      (path_join (web_dir root) ''tools.json'', web_tools_json web_tools),
      (path_join (web_dir root) ''search_index.json'', Inr (JList (map index_entry_json search_index))),
      (path_join (web_dir root) ''tags.json'', Inr (JList (map tag_entry_json all_tags))),
      (path_join (web_dir root) ''stats.json'', Inr (stats_json st)),
      (path_join (web_dir root) ''all_data.json'',
         ebind (web_tools_json web_tools) (\<lambda>tools_v.
         Inr (JDict [(''companies'', JList (map web_company_json web_companies)), (''tools'', tools_v),
                     (''tags'', JList (map tag_entry_json all_tags)), (''stats'', stats_json st)])))]"

text \<open>The files a sequence of writes leaves, later writes replacing earlier ones.\<close>

fun dump_writes :: "(string \<times> (py_exc + json)) list \<Rightarrow> fs" where
  "dump_writes [] = Map.empty"
| "dump_writes ((p, Inr v) # ws) = [p \<mapsto> JsonFile v] ++ dump_writes ws"
| "dump_writes ((p, Inl e) # ws) = [p \<mapsto> NonJsonFile []]"

section \<open>The pipeline\<close>

definition process :: "json \<Rightarrow> json \<Rightarrow> py_exc + web_company list \<times> web_tool list \<times> index_entry list \<times> tag_entry list \<times> stats" where
  "process companies tools =
     ebind (build_index tools) (\<lambda>tools_by_id.
     ebind (build_index companies) (\<lambda>companies_by_id.
     ebind (create_web_companies companies tools_by_id) (\<lambda>web_companies.
     ebind (create_web_tools tools companies_by_id) (\<lambda>web_tools.
     ebind (create_search_index web_companies web_tools) (\<lambda>search_index.
     ebind (extract_all_tags web_tools) (\<lambda>all_tags.
     ebind (calculate_stats web_companies web_tools) (\<lambda>st.
     Inr (web_companies, web_tools, search_index, all_tags, st))))))))"

definition denorm_main :: "string \<Rightarrow> fs \<Rightarrow> (py_exc + unit) \<times> fs" where
  "denorm_main root disk =
     (case ebind (load_snapshots root disk) (\<lambda>(companies, tools, libraries). process companies tools) of
        Inl e \<Rightarrow> (Inl e, disk)
      | Inr (web_companies, web_tools, search_index, all_tags, st) \<Rightarrow>
          dump_all disk (web_outputs root web_companies web_tools search_index all_tags st))"

section \<open>Writes and reads\<close>

text \<open>
  The writes replace whole files; the paths written are all under \<open>root/data/web\<close>, which
  the snapshot paths are not, so the run never reads what it writes.
\<close>

lemma map_add_twice [simp]: "m ++ w ++ w = m ++ w"
  by (rule ext) (simp add: map_add_def split: option.splits)

lemma dump_all_files: "snd (dump_all disk ws) = disk ++ dump_writes ws"
proof (induction disk ws rule: dump_all.induct)
  case (2 disk p v ws)
  have "json_dump disk p v = disk ++ [p \<mapsto> JsonFile v]"
    by (rule ext) (simp add: json_dump_def map_add_def)
  with 2 show ?case
    by (simp only: dump_all.simps dump_writes.simps map_add_assoc)
next
  case (3 disk p e ws)
  show ?case by (simp add: fun_eq_iff map_add_def)
qed simp

lemma dump_all_result: "fst (dump_all disk ws) = fst (dump_all disk' ws)"
  by (induction disk ws arbitrary: disk' rule: dump_all.induct) auto

lemma dump_writes_dom: "dom (dump_writes ws) \<subseteq> fst ` set ws"
  by (induction ws rule: dump_writes.induct) auto

lemma web_outputs_paths:
  "fst ` set (web_outputs root wcs wts si tags st) \<subseteq> {path_join (web_dir root) n | n. True}"
  by (auto simp: web_outputs_def)

lemma snapshot_not_web [simp]: "path_join (snapshots_dir root) n \<noteq> path_join (web_dir root) m"
  by (simp add: path_join_def snapshots_dir_def web_dir_def)

lemma load_snapshots_eq:
  assumes "\<And>n. disk' (path_join (snapshots_dir root) n) = disk (path_join (snapshots_dir root) n)"
  shows "load_snapshots root disk' = load_snapshots root disk"
  using assms by (simp add: load_snapshots_def json_load_def)

lemma load_snapshots_after_outputs:
  "load_snapshots root (disk ++ dump_writes (web_outputs root wcs wts si tags st)) = load_snapshots root disk"
proof (rule load_snapshots_eq)
  fix n
  have "path_join (snapshots_dir root) n \<notin> fst ` set (web_outputs root wcs wts si tags st)"
    using web_outputs_paths [of root wcs wts si tags st] by auto
  then have "path_join (snapshots_dir root) n \<notin> dom (dump_writes (web_outputs root wcs wts si tags st))"
    using dump_writes_dom [of "web_outputs root wcs wts si tags st"] by blast
  then show "(disk ++ dump_writes (web_outputs root wcs wts si tags st)) (path_join (snapshots_dir root) n) =
             disk (path_join (snapshots_dir root) n)"
    by (simp add: map_add_dom_app_simps(3))
qed

section \<open>Encoding never fails on the pipeline's values\<close>

text \<open>
  A \<^verbatim>\<open>tag_colors\<close> key has passed the hashability check of the tag loop, and every
  hashable JSON value is a key the encoder accepts: the writes of \<^verbatim>\<open>main\<close> do not raise.
\<close>

lemma tag_info_hashable:
  "tag_info tgs tags cols = Inr (tags', cols') \<Longrightarrow> \<forall>k \<in> fst ` set cols. hashable k \<Longrightarrow>
   \<forall>k \<in> fst ` set cols'. hashable k"
proof (induction tgs arbitrary: tags cols)
  case Nil
  then show ?case by simp
next
  case (Cons tag rest)
  from Cons.prems(1) obtain nm where
    r: "(case dict_lookup tag ''color'' of
           None \<Rightarrow> tag_info rest (tags @ [nm]) cols
         | Some c \<Rightarrow> if hashable nm then tag_info rest (tags @ [nm]) (AList.update nm c cols) else Inl TypeError)
        = Inr (tags', cols')"
    by (auto simp: ebind_eq_Inr)
  show ?case
  proof (cases "dict_lookup tag ''color''")
    case None
    with r have "tag_info rest (tags @ [nm]) cols = Inr (tags', cols')" by simp
    from Cons.IH [OF this Cons.prems(2)] show ?thesis .
  next
    case (Some c)
    with r have h: "hashable nm" and t: "tag_info rest (tags @ [nm]) (AList.update nm c cols) = Inr (tags', cols')"
      by (simp_all split: if_splits)
    have "\<forall>k \<in> fst ` set (AList.update nm c cols). hashable k"
      using h Cons.prems(2) by (simp add: dom_update)
    from Cons.IH [OF t this] show ?thesis .
  qed
qed

lemma web_tool_of_hashable:
  "web_tool_of idx tool = Inr t \<Longrightarrow> \<forall>k \<in> fst ` set (wt_tag_colors t). hashable k"
proof -
  assume "web_tool_of idx tool = Inr t"
  then obtain tgs tags cols where ti: "tag_info tgs [] [] = Inr (tags, cols)" and c: "wt_tag_colors t = cols"
    by (auto simp: web_tool_of_def ebind_eq_Inr)
  show ?thesis
    using tag_info_hashable [OF ti] c by simp
qed

lemma json_key_hashable: "hashable k \<Longrightarrow> \<exists>s. json_key k = Inr s"
  by (cases k) simp_all

lemma json_object_ok:
  "\<forall>k \<in> fst ` set kvs. hashable k \<Longrightarrow> \<exists>v. json_object kvs = Inr v"
proof -
  assume h: "\<forall>k \<in> fst ` set kvs. hashable k"
  have "\<exists>skvs. mapE (\<lambda>(k, v). ebind (json_key k) (\<lambda>s. Inr (s, v))) kvs = Inr skvs"
  proof (rule mapE_ok)
    fix kv assume "kv \<in> set kvs"
    with h obtain s where "json_key (fst kv) = Inr s"
      using json_key_hashable by fastforce
    then show "\<exists>y. (\<lambda>(k, v). ebind (json_key k) (\<lambda>s. Inr (s, v))) kv = Inr y"
      by (cases kv) simp
  qed
  then show ?thesis by (auto simp: json_object_def)
qed

lemma create_web_tools_hashable:
  "create_web_tools tools idx = Inr wts \<Longrightarrow> t \<in> set wts \<Longrightarrow> \<forall>k \<in> fst ` set (wt_tag_colors t). hashable k"
proof -
  assume c: "create_web_tools tools idx = Inr wts" and t: "t \<in> set wts"
  then obtain rows where m: "mapE (web_tool_of idx) rows = Inr wts"
    by (auto simp: create_web_tools_def ebind_eq_Inr)
  from t obtain i where "i < length wts" and "t = wts ! i" by (auto simp: in_set_conv_nth)
  with m have "web_tool_of idx (rows ! i) = Inr t"
    using mapE_nth mapE_length by fastforce
  then show ?thesis by (rule web_tool_of_hashable)
qed

lemma web_tools_json_ok:
  "create_web_tools tools idx = Inr wts \<Longrightarrow> \<exists>tv. web_tools_json wts = Inr tv"
proof -
  assume c: "create_web_tools tools idx = Inr wts"
  have "\<exists>vs. mapE web_tool_json wts = Inr vs"
  proof (rule mapE_ok)
    fix t assume "t \<in> set wts"
    then obtain colors where "json_object (wt_tag_colors t) = Inr colors"
      using json_object_ok create_web_tools_hashable [OF c] by blast
    then show "\<exists>y. web_tool_json t = Inr y" by (simp add: web_tool_json_def)
  qed
  then show ?thesis by (auto simp: web_tools_json_def)
qed

lemma process_tools_json_ok:
  "process companies tools = Inr (wcs, wts, si, tags, st) \<Longrightarrow> \<exists>tv. web_tools_json wts = Inr tv"
  by (auto simp: process_def ebind_eq_Inr intro: web_tools_json_ok)

section \<open>Properties of the driver\<close>

text \<open>
  C16 (idempotence): running the Denormalizer a second time on the files the first run
  left gives the same result and the same files: it reads only the snapshots, which it
  does not write, and rewrites each artifact with the same document.
\<close>

theorem denorm_main_idempotent:
  "denorm_main root (snd (denorm_main root disk)) = denorm_main root disk"
proof (cases "ebind (load_snapshots root disk) (\<lambda>(companies, tools, libraries). process companies tools)")
  case (Inl e)
  then show ?thesis by (simp add: denorm_main_def)
next
  case (Inr r)
  obtain wcs wts si tags st where r: "r = (wcs, wts, si, tags, st)" by (cases r) auto
  let ?ws = "web_outputs root wcs wts si tags st"
  have first: "denorm_main root disk = dump_all disk ?ws"
    using Inr r by (simp add: denorm_main_def)
  have disk2: "snd (denorm_main root disk) = disk ++ dump_writes ?ws"
    by (simp add: first dump_all_files)
  have "denorm_main root (disk ++ dump_writes ?ws) = dump_all (disk ++ dump_writes ?ws) ?ws"
    using Inr r by (simp add: denorm_main_def load_snapshots_after_outputs)
  moreover have "snd (dump_all (disk ++ dump_writes ?ws) ?ws) = snd (dump_all disk ?ws)"
    by (simp add: dump_all_files)
  moreover have "fst (dump_all (disk ++ dump_writes ?ws) ?ws) = fst (dump_all disk ?ws)"
    by (rule dump_all_result)
  ultimately show ?thesis
    using disk2 first by (metis prod.collapse)
qed

text \<open>
  C17 (artifacts): when the snapshots load and the pipeline computes, the run succeeds and
  each of the six files loads back as the encoding of the corresponding artifact;
  \<^verbatim>\<open>all_data.json\<close> holds companies, tools, tags and stats, and no search index.
\<close>

theorem denorm_main_outputs:
  assumes "load_snapshots root disk = Inr (companies, tools, libraries)"
      and "process companies tools = Inr (wcs, wts, si, tags, st)"
  shows "\<exists>tv. web_tools_json wts = Inr tv \<and> fst (denorm_main root disk) = Inr () \<and>
     json_load (snd (denorm_main root disk)) (path_join (web_dir root) ''companies.json'') = Inr (JList (map web_company_json wcs)) \<and>
     json_load (snd (denorm_main root disk)) (path_join (web_dir root) ''tools.json'') = Inr tv \<and>
     json_load (snd (denorm_main root disk)) (path_join (web_dir root) ''search_index.json'') = Inr (JList (map index_entry_json si)) \<and>
     json_load (snd (denorm_main root disk)) (path_join (web_dir root) ''tags.json'') = Inr (JList (map tag_entry_json tags)) \<and>
     json_load (snd (denorm_main root disk)) (path_join (web_dir root) ''stats.json'') = Inr (stats_json st) \<and>
     json_load (snd (denorm_main root disk)) (path_join (web_dir root) ''all_data.json'') =
       Inr (JDict [(''companies'', JList (map web_company_json wcs)), (''tools'', tv),
                   (''tags'', JList (map tag_entry_json tags)), (''stats'', stats_json st)])"
proof -
  obtain tv where tv: "web_tools_json wts = Inr tv"
    using process_tools_json_ok [OF assms(2)] by blast
  have run: "denorm_main root disk = dump_all disk (web_outputs root wcs wts si tags st)"
    using assms by (simp add: denorm_main_def)
  show ?thesis
    using tv by (simp add: run web_outputs_def path_join_def)
qed

theorem denorm_main_outputs_witness:
  "json_load (snd (denorm_main ''root''
     [path_join (snapshots_dir ''root'') ''companies.json'' \<mapsto>
        JsonFile (JList [JDict [(''id'', JInt 1), (''UUID'', JStr ''c1''), (''Company Name'', JStr ''Acme''),
          (''Tools'', JList [JDict [(''id'', JInt 10)]])]]),
      path_join (snapshots_dir ''root'') ''tools.json'' \<mapsto>
        JsonFile (JList [JDict [(''id'', JInt 10), (''UUID'', JStr ''t1''), (''ToolName'', JStr ''X''),
          (''Tool Tags'', JList [JDict [(''value'', JStr ''ml''), (''color'', JStr ''blue'')]])]]),
      path_join (snapshots_dir ''root'') ''libraries.json'' \<mapsto> JsonFile (JList [])]))
     (path_join (web_dir ''root'') ''stats.json'') =
   Inr (JDict [(''total_companies'', JInt 1), (''total_tools'', JInt 1), (''companies_with_tools'', JInt 1),
               (''tools_with_companies'', JInt 0), (''total_tags'', JInt 1)]) \<and>
   json_load (snd (denorm_main ''root''
     [path_join (snapshots_dir ''root'') ''companies.json'' \<mapsto>
        JsonFile (JList [JDict [(''id'', JInt 1), (''UUID'', JStr ''c1''), (''Company Name'', JStr ''Acme''),
          (''Tools'', JList [JDict [(''id'', JInt 10)]])]]),
      path_join (snapshots_dir ''root'') ''tools.json'' \<mapsto>
        JsonFile (JList [JDict [(''id'', JInt 10), (''UUID'', JStr ''t1''), (''ToolName'', JStr ''X''),
          (''Tool Tags'', JList [JDict [(''value'', JStr ''ml''), (''color'', JStr ''blue'')]])]]),
      path_join (snapshots_dir ''root'') ''libraries.json'' \<mapsto> JsonFile (JList [])]))
     (path_join (web_dir ''root'') ''tags.json'') =
   Inr (JList [JDict [(''name'', JStr ''ml''), (''color'', JStr ''blue'')]]) \<and>
   json_load (snd (denorm_main ''root''
     [path_join (snapshots_dir ''root'') ''companies.json'' \<mapsto>
        JsonFile (JList [JDict [(''id'', JInt 1), (''UUID'', JStr ''c1''), (''Company Name'', JStr ''Acme''),
          (''Tools'', JList [JDict [(''id'', JInt 10)]])]]),
      path_join (snapshots_dir ''root'') ''tools.json'' \<mapsto>
        JsonFile (JList [JDict [(''id'', JInt 10), (''UUID'', JStr ''t1''), (''ToolName'', JStr ''X''),
          (''Tool Tags'', JList [JDict [(''value'', JStr ''ml''), (''color'', JStr ''blue'')]])]]),
      path_join (snapshots_dir ''root'') ''libraries.json'' \<mapsto> JsonFile (JList [])]))
     (path_join (web_dir ''root'') ''companies.json'') =
   Inr (JList [JDict [(''id'', JStr ''c1''), (''name'', JStr ''Acme''), (''url'', JStr []), (''notes'', JStr []),
     (''tools'', JList [JDict [(''id'', JStr ''t1''), (''name'', JStr ''X''), (''description_short'', JStr []),
        (''description_long'', JStr []), (''tags'', JList [JStr ''ml'']), (''rating'', JStr ''0''),
        (''cost'', JNull), (''url'', JStr [])]]),
     (''tool_count'', JInt 1)]])"
proof -
  let ?C = "JList [JDict [(''id'', JInt 1), (''UUID'', JStr ''c1''), (''Company Name'', JStr ''Acme''),
          (''Tools'', JList [JDict [(''id'', JInt 10)]])]]"
  let ?T = "JList [JDict [(''id'', JInt 10), (''UUID'', JStr ''t1''), (''ToolName'', JStr ''X''),
          (''Tool Tags'', JList [JDict [(''value'', JStr ''ml''), (''color'', JStr ''blue'')]])]]"
  let ?D = "[path_join (snapshots_dir ''root'') ''companies.json'' \<mapsto> JsonFile ?C,
      path_join (snapshots_dir ''root'') ''tools.json'' \<mapsto> JsonFile ?T,
      path_join (snapshots_dir ''root'') ''libraries.json'' \<mapsto> JsonFile (JList [])]"
  have l: "load_snapshots ''root'' ?D = Inr (?C, ?T, JList [])"
    by (simp add: load_snapshots_def json_load_def path_join_def snapshots_dir_def)
  obtain x where p: "process ?C ?T = Inr x" and
    st: "stats_json (snd (snd (snd (snd x)))) = JDict [(''total_companies'', JInt 1), (''total_tools'', JInt 1),
           (''companies_with_tools'', JInt 1), (''tools_with_companies'', JInt 0), (''total_tags'', JInt 1)]" and
    tg: "map tag_entry_json (fst (snd (snd (snd x)))) = [JDict [(''name'', JStr ''ml''), (''color'', JStr ''blue'')]]" and
    wc: "map web_company_json (fst x) =
      [JDict [(''id'', JStr ''c1''), (''name'', JStr ''Acme''), (''url'', JStr []), (''notes'', JStr []),
       (''tools'', JList [JDict [(''id'', JStr ''t1''), (''name'', JStr ''X''), (''description_short'', JStr []),
          (''description_long'', JStr []), (''tags'', JList [JStr ''ml'']), (''rating'', JStr ''0''),
          (''cost'', JNull), (''url'', JStr [])]]),
       (''tool_count'', JInt 1)]]"
    by (simp add: process_def build_index_def create_web_companies_def web_company_of_def index_get_def
        tool_summary_of_def tag_values_def create_web_tools_def web_tool_of_def company_summary_of_def
        create_search_index_def company_entry_def tool_entry_def extract_all_tags_def py_sorted_items_def
        calculate_stats_def stats_json_def tag_entry_json_def web_company_json_def tool_summary_json_def)
  obtain wcs wts si tags s where x: "x = (wcs, wts, si, tags, s)" by (cases x) auto
  have "json_load (snd (denorm_main ''root'' ?D)) (path_join (web_dir ''root'') ''stats.json'') = Inr (stats_json s) \<and>
        json_load (snd (denorm_main ''root'' ?D)) (path_join (web_dir ''root'') ''tags.json'') =
          Inr (JList (map tag_entry_json tags)) \<and>
        json_load (snd (denorm_main ''root'' ?D)) (path_join (web_dir ''root'') ''companies.json'') =
          Inr (JList (map web_company_json wcs))"
    using denorm_main_outputs [OF l p [unfolded x]] by blast
  with st tg wc x show ?thesis by (simp only: snd_conv fst_conv)
qed

text \<open>
  C18 (missing snapshot): if any of the three snapshot files is absent, the run raises
  \<^verbatim>\<open>FileNotFoundError\<close> (or \<^verbatim>\<open>JSONDecodeError\<close> for an earlier file that is not JSON)
  before writing anything. The libraries snapshot, which the run never uses, is required too.
\<close>

theorem denorm_main_missing_snapshot:
  assumes "n \<in> set [''companies.json'', ''tools.json'', ''libraries.json'']"
      and "disk (path_join (snapshots_dir root) n) = None"
  shows "denorm_main root disk = (Inl FileNotFoundError, disk) \<or> denorm_main root disk = (Inl JSONDecodeError, disk)"
proof -
  have "load_snapshots root disk = Inl FileNotFoundError \<or> load_snapshots root disk = Inl JSONDecodeError"
    using assms by (auto simp: load_snapshots_def json_load_def split: option.splits file_content.splits)
  then show ?thesis by (auto simp: denorm_main_def)
qed

theorem denorm_main_missing_snapshot_witness:
  "denorm_main ''root''
     [path_join (snapshots_dir ''root'') ''companies.json'' \<mapsto> JsonFile (JList []),
      path_join (snapshots_dir ''root'') ''tools.json'' \<mapsto> JsonFile (JList [])] =
   (Inl FileNotFoundError,
     [path_join (snapshots_dir ''root'') ''companies.json'' \<mapsto> JsonFile (JList []),
      path_join (snapshots_dir ''root'') ''tools.json'' \<mapsto> JsonFile (JList [])]) \<or>
   denorm_main ''root''
     [path_join (snapshots_dir ''root'') ''companies.json'' \<mapsto> JsonFile (JList []),
      path_join (snapshots_dir ''root'') ''tools.json'' \<mapsto> JsonFile (JList [])] =
   (Inl JSONDecodeError,
     [path_join (snapshots_dir ''root'') ''companies.json'' \<mapsto> JsonFile (JList []),
      path_join (snapshots_dir ''root'') ''tools.json'' \<mapsto> JsonFile (JList [])])"
  using denorm_main_missing_snapshot [where n = "''libraries.json''" and root = "''root''" and disk =
      "[path_join (snapshots_dir ''root'') ''companies.json'' \<mapsto> JsonFile (JList []),
        path_join (snapshots_dir ''root'') ''tools.json'' \<mapsto> JsonFile (JList [])]"]
  by (simp add: path_join_def snapshots_dir_def)

end
