(* ===== verification/Dash_Frame.thy ===== *)
theory Dash_Frame
  imports Complex_Main Py_Json
begin

text \<open>
  The data frame of the dashboard (\<^verbatim>\<open>src/dashboard/tools_dashboard.py\<close>, lines 1--49):
  \<^verbatim>\<open>pd.read_json\<close> of the raw tools snapshot, the feature extractors
  \<^verbatim>\<open>extract_company\<close>, \<^verbatim>\<open>extract_tags_list\<close>, \<^verbatim>\<open>extract_tags_str\<close>, the numeric columns
  (\<^verbatim>\<open>pd.to_numeric(..., errors='coerce')\<close>), the flag columns and \<^verbatim>\<open>categorize_cost\<close>.
  A cell of the frame is a JSON value, or \<open>NaN\<close> where the row has no such key (pandas fills
  a missing key with the float NaN, which is truthy, not iterable and not subscriptable).
  Numbers are rationals: the costs the dashboard reads are decimal strings or integers, which
  a rational holds exactly; \<open>None\<close> of a numeric column is NaN.
\<close>

section \<open>Cells\<close>

datatype cell = Val json | NaN

fun is_dict :: "json \<Rightarrow> bool" where
  "is_dict (JDict _) = True"
| "is_dict _ = False"

fun is_list :: "json \<Rightarrow> bool" where
  "is_list (JList _) = True"
| "is_list _ = False"

text \<open>
  \<^verbatim>\<open>pd.read_json\<close> builds the frame as \<^verbatim>\<open>DataFrame(json.loads(text))\<close>. A list
  whose first item is an object is read row by row through each item's \<^verbatim>\<open>keys()\<close>, so
  a later item that is not an object raises AttributeError. A list whose first item is a
  scalar is one column labelled \<^verbatim>\<open>0\<close>, and a list of lists has integer-labelled
  columns; neither has a named column, so rows without keys stand for them. \<^verbatim>\<open>null\<close>
  and the empty object give the empty frame, and a bare scalar raises ValueError. Two shapes
  are outside the model and give \<open>None\<close>: a non-empty object, which is read column by
  column, and a list of lists with a later item that is not a list.
\<close>

definition read_json :: "json \<Rightarrow> (py_exc + json list) option" where
  "read_json doc = (case doc of
      JList [] \<Rightarrow> Some (Inr [])
    | JList (r # rs) \<Rightarrow>
        (if is_dict r then Some (if list_all is_dict rs then Inr (r # rs) else Inl AttributeError)
         else if is_list r then (if list_all is_list rs then Some (Inr (map (\<lambda>_. JDict []) (r # rs))) else None)
         else Some (Inr (map (\<lambda>_. JDict []) (r # rs))))
    | JNull \<Rightarrow> Some (Inr [])
    | JDict [] \<Rightarrow> Some (Inr [])
    | JDict _ \<Rightarrow> None
    | _ \<Rightarrow> Some (Inl ValueError))"

text \<open>\<^verbatim>\<open>df[k]\<close>: the column \<open>k\<close>, \<^verbatim>\<open>KeyError\<close> when no row has the key.\<close>

definition frame_cell :: "json \<Rightarrow> string \<Rightarrow> cell" where
  "frame_cell row k = (case dict_lookup row k of Some v \<Rightarrow> Val v | None \<Rightarrow> NaN)"

definition column :: "json list \<Rightarrow> string \<Rightarrow> py_exc + cell list" where
  "column rows k =
     (if list_ex (\<lambda>r. dict_lookup r k \<noteq> None) rows then Inr (map (\<lambda>r. frame_cell r k) rows)
      else Inl KeyError)"

fun cell_truthy :: "cell \<Rightarrow> bool" where
  "cell_truthy (Val v) = py_truthy v"
| "cell_truthy NaN = True"

text \<open>\<^verbatim>\<open>x[0]\<close> on a truthy cell: the first item of a list or character of a string; a dict
  of JSON has string keys only, so \<^verbatim>\<open>0\<close> is missing; numbers and NaN are not subscriptable.\<close>

fun cell_first :: "cell \<Rightarrow> py_exc + json" where
  "cell_first (Val (JList (x # _))) = Inr x"
| "cell_first (Val (JStr (c # _))) = Inr (JStr [c])"
| "cell_first (Val (JDict _)) = Inl KeyError"
| "cell_first _ = Inl TypeError"

text \<open>\<^verbatim>\<open>for x in cell\<close>: NaN is a float, which is not iterable.\<close>

fun cell_iter :: "cell \<Rightarrow> py_exc + json list" where
  "cell_iter (Val v) = py_iter v"
| "cell_iter NaN = Inl TypeError"

section \<open>Feature extraction\<close>

definition NO_COMPANY :: json where
  "NO_COMPANY = JStr ''No Company Data''"

definition UNCATEGORIZED :: json where
  "UNCATEGORIZED = JStr ''Uncategorized''"

definition extract_company :: "cell \<Rightarrow> py_exc + json" where
  "extract_company company_list =
     (if cell_truthy company_list
      then ebind (cell_first company_list) (\<lambda>first. dict_get first ''value'' (JStr ''Unknown''))
      else Inr NO_COMPANY)"

definition extract_tags_list :: "cell \<Rightarrow> py_exc + json list" where
  "extract_tags_list tags_list =
     (if cell_truthy tags_list
      then ebind (cell_iter tags_list) (mapE (\<lambda>tag. dict_get tag ''value'' (JStr [])))
      else Inr [])"

definition extract_tags_str :: "cell \<Rightarrow> py_exc + json" where
  "extract_tags_str tags_list =
     ebind (extract_tags_list tags_list) (\<lambda>tags.
       if tags \<noteq> [] then ebind (py_join '', '' tags) (\<lambda>s. Inr (JStr s)) else Inr UNCATEGORIZED)"

section \<open>Numeric columns\<close>

text \<open>
  \<^verbatim>\<open>pd.to_numeric(col, errors='coerce')\<close> on one cell: integers and booleans are numbers,
  a string is parsed as a decimal numeral (optional sign, digits, optional fraction), and
  everything else, \<^verbatim>\<open>None\<close> and NaN included, becomes NaN (\<open>None\<close> here).
\<close>

definition digit_val :: "char \<Rightarrow> nat option" where
  "digit_val c = (if CHR ''0'' \<le> c \<and> c \<le> CHR ''9'' then Some (of_char c - 48) else None)"

fun digits_val :: "nat \<Rightarrow> string \<Rightarrow> nat option" where
  "digits_val acc [] = Some acc"
| "digits_val acc (c # cs) = (case digit_val c of None \<Rightarrow> None | Some d \<Rightarrow> digits_val (10 * acc + d) cs)"

definition parse_unsigned :: "string \<Rightarrow> rat option" where
  "parse_unsigned s =
     (let ip = takeWhile (\<lambda>c. c \<noteq> CHR ''.'') s; rest = dropWhile (\<lambda>c. c \<noteq> CHR ''.'') s in
      if rest = [] then (if ip = [] then None else map_option of_nat (digits_val 0 ip))
      else (let fp = tl rest in
            if ip = [] \<and> fp = [] then None
            else (case (digits_val 0 ip, digits_val 0 fp) of
                    (Some a, Some b) \<Rightarrow> Some (of_nat a + of_nat b / 10 ^ length fp)
                  | _ \<Rightarrow> None)))"

fun parse_decimal :: "string \<Rightarrow> rat option" where
  "parse_decimal (c # r) =
     (if c = CHR ''-'' then map_option uminus (parse_unsigned r)
      else if c = CHR ''+'' then parse_unsigned r
      else parse_unsigned (c # r))"
| "parse_decimal [] = None"

fun to_numeric :: "cell \<Rightarrow> rat option" where
  "to_numeric (Val (JInt i)) = Some (of_int i)"
| "to_numeric (Val (JBool b)) = Some (if b then 1 else 0)"
| "to_numeric (Val (JStr s)) = parse_decimal s"
| "to_numeric _ = None"

section \<open>Market segmentation by cost\<close>

definition TIER_ORDER :: "string list" where
  "TIER_ORDER = [''Free'', ''Low (<$500)'', ''Medium ($500-$2K)'', ''High ($2K-$10K)'',
                 ''Enterprise (>$10K)'', ''Unknown'']"

fun categorize_cost :: "rat option \<Rightarrow> string" where
  "categorize_cost None = ''Unknown''"
| "categorize_cost (Some cost) =
     (if cost = 0 then ''Free''
      else if cost < 500 then ''Low (<$500)''
      else if cost < 2000 then ''Medium ($500-$2K)''
      else if cost < 10000 then ''High ($2K-$10K)''
      else ''Enterprise (>$10K)'')"

section \<open>The derived frame\<close>

record dash_row =
  dr_name :: cell
  dr_company :: json
  dr_tags_list :: "json list"
  dr_tags :: json
  dr_cost :: "rat option"
  dr_rating :: "rat option"
  dr_has_company :: bool
  dr_has_tags :: bool
  dr_has_cost :: bool
  dr_has_description :: bool
  dr_has_rating :: bool
  dr_cost_tier :: string

text \<open>\<^verbatim>\<open>df['HasDescription'] = col.notna() & (col != '')\<close>: \<^verbatim>\<open>None\<close> and NaN are missing.\<close>

fun has_description :: "cell \<Rightarrow> bool" where
  "has_description (Val v) = (v \<noteq> JNull \<and> v \<noteq> JStr [])"
| "has_description NaN = False"

text \<open>One row from the cells of its columns, as the assignments of lines 28--47 compute them.\<close>

definition mk_row :: "cell \<Rightarrow> json \<Rightarrow> json list \<Rightarrow> json \<Rightarrow> cell \<Rightarrow> cell \<Rightarrow> cell \<Rightarrow> dash_row" where
  "mk_row name company tags_list tags cost rating descr =
     \<lparr>dr_name = name, dr_company = company, dr_tags_list = tags_list, dr_tags = tags,
      dr_cost = to_numeric cost, dr_rating = to_numeric rating,
      dr_has_company = (company \<noteq> NO_COMPANY), dr_has_tags = (tags \<noteq> UNCATEGORIZED),
      dr_has_cost = (case to_numeric cost of Some _ \<Rightarrow> True | None \<Rightarrow> False), dr_has_description = has_description descr,
      dr_has_rating = (case to_numeric rating of Some r \<Rightarrow> 0 < r | None \<Rightarrow> False),
      dr_cost_tier = categorize_cost (to_numeric cost)\<rparr>"

record dash_frame =
  df_has_name :: bool
  df_rows :: "dash_row list"

text \<open>
  The column assignments run one after the other over all rows, so the first column whose
  extraction raises decides the exception. The \<^verbatim>\<open>ToolName\<close> column is read only by the
  filters; whether it exists is kept with the rows.
\<close>

definition derive_frame :: "json list \<Rightarrow> py_exc + dash_frame" where
  "derive_frame rows =
     ebind (column rows ''ToolCompany'') (\<lambda>tc.
     ebind (mapE extract_company tc) (\<lambda>companies.
     ebind (column rows ''Tool Tags'') (\<lambda>tt.
     ebind (mapE extract_tags_list tt) (\<lambda>tags_lists.
     ebind (mapE extract_tags_str tt) (\<lambda>tags.
     ebind (column rows ''Annual License Cost'') (\<lambda>costs.
     ebind (column rows ''Overall Rating'') (\<lambda>ratings.
     ebind (column rows ''ToolDescription_long'') (\<lambda>descrs.
     Inr \<lparr>df_has_name = list_ex (\<lambda>r. dict_lookup r ''ToolName'' \<noteq> None) rows,
          df_rows = map (\<lambda>(r, c, tl, t, co, ra, de). mk_row (frame_cell r ''ToolName'') c tl t co ra de)
                      (zip rows (zip companies (zip tags_lists (zip tags (zip costs (zip ratings descrs))))))\<rparr>))))))))"

definition load_dashboard :: "fs \<Rightarrow> string \<Rightarrow> (py_exc + dash_frame) option" where
  "load_dashboard disk data_dir =
     (case (case json_load disk (path_join data_dir ''tools.json'') of
              Inl JSONDecodeError \<Rightarrow> Inl ValueError | r \<Rightarrow> r) of
        Inl e \<Rightarrow> Some (Inl e)
      | Inr doc \<Rightarrow> map_option (\<lambda>rows. ebind rows derive_frame) (read_json doc))"



section \<open>Properties of the frame\<close>

lemma categorize_cost_tier [simp]: "categorize_cost c \<in> set TIER_ORDER"
  by (cases c) (simp_all add: TIER_ORDER_def)

lemma distinct_TIER_ORDER: "distinct TIER_ORDER"
  by (simp add: TIER_ORDER_def)

lemma derive_frame_rows:
  "derive_frame rows = Inr df \<Longrightarrow> r \<in> set (df_rows df) \<Longrightarrow> \<exists>nm c tl t co ra de. r = mk_row nm c tl t co ra de"
  unfolding derive_frame_def ebind_eq_Inr by (auto, blast)

lemma derive_frame_tiers:
  "derive_frame rows = Inr df \<Longrightarrow> r \<in> set (df_rows df) \<Longrightarrow> dr_cost_tier r \<in> set TIER_ORDER"
  by (auto simp: derive_frame_def ebind_eq_Inr mk_row_def)

lemma read_json_dicts:
  "list_all is_dict rows \<Longrightarrow> read_json (JList rows) = Some (Inr rows)"
  by (cases rows) (simp_all add: read_json_def)






text \<open>
  C23 (a row without ToolCompany): when the ToolCompany column exists but one row lacks the key, pandas fills that cell with NaN, which is truthy and not subscriptable, so extracting the company raises and the dashboard cannot load.
\<close>

theorem derive_frame_missing_company:
  assumes "list_ex (\<lambda>r. dict_lookup r ''ToolCompany'' \<noteq> None) rows"
    and "list_ex (\<lambda>r. dict_lookup r ''ToolCompany'' = None) rows"
  shows "\<exists>e. derive_frame rows = Inl e"
proof -
  have col: "column rows ''ToolCompany'' = Inr (map (\<lambda>r. frame_cell r ''ToolCompany'') rows)"
    using assms(1) by (simp add: column_def)
  obtain r where r: "r \<in> set rows" and n: "dict_lookup r ''ToolCompany'' = None"
    using assms(2) by (auto simp: list_ex_iff)
  have "frame_cell r ''ToolCompany'' \<in> (\<lambda>r. frame_cell r ''ToolCompany'') ` set rows"
    using r by (rule imageI)
  moreover have "frame_cell r ''ToolCompany'' = NaN"
    using n by (simp add: frame_cell_def)
  ultimately have mem: "NaN \<in> set (map (\<lambda>r. frame_cell r ''ToolCompany'') rows)" by (simp only: set_map)
  have nan: "extract_company NaN = Inl TypeError"
    by (simp add: extract_company_def)
  obtain e where "mapE extract_company (map (\<lambda>r. frame_cell r ''ToolCompany'') rows) = Inl e"
    using mapE_Inl_mem [OF mem, of extract_company, OF nan] by blast
  then show ?thesis unfolding derive_frame_def col by simp
qed

theorem derive_frame_missing_company_witness:
  "\<exists>e. derive_frame [JDict [(''ToolName'', JStr ''spark''), (''ToolCompany'', JList [JDict [(''value'', JStr ''acme'')]]),
      (''Tool Tags'', JList [JDict [(''value'', JStr ''ml'')]]), (''Annual License Cost'', JStr ''1200.50''),
      (''Overall Rating'', JInt 4), (''ToolDescription_long'', JStr ''d'')], JDict [(''ToolName'', JStr ''b'')]] = Inl e"
  by (rule derive_frame_missing_company) simp_all

text \<open>
  C24 (cost tiers are ordered): for non-negative costs, a larger cost never falls in an earlier tier of the tier order. A negative cost is not covered: it falls in the Low tier, after Free.
\<close>

theorem categorize_cost_monotone:
  assumes "0 \<le> c" and "c \<le> c'"
  shows "categorize_cost (Some c') \<in> set (dropWhile (\<lambda>t. t \<noteq> categorize_cost (Some c)) TIER_ORDER)"
proof -
  have T: "TIER_ORDER = [''Free'', ''Low (<$500)'', ''Medium ($500-$2K)'', ''High ($2K-$10K)'',
                 ''Enterprise (>$10K)'', ''Unknown'']" by (simp add: TIER_ORDER_def)
  show ?thesis
    unfolding T using assms
    by (simp only: categorize_cost.simps; (split if_split)+; simp)
qed

theorem categorize_cost_monotone_witness:
  "categorize_cost (Some 1200) \<in> set (dropWhile (\<lambda>t. t \<noteq> categorize_cost (Some 0)) TIER_ORDER)"
  by (rule categorize_cost_monotone) simp_all

end
