(* ===== verification/Dash_Views.thy ===== *)
theory Dash_Views
  imports Dash_Frame
begin

text \<open>
  The dashboard's filters and the lists its widgets offer (\<^verbatim>\<open>tools_dashboard.py\<close>: the
  widget values, \<^verbatim>\<open>reset_filters\<close>, \<^verbatim>\<open>get_filtered_data\<close>, \<^verbatim>\<open>all_companies\<close>,
  \<^verbatim>\<open>all_tags\<close>). The four widget values are a record. The search box goes through
  \<^verbatim>\<open>str.contains(search_val, case=False, na=False)\<close>, which compiles the text as a regular
  expression with \<^verbatim>\<open>re.IGNORECASE\<close>: the \<^verbatim>\<open>re\<close> module is the parameter \<open>re_compile\<close>,
  giving the search predicate of a pattern, or \<open>None\<close> when the pattern does not compile.
\<close>

section \<open>Widget state\<close>

record filters =
  search :: string
  company_filter :: "json list"
  tag_filter :: "json list"
  cost_tier_filter :: "string list"

text \<open>\<^verbatim>\<open>reset_filters(event)\<close>: the search box is emptied and every choice cleared.\<close>

definition reset_filters :: "filters \<Rightarrow> filters" where
  "reset_filters f = f\<lparr>search := [], company_filter := [], tag_filter := [], cost_tier_filter := []\<rparr>"

type_synonym regex_compile = "string \<Rightarrow> (string \<Rightarrow> bool) option"

section \<open>Filtering\<close>

text \<open>\<^verbatim>\<open>str.contains\<close> with \<^verbatim>\<open>na=False\<close>: only string cells can match.\<close>

fun name_matches :: "(string \<Rightarrow> bool) \<Rightarrow> cell \<Rightarrow> bool" where
  "name_matches m (Val (JStr s)) = m s"
| "name_matches m _ = False"

definition search_filter :: "regex_compile \<Rightarrow> dash_frame \<Rightarrow> string \<Rightarrow> py_exc + dash_row list" where
  "search_filter re_compile df search_val =
     (if search_val = [] then Inr (df_rows df)
      else if \<not> df_has_name df then Inl KeyError
      else (case re_compile search_val of
              None \<Rightarrow> Inl ReError
            | Some m \<Rightarrow> Inr (filter (\<lambda>r. name_matches m (dr_name r)) (df_rows df))))"

text \<open>
  The frame \<^verbatim>\<open>get_filtered_data\<close> returns: its rows, with every column, or a frame with
  no columns. The tag filter (line 125) makes the second: on a frame with no rows,
  \<^verbatim>\<open>TagsList.apply(...)\<close> returns an empty Series of dtype object, which pandas does not
  take as a boolean mask (an empty object array is not a boolean array), so
  \<^verbatim>\<open>filtered[...]\<close> reads it as a list of column labels and selects none. The company and
  tier filters use \<^verbatim>\<open>isin\<close>, whose result is boolean even when empty.
\<close>

datatype filtered_frame = Rows "dash_row list" | NoColumns

fun frame_rows :: "filtered_frame \<Rightarrow> dash_row list" where
  "frame_rows (Rows rs) = rs"
| "frame_rows NoColumns = []"

text \<open>A read of a column, \<^verbatim>\<open>filtered['CostTier']\<close> and the like, raises KeyError on the frame with no columns.\<close>

definition with_columns :: "filtered_frame \<Rightarrow> (dash_row list \<Rightarrow> py_exc + 'a) \<Rightarrow> py_exc + 'a" where
  "with_columns fr k = (case fr of Rows rs \<Rightarrow> k rs | NoColumns \<Rightarrow> Inl KeyError)"

definition tag_sel :: "json list \<Rightarrow> dash_row \<Rightarrow> bool" where
  "tag_sel tags r \<longleftrightarrow> list_ex (\<lambda>t. t \<in> set (dr_tags_list r)) tags"

definition tag_filter_step :: "json list \<Rightarrow> dash_row list \<Rightarrow> filtered_frame" where
  "tag_filter_step tags rows = (if rows = [] then NoColumns else Rows (filter (tag_sel tags) rows))"

definition get_filtered_data :: "regex_compile \<Rightarrow> dash_frame \<Rightarrow> filters \<Rightarrow> py_exc + filtered_frame" where
  "get_filtered_data re_compile df f =
     ebind (search_filter re_compile df (search f)) (\<lambda>filtered.
     let filtered = (if company_filter f \<noteq> [] then filter (\<lambda>r. dr_company r \<in> set (company_filter f)) filtered
                     else filtered);
         fr = (if tag_filter f \<noteq> [] then tag_filter_step (tag_filter f) filtered else Rows filtered)
     in if cost_tier_filter f \<noteq> []
        then with_columns fr (\<lambda>rs. Inr (Rows (filter (\<lambda>r. dr_cost_tier r \<in> set (cost_tier_filter f)) rs)))
        else Inr fr)"

text \<open>
  The selection the filters describe, as one predicate on a row: each active widget
  restricts the rows, an empty one does not. This is the reference the sequential
  filtering is compared with; \<open>pre_tag\<close> is the part of it the tag filter sees.
\<close>

definition pre_tag :: "(string \<Rightarrow> bool) \<Rightarrow> filters \<Rightarrow> dash_row \<Rightarrow> bool" where
  "pre_tag m f r \<longleftrightarrow>
     (search f = [] \<or> name_matches m (dr_name r)) \<and>
     (company_filter f = [] \<or> dr_company r \<in> set (company_filter f))"

definition selected :: "(string \<Rightarrow> bool) \<Rightarrow> filters \<Rightarrow> dash_row \<Rightarrow> bool" where
  "selected m f r \<longleftrightarrow>
     pre_tag m f r \<and>
     (tag_filter f = [] \<or> (\<exists>t \<in> set (tag_filter f). t \<in> set (dr_tags_list r))) \<and>
     (cost_tier_filter f = [] \<or> dr_cost_tier r \<in> set (cost_tier_filter f))"

section \<open>Widget options\<close>

text \<open>\<^verbatim>\<open>sorted(xs)\<close> of distinct values, through the comparison of \<open>py_sorted_items\<close>.\<close>

definition py_sorted :: "json list \<Rightarrow> py_exc + json list" where
  "py_sorted xs = ebind (py_sorted_items (map (\<lambda>x. (x, ())) xs)) (\<lambda>kvs. Inr (map fst kvs))"

text \<open>\<^verbatim>\<open>Series.unique()\<close>: each value once, at its first occurrence.\<close>

definition py_unique :: "'a list \<Rightarrow> 'a list" where
  "py_unique xs = rev (remdups (rev xs))"

text \<open>\<^verbatim>\<open>sorted([c for c in df['Company'].unique() if c != 'No Company Data'])\<close>\<close>

definition all_companies :: "dash_frame \<Rightarrow> py_exc + json list" where
  "all_companies df = py_sorted (filter (\<lambda>c. c \<noteq> NO_COMPANY) (py_unique (map dr_company (df_rows df))))"

text \<open>
  \<^verbatim>\<open>sorted(list(set([t for tags in df['TagsList'] for t in tags if t])))\<close>. Building the
  set hashes every truthy tag (\<^verbatim>\<open>TypeError\<close> for a list or dict); the set's iteration
  order is not specified by Python, and is taken here as first occurrence. The theorems show
  the sorted result does not depend on it.
\<close>

definition all_tags :: "dash_frame \<Rightarrow> py_exc + json list" where
  "all_tags df =
     (let ts = filter py_truthy (concat (map dr_tags_list (df_rows df))) in
      if list_all hashable ts then py_sorted (py_unique ts) else Inl TypeError)"

section \<open>Properties of the filters\<close>

lemma search_filter_ok:
  "search f = [] \<or> (df_has_name df \<and> re_compile (search f) = Some m) \<Longrightarrow>
   search_filter re_compile df (search f) =
     Inr (filter (\<lambda>r. search f = [] \<or> name_matches m (dr_name r)) (df_rows df))"
  by (auto simp: search_filter_def)

lemma get_filtered_data_subset:
  "get_filtered_data re_compile df f = Inr fr \<Longrightarrow> set (frame_rows fr) \<subseteq> set (df_rows df)"
  by (auto simp: get_filtered_data_def search_filter_def tag_filter_step_def with_columns_def Let_def ebind_eq_Inr
           split: if_splits option.splits filtered_frame.splits)

lemma with_columns_eq_Inr:
  "with_columns fr k = Inr v \<longleftrightarrow> (\<exists>rs. fr = Rows rs \<and> k rs = Inr v)"
  by (cases fr) (auto simp: with_columns_def)

lemma pre_tag_filter:
  "search f = [] \<or> (df_has_name df \<and> re_compile (search f) = Some m) \<Longrightarrow>
   ebind (search_filter re_compile df (search f))
     (\<lambda>rs. Inr (if company_filter f \<noteq> [] then filter (\<lambda>r. dr_company r \<in> set (company_filter f)) rs else rs)) =
   Inr (filter (pre_tag m f) (df_rows df))"
  by (auto simp: search_filter_ok pre_tag_def filter_filter intro!: filter_cong)

text \<open>
  C25 (filters as one selection): when the search box is empty or its pattern compiles to a predicate, the filtered frame holds exactly the rows of the frame, in frame order, that satisfy the declarative selection, with every column; except when the tag filter is active and no row passes the search and company filters: then the tag filter leaves a frame without columns, on which an active tier filter raises KeyError.
\<close>

theorem get_filtered_data_selected:
  assumes "search f = [] \<or> (df_has_name df \<and> re_compile (search f) = Some m)"
  shows "get_filtered_data re_compile df f =
           (if tag_filter f \<noteq> [] \<and> filter (pre_tag m f) (df_rows df) = []
            then (if cost_tier_filter f = [] then Inr NoColumns else Inl KeyError)
            else Inr (Rows (filter (selected m f) (df_rows df))))"
proof -
  from pre_tag_filter [where f = f and df = df and re_compile = re_compile and m = m, OF assms] obtain rs where
    sf: "search_filter re_compile df (search f) = Inr rs" and
    rs: "(if company_filter f \<noteq> [] then filter (\<lambda>r. dr_company r \<in> set (company_filter f)) rs else rs) =
           filter (pre_tag m f) (df_rows df)"
    by (cases "search_filter re_compile df (search f)") auto
  show ?thesis
    unfolding get_filtered_data_def sf ebind_simps Let_def rs
    by (auto simp: tag_filter_step_def with_columns_def selected_def tag_sel_def list_ex_iff filter_filter
             intro!: filter_cong)
qed

theorem get_filtered_data_selected_witness:
  "get_filtered_data (\<lambda>p. Some (\<lambda>s. s = p)) \<lparr>df_has_name = True, df_rows = [\<lparr>dr_name = Val (JStr ''spark''), dr_company = JStr ''acme'', dr_tags_list = [JStr ''ml'', JStr ''ai''],
        dr_tags = JStr ''ml, ai'', dr_cost = Some 1200, dr_rating = Some 4, dr_has_company = True, dr_has_tags = True,
        dr_has_cost = True, dr_has_description = True, dr_has_rating = True, dr_cost_tier = ''Medium ($500-$2K)''\<rparr>, \<lparr>dr_name = Val (JStr ''pandas''), dr_company = JStr ''No Company Data'', dr_tags_list = [JStr ''ml''],
        dr_tags = JStr ''ml'', dr_cost = None, dr_rating = Some 0, dr_has_company = False, dr_has_tags = True,
        dr_has_cost = False, dr_has_description = False, dr_has_rating = False, dr_cost_tier = ''Unknown''\<rparr>]\<rparr>
     \<lparr>search = ''spark'', company_filter = [], tag_filter = [JStr ''ml''], cost_tier_filter = []\<rparr> = Inr (Rows [\<lparr>dr_name = Val (JStr ''spark''), dr_company = JStr ''acme'', dr_tags_list = [JStr ''ml'', JStr ''ai''],
        dr_tags = JStr ''ml, ai'', dr_cost = Some 1200, dr_rating = Some 4, dr_has_company = True, dr_has_tags = True,
        dr_has_cost = True, dr_has_description = True, dr_has_rating = True, dr_cost_tier = ''Medium ($500-$2K)''\<rparr>]) \<and>
   get_filtered_data (\<lambda>p. Some (\<lambda>s. s = p)) \<lparr>df_has_name = True, df_rows = [\<lparr>dr_name = Val (JStr ''spark''), dr_company = JStr ''acme'', dr_tags_list = [JStr ''ml'', JStr ''ai''],
        dr_tags = JStr ''ml, ai'', dr_cost = Some 1200, dr_rating = Some 4, dr_has_company = True, dr_has_tags = True,
        dr_has_cost = True, dr_has_description = True, dr_has_rating = True, dr_cost_tier = ''Medium ($500-$2K)''\<rparr>, \<lparr>dr_name = Val (JStr ''pandas''), dr_company = JStr ''No Company Data'', dr_tags_list = [JStr ''ml''],
        dr_tags = JStr ''ml'', dr_cost = None, dr_rating = Some 0, dr_has_company = False, dr_has_tags = True,
        dr_has_cost = False, dr_has_description = False, dr_has_rating = False, dr_cost_tier = ''Unknown''\<rparr>]\<rparr>
     \<lparr>search = ''zzz'', company_filter = [], tag_filter = [JStr ''ml''], cost_tier_filter = [''Free'']\<rparr> = Inl KeyError"
proof -
  have "get_filtered_data (\<lambda>p. Some (\<lambda>s. s = p)) \<lparr>df_has_name = True, df_rows = [\<lparr>dr_name = Val (JStr ''spark''), dr_company = JStr ''acme'', dr_tags_list = [JStr ''ml'', JStr ''ai''],
        dr_tags = JStr ''ml, ai'', dr_cost = Some 1200, dr_rating = Some 4, dr_has_company = True, dr_has_tags = True,
        dr_has_cost = True, dr_has_description = True, dr_has_rating = True, dr_cost_tier = ''Medium ($500-$2K)''\<rparr>, \<lparr>dr_name = Val (JStr ''pandas''), dr_company = JStr ''No Company Data'', dr_tags_list = [JStr ''ml''],
        dr_tags = JStr ''ml'', dr_cost = None, dr_rating = Some 0, dr_has_company = False, dr_has_tags = True,
        dr_has_cost = False, dr_has_description = False, dr_has_rating = False, dr_cost_tier = ''Unknown''\<rparr>]\<rparr>
     \<lparr>search = ''spark'', company_filter = [], tag_filter = [JStr ''ml''], cost_tier_filter = []\<rparr> = Inr (Rows [\<lparr>dr_name = Val (JStr ''spark''), dr_company = JStr ''acme'', dr_tags_list = [JStr ''ml'', JStr ''ai''],
        dr_tags = JStr ''ml, ai'', dr_cost = Some 1200, dr_rating = Some 4, dr_has_company = True, dr_has_tags = True,
        dr_has_cost = True, dr_has_description = True, dr_has_rating = True, dr_cost_tier = ''Medium ($500-$2K)''\<rparr>])"
    using get_filtered_data_selected [where re_compile = "(\<lambda>p. Some (\<lambda>s. s = p))" and df = "\<lparr>df_has_name = True, df_rows = [\<lparr>dr_name = Val (JStr ''spark''), dr_company = JStr ''acme'', dr_tags_list = [JStr ''ml'', JStr ''ai''],
        dr_tags = JStr ''ml, ai'', dr_cost = Some 1200, dr_rating = Some 4, dr_has_company = True, dr_has_tags = True,
        dr_has_cost = True, dr_has_description = True, dr_has_rating = True, dr_cost_tier = ''Medium ($500-$2K)''\<rparr>, \<lparr>dr_name = Val (JStr ''pandas''), dr_company = JStr ''No Company Data'', dr_tags_list = [JStr ''ml''],
        dr_tags = JStr ''ml'', dr_cost = None, dr_rating = Some 0, dr_has_company = False, dr_has_tags = True,
        dr_has_cost = False, dr_has_description = False, dr_has_rating = False, dr_cost_tier = ''Unknown''\<rparr>]\<rparr>"
      and f = "\<lparr>search = ''spark'', company_filter = [], tag_filter = [JStr ''ml''], cost_tier_filter = []\<rparr>" and m = "\<lambda>s. s = ''spark''"]
    by (simp add: selected_def pre_tag_def)
  moreover have "get_filtered_data (\<lambda>p. Some (\<lambda>s. s = p)) \<lparr>df_has_name = True, df_rows = [\<lparr>dr_name = Val (JStr ''spark''), dr_company = JStr ''acme'', dr_tags_list = [JStr ''ml'', JStr ''ai''],
        dr_tags = JStr ''ml, ai'', dr_cost = Some 1200, dr_rating = Some 4, dr_has_company = True, dr_has_tags = True,
        dr_has_cost = True, dr_has_description = True, dr_has_rating = True, dr_cost_tier = ''Medium ($500-$2K)''\<rparr>, \<lparr>dr_name = Val (JStr ''pandas''), dr_company = JStr ''No Company Data'', dr_tags_list = [JStr ''ml''],
        dr_tags = JStr ''ml'', dr_cost = None, dr_rating = Some 0, dr_has_company = False, dr_has_tags = True,
        dr_has_cost = False, dr_has_description = False, dr_has_rating = False, dr_cost_tier = ''Unknown''\<rparr>]\<rparr>
     \<lparr>search = ''zzz'', company_filter = [], tag_filter = [JStr ''ml''], cost_tier_filter = [''Free'']\<rparr> = Inl KeyError"
    using get_filtered_data_selected [where re_compile = "(\<lambda>p. Some (\<lambda>s. s = p))" and df = "\<lparr>df_has_name = True, df_rows = [\<lparr>dr_name = Val (JStr ''spark''), dr_company = JStr ''acme'', dr_tags_list = [JStr ''ml'', JStr ''ai''],
        dr_tags = JStr ''ml, ai'', dr_cost = Some 1200, dr_rating = Some 4, dr_has_company = True, dr_has_tags = True,
        dr_has_cost = True, dr_has_description = True, dr_has_rating = True, dr_cost_tier = ''Medium ($500-$2K)''\<rparr>, \<lparr>dr_name = Val (JStr ''pandas''), dr_company = JStr ''No Company Data'', dr_tags_list = [JStr ''ml''],
        dr_tags = JStr ''ml'', dr_cost = None, dr_rating = Some 0, dr_has_company = False, dr_has_tags = True,
        dr_has_cost = False, dr_has_description = False, dr_has_rating = False, dr_cost_tier = ''Unknown''\<rparr>]\<rparr>"
      and f = "\<lparr>search = ''zzz'', company_filter = [], tag_filter = [JStr ''ml''], cost_tier_filter = [''Free'']\<rparr>" and m = "\<lambda>s. s = ''zzz''"]
    by (simp add: pre_tag_def)
  ultimately show ?thesis by (rule conjI)
qed

text \<open>Resetting the widgets shows every row of the frame, whatever they held before.\<close>

lemma get_filtered_data_reset:
  "get_filtered_data re_compile df (reset_filters f) = Inr (Rows (df_rows df))"
  by (simp add: get_filtered_data_def reset_filters_def search_filter_def)

text \<open>
  C27 (filter errors): filtering fails exactly when the search box is non-empty and either the frame has no ToolName column (KeyError) or the search text is not a valid regular expression (re.error), or when the tag and tier filters are both active and no row passes the search and company filters: the tier filter then reads CostTier from the frame without columns the tag filter left (KeyError).
\<close>

theorem get_filtered_data_errors:
  "get_filtered_data re_compile df f = Inl e \<longleftrightarrow>
   search f \<noteq> [] \<and> (\<not> df_has_name df \<and> e = KeyError \<or>
                      df_has_name df \<and> re_compile (search f) = None \<and> e = ReError) \<or>
   e = KeyError \<and> tag_filter f \<noteq> [] \<and> cost_tier_filter f \<noteq> [] \<and>
   (\<exists>rs. search_filter re_compile df (search f) = Inr rs \<and>
         \<not> list_ex (\<lambda>r. company_filter f = [] \<or> dr_company r \<in> set (company_filter f)) rs)"
  by (auto simp: get_filtered_data_def search_filter_def tag_filter_step_def with_columns_def Let_def
                 filter_empty_conv list_ex_iff ex_in_conv split: option.splits)

theorem get_filtered_data_errors_witness:
  "get_filtered_data (\<lambda>p. Some (\<lambda>s. s = p)) \<lparr>df_has_name = True, df_rows = [\<lparr>dr_name = Val (JStr ''spark''), dr_company = JStr ''acme'', dr_tags_list = [JStr ''ml'', JStr ''ai''],
        dr_tags = JStr ''ml, ai'', dr_cost = Some 1200, dr_rating = Some 4, dr_has_company = True, dr_has_tags = True,
        dr_has_cost = True, dr_has_description = True, dr_has_rating = True, dr_cost_tier = ''Medium ($500-$2K)''\<rparr>, \<lparr>dr_name = Val (JStr ''pandas''), dr_company = JStr ''No Company Data'', dr_tags_list = [JStr ''ml''],
        dr_tags = JStr ''ml'', dr_cost = None, dr_rating = Some 0, dr_has_company = False, dr_has_tags = True,
        dr_has_cost = False, dr_has_description = False, dr_has_rating = False, dr_cost_tier = ''Unknown''\<rparr>]\<rparr>
     \<lparr>search = ''zzz'', company_filter = [], tag_filter = [JStr ''ml''], cost_tier_filter = [''Free'']\<rparr> = Inl KeyError \<and>
   get_filtered_data (\<lambda>p. None) \<lparr>df_has_name = True, df_rows = []\<rparr>
     \<lparr>search = ''c++('', company_filter = [], tag_filter = [], cost_tier_filter = []\<rparr> = Inl ReError"
proof
  show "get_filtered_data (\<lambda>p. Some (\<lambda>s. s = p)) \<lparr>df_has_name = True, df_rows = [\<lparr>dr_name = Val (JStr ''spark''), dr_company = JStr ''acme'', dr_tags_list = [JStr ''ml'', JStr ''ai''],
        dr_tags = JStr ''ml, ai'', dr_cost = Some 1200, dr_rating = Some 4, dr_has_company = True, dr_has_tags = True,
        dr_has_cost = True, dr_has_description = True, dr_has_rating = True, dr_cost_tier = ''Medium ($500-$2K)''\<rparr>, \<lparr>dr_name = Val (JStr ''pandas''), dr_company = JStr ''No Company Data'', dr_tags_list = [JStr ''ml''],
        dr_tags = JStr ''ml'', dr_cost = None, dr_rating = Some 0, dr_has_company = False, dr_has_tags = True,
        dr_has_cost = False, dr_has_description = False, dr_has_rating = False, dr_cost_tier = ''Unknown''\<rparr>]\<rparr>
     \<lparr>search = ''zzz'', company_filter = [], tag_filter = [JStr ''ml''], cost_tier_filter = [''Free'']\<rparr> = Inl KeyError"
    using get_filtered_data_errors [where re_compile = "(\<lambda>p. Some (\<lambda>s. s = p))" and df = "\<lparr>df_has_name = True, df_rows = [\<lparr>dr_name = Val (JStr ''spark''), dr_company = JStr ''acme'', dr_tags_list = [JStr ''ml'', JStr ''ai''],
        dr_tags = JStr ''ml, ai'', dr_cost = Some 1200, dr_rating = Some 4, dr_has_company = True, dr_has_tags = True,
        dr_has_cost = True, dr_has_description = True, dr_has_rating = True, dr_cost_tier = ''Medium ($500-$2K)''\<rparr>, \<lparr>dr_name = Val (JStr ''pandas''), dr_company = JStr ''No Company Data'', dr_tags_list = [JStr ''ml''],
        dr_tags = JStr ''ml'', dr_cost = None, dr_rating = Some 0, dr_has_company = False, dr_has_tags = True,
        dr_has_cost = False, dr_has_description = False, dr_has_rating = False, dr_cost_tier = ''Unknown''\<rparr>]\<rparr>" and f = "\<lparr>search = ''zzz'', company_filter = [], tag_filter = [JStr ''ml''], cost_tier_filter = [''Free'']\<rparr>" and e = KeyError]
    by (simp add: search_filter_def)
  show "get_filtered_data (\<lambda>p. None) \<lparr>df_has_name = True, df_rows = []\<rparr>
     \<lparr>search = ''c++('', company_filter = [], tag_filter = [], cost_tier_filter = []\<rparr> = Inl ReError"
    using get_filtered_data_errors [where re_compile = "\<lambda>p. None" and df = "\<lparr>df_has_name = True, df_rows = []\<rparr>"
      and f = "\<lparr>search = ''c++('', company_filter = [], tag_filter = [], cost_tier_filter = []\<rparr>" and e = ReError]
    by simp
qed

section \<open>Sorted widget options\<close>

lemma py_unique_props [simp]:
  "distinct (py_unique xs)" "set (py_unique xs) = set xs"
  by (simp_all add: py_unique_def)

lemma py_unique_map_inj: "inj f \<Longrightarrow> py_unique (map f xs) = map f (py_unique xs)"
  by (simp add: py_unique_def rev_map remdups_map_inj)

lemma sort_py_unique: "sort (py_unique xs) = sorted_list_of_set (set xs)"
proof -
  have "mset (py_unique xs) = mset (remdups xs)"
    by (simp add: set_eq_iff_mset_eq_distinct [symmetric])
  then have "sort (py_unique xs) = sort (remdups xs)"
    by (metis properties_for_sort mset_sort sorted_sort)
  then show ?thesis by (simp add: sorted_list_of_set_sort_remdups)
qed

lemma strings_as_map:
  "\<forall>t \<in> set xs. \<exists>s. t = JStr s \<Longrightarrow> xs = map JStr (map (\<lambda>t. the (str_key t)) xs)"
  by (induction xs) auto

lemma inj_JStr: "inj JStr"
  by (rule injI) simp

lemma map_fst_strings:
  "\<forall>kv \<in> set K. \<exists>s. kv = (JStr s, ()) \<Longrightarrow> map fst K = map JStr (map (\<lambda>kv. the (str_key (fst kv))) K)"
  by (induction K) auto

lemma py_sorted_strings:
  assumes "distinct ss"
  shows "py_sorted (map JStr ss) = Inr (map JStr (sort ss))"
proof -
  let ?L = "map (\<lambda>x. (x, ())) (map JStr ss)"
  let ?key = "\<lambda>kv. the (str_key (fst kv))"
  let ?K = "sort_key ?key ?L"
  have strs: "list_all (\<lambda>kv. \<exists>s. fst kv = JStr s) ?L" by (simp add: list_all_iff)
  have sorted: "py_sorted (map JStr ss) = Inr (map fst ?K)"
    unfolding py_sorted_def py_sorted_items_strings [OF strs] by simp
  have perm: "mset ?K = mset ?L" by simp
  have "set ?K = set ?L" by (simp only: set_sort)
  then have "\<forall>kv \<in> set ?K. \<exists>s. kv = (JStr s, ())" by auto
  then have fstK: "map fst ?K = map JStr (map ?key ?K)"
    by (rule map_fst_strings)
  have "map ?key ?L = ss" by (induction ss) simp_all
  then have "mset (map ?key ?K) = mset ss" using perm by (metis mset_map)
  moreover have "sorted (map ?key ?K)" by (rule sorted_sort_key)
  ultimately have "sort ss = map ?key ?K" by (rule properties_for_sort)
  with sorted fstK show ?thesis by simp
qed

text \<open>
  C28 (category options): when every tag is a string, the category filter offers the sorted list of the distinct non-empty tag names: the result does not depend on the iteration order of the Python set it is built from.
\<close>

theorem all_tags_sorted_set:
  assumes "\<forall>t \<in> set (concat (map dr_tags_list (df_rows df))). \<exists>s. t = JStr s"
  shows "all_tags df =
         Inr (map JStr (sorted_list_of_set {s. s \<noteq> [] \<and> JStr s \<in> set (concat (map dr_tags_list (df_rows df)))}))"
proof -
  let ?tags = "concat (map dr_tags_list (df_rows df))"
  define ss where "ss = map (\<lambda>t. the (str_key t)) ?tags"
  have tags: "?tags = map JStr ss"
    unfolding ss_def by (rule strings_as_map [OF assms])
  let ?us = "filter (\<lambda>s. s \<noteq> []) ss"
  have ts: "filter py_truthy ?tags = map JStr ?us"
    unfolding tags by (induction ss) auto
  have h: "list_all hashable (map JStr ?us)" by (simp add: list_all_iff)
  have "all_tags df = py_sorted (map JStr (py_unique ?us))"
    by (simp add: all_tags_def ts h py_unique_map_inj [OF inj_JStr] del: filter_map)
  also have "\<dots> = Inr (map JStr (sort (py_unique ?us)))"
    by (rule py_sorted_strings) simp
  also have "sort (py_unique ?us) = sorted_list_of_set {s. s \<noteq> [] \<and> JStr s \<in> set ?tags}"
    unfolding sort_py_unique tags by (rule arg_cong [where f = sorted_list_of_set]) auto
  finally show ?thesis .
qed

theorem all_tags_sorted_set_witness:
  "all_tags \<lparr>df_has_name = True, df_rows = [\<lparr>dr_name = Val (JStr ''spark''), dr_company = JStr ''acme'', dr_tags_list = [JStr ''ml'', JStr ''ai''],
        dr_tags = JStr ''ml, ai'', dr_cost = Some 1200, dr_rating = Some 4, dr_has_company = True, dr_has_tags = True,
        dr_has_cost = True, dr_has_description = True, dr_has_rating = True, dr_cost_tier = ''Medium ($500-$2K)''\<rparr>, \<lparr>dr_name = Val (JStr ''pandas''), dr_company = JStr ''No Company Data'', dr_tags_list = [JStr ''ml''],
        dr_tags = JStr ''ml'', dr_cost = None, dr_rating = Some 0, dr_has_company = False, dr_has_tags = True,
        dr_has_cost = False, dr_has_description = False, dr_has_rating = False, dr_cost_tier = ''Unknown''\<rparr>]\<rparr> = Inr [JStr ''ai'', JStr ''ml'']"
proof -
  have "{s. s \<noteq> [] \<and> JStr s \<in> set (concat (map dr_tags_list (df_rows \<lparr>df_has_name = True, df_rows = [\<lparr>dr_name = Val (JStr ''spark''), dr_company = JStr ''acme'', dr_tags_list = [JStr ''ml'', JStr ''ai''],
        dr_tags = JStr ''ml, ai'', dr_cost = Some 1200, dr_rating = Some 4, dr_has_company = True, dr_has_tags = True,
        dr_has_cost = True, dr_has_description = True, dr_has_rating = True, dr_cost_tier = ''Medium ($500-$2K)''\<rparr>, \<lparr>dr_name = Val (JStr ''pandas''), dr_company = JStr ''No Company Data'', dr_tags_list = [JStr ''ml''],
        dr_tags = JStr ''ml'', dr_cost = None, dr_rating = Some 0, dr_has_company = False, dr_has_tags = True,
        dr_has_cost = False, dr_has_description = False, dr_has_rating = False, dr_cost_tier = ''Unknown''\<rparr>]\<rparr>)))} = set [''ai'', ''ml'']" by auto
  moreover have "sorted_list_of_set (set [''ai'', ''ml'']) = [''ai'', ''ml'']"
    by (simp only: sorted_list_of_set_sort_remdups) simp
  ultimately show ?thesis
    using all_tags_sorted_set [where df = "\<lparr>df_has_name = True, df_rows = [\<lparr>dr_name = Val (JStr ''spark''), dr_company = JStr ''acme'', dr_tags_list = [JStr ''ml'', JStr ''ai''],
        dr_tags = JStr ''ml, ai'', dr_cost = Some 1200, dr_rating = Some 4, dr_has_company = True, dr_has_tags = True,
        dr_has_cost = True, dr_has_description = True, dr_has_rating = True, dr_cost_tier = ''Medium ($500-$2K)''\<rparr>, \<lparr>dr_name = Val (JStr ''pandas''), dr_company = JStr ''No Company Data'', dr_tags_list = [JStr ''ml''],
        dr_tags = JStr ''ml'', dr_cost = None, dr_rating = Some 0, dr_has_company = False, dr_has_tags = True,
        dr_has_cost = False, dr_has_description = False, dr_has_rating = False, dr_cost_tier = ''Unknown''\<rparr>]\<rparr>"] by simp
qed

end
