(* ===== verification/Dash_Stats.thy ===== *)
theory Dash_Stats
  imports Dash_Views
begin

text \<open>
  The numbers the dashboard's panels show (\<^verbatim>\<open>tools_dashboard.py\<close>:
  \<^verbatim>\<open>calculate_statistics\<close>, \<^verbatim>\<open>stats_cards\<close>, \<^verbatim>\<open>market_segmentation\<close>, the counting loop of
  \<^verbatim>\<open>tag_chart\<close>), computed from the filtered rows. Statistics follow pandas: \<^verbatim>\<open>median\<close>
  averages the two middle values of an even-sized sample, \<^verbatim>\<open>quantile\<close> interpolates
  linearly between the order statistics around position \<open>(n - 1) * p\<close>, \<^verbatim>\<open>std\<close> is the
  sample standard deviation (\<^verbatim>\<open>ddof=1\<close>, NaN for one value). The skewness and kurtosis the
  function also stores (never read by the dashboard) follow scipy. The segmentation and the
  tag counts read columns of the filtered frame and raise KeyError on the column-less frame
  (\<open>with_columns\<close>); the cards only take its length, which is 0. The HTML and the plots
  built around these numbers are not modelled.
\<close>

section \<open>Descriptive statistics\<close>

definition py_mean :: "rat list \<Rightarrow> rat" where
  "py_mean xs = sum_list xs / of_nat (length xs)"

definition py_median :: "rat list \<Rightarrow> rat" where
  "py_median xs =
     (let ys = sort xs; n = length xs in
      if odd n then ys ! (n div 2) else (ys ! (n div 2 - 1) + ys ! (n div 2)) / 2)"

text \<open>Linear interpolation in a sorted sample at the fractional position \<open>h\<close>.\<close>

definition interp :: "rat list \<Rightarrow> rat \<Rightarrow> rat" where
  "interp ys h =
     (let lo = nat \<lfloor>h\<rfloor> in
      if lo + 1 < length ys then ys ! lo + (h - of_nat lo) * (ys ! (lo + 1) - ys ! lo) else ys ! lo)"

definition py_quantile :: "rat list \<Rightarrow> rat \<Rightarrow> rat" where
  "py_quantile xs p = interp (sort xs) (of_nat (length xs - 1) * p)"

definition py_std :: "rat list \<Rightarrow> real option" where
  "py_std xs =
     (if length xs < 2 then None
      else Some (sqrt (of_rat (sum_list (map (\<lambda>x. (x - py_mean xs)\<^sup>2) xs) / of_nat (length xs - 1)))))"

text \<open>
  \<^verbatim>\<open>scipy.stats.skew\<close> and \<^verbatim>\<open>scipy.stats.kurtosis\<close> with their defaults (biased
  estimators, Fisher's definition for the kurtosis): the central moments
  \<open>m\<^sub>k = \<Sum>(x - mean)\<^sup>k / n\<close>, skewness \<open>m\<^sub>3 / m\<^sub>2\<^sup>3\<^sup>/\<^sup>2\<close>, kurtosis \<open>m\<^sub>4 / m\<^sub>2\<^sup>2 - 3\<close>. scipy
  returns NaN (\<open>None\<close>) when \<open>m\<^sub>2\<close> vanishes; in exact arithmetic that is a constant sample.
\<close>

definition central_moment :: "nat \<Rightarrow> rat list \<Rightarrow> rat" where
  "central_moment k xs = sum_list (map (\<lambda>x. (x - py_mean xs) ^ k) xs) / of_nat (length xs)"

definition scipy_skew :: "rat list \<Rightarrow> real option" where
  "scipy_skew xs =
     (let m2 = central_moment 2 xs; m3 = central_moment 3 xs in
      if m2 = 0 then None else Some (of_rat m3 / (of_rat m2 * sqrt (of_rat m2))))"

definition scipy_kurtosis :: "rat list \<Rightarrow> rat option" where
  "scipy_kurtosis xs =
     (let m2 = central_moment 2 xs; m4 = central_moment 4 xs in
      if m2 = 0 then None else Some (m4 / m2\<^sup>2 - 3))"

record col_stats =
  st_count :: nat
  st_mean :: rat
  st_median :: rat
  st_std :: "real option"
  st_min :: rat
  st_max :: rat
  st_q25 :: rat
  st_q75 :: rat
  st_iqr :: rat
  st_skewness :: "real option"
  st_kurtosis :: "rat option"

text \<open>The dict \<^verbatim>\<open>calculate_statistics\<close> returns for a non-empty sample.\<close>

definition stats_of :: "rat list \<Rightarrow> col_stats" where
  "stats_of clean =
     \<lparr>st_count = length clean, st_mean = py_mean clean, st_median = py_median clean,
      st_std = py_std clean, st_min = Min (set clean), st_max = Max (set clean),
      st_q25 = py_quantile clean (1/4), st_q75 = py_quantile clean (3/4),
      st_iqr = py_quantile clean (3/4) - py_quantile clean (1/4),
      st_skewness = (if 2 < length clean then scipy_skew clean else Some 0),
      st_kurtosis = (if 2 < length clean then scipy_kurtosis clean else Some 0)\<rparr>"

text \<open>\<^verbatim>\<open>clean = series.dropna()\<close>; an empty sample gives the empty dict (\<open>None\<close>).\<close>

definition calculate_statistics :: "rat option list \<Rightarrow> col_stats option" where
  "calculate_statistics series =
     (let clean = [x. Some x \<leftarrow> series] in
      if clean = [] then None else Some (stats_of clean))"

section \<open>Overview cards\<close>

record cards =
  card_total :: nat
  card_company_count :: nat
  card_company_pct :: rat
  card_tags_count :: nat
  card_tags_pct :: rat
  card_cost_pct :: rat
  card_median_cost :: "rat option"

text \<open>\<^verbatim>\<open>stats_cards\<close>: \<open>None\<close> is the \<^verbatim>\<open>No data available\<close> pane; a median of \<open>None\<close> is shown as \<^verbatim>\<open>N/A\<close>.\<close>

definition stats_cards :: "regex_compile \<Rightarrow> dash_frame \<Rightarrow> filters \<Rightarrow> py_exc + cards option" where
  "stats_cards re_compile df f =
     ebind (get_filtered_data re_compile df f) (\<lambda>fr.
     let filtered = frame_rows fr; total = length filtered in
     if total = 0 then Inr None
     else Inr (Some \<lparr>card_total = total,
       card_company_count = length (filter dr_has_company filtered),
       card_company_pct = of_nat (length (filter dr_has_company filtered)) / of_nat total * 100,
       card_tags_count = length (filter dr_has_tags filtered),
       card_tags_pct = of_nat (length (filter dr_has_tags filtered)) / of_nat total * 100,
       card_cost_pct = of_nat (length (filter dr_has_cost filtered)) / of_nat total * 100,
       card_median_cost = map_option st_median (calculate_statistics (map dr_cost filtered))\<rparr>))"

section \<open>Market segmentation\<close>

text \<open>
  \<^verbatim>\<open>filtered['CostTier'].value_counts()\<close> reindexed by the tiers of \<open>TIER_ORDER\<close> that
  occur: one bar per occurring tier, in the fixed tier order.
\<close>

definition tier_counts :: "dash_row list \<Rightarrow> (string \<times> nat) list" where
  "tier_counts rows =
     [(t, length (filter (\<lambda>r. dr_cost_tier r = t) rows)). t \<leftarrow> TIER_ORDER, t \<in> set (map dr_cost_tier rows)]"

definition market_segmentation :: "regex_compile \<Rightarrow> dash_frame \<Rightarrow> filters \<Rightarrow> py_exc + (string \<times> nat) list" where
  "market_segmentation re_compile df f =
     ebind (get_filtered_data re_compile df f) (\<lambda>fr. with_columns fr (\<lambda>filtered. Inr (tier_counts filtered)))"

section \<open>Tag counts\<close>

text \<open>\<^verbatim>\<open>tag_counts[t] = tag_counts.get(t, 0) + 1\<close> over every tag of every tagged row.\<close>

fun count_tags :: "json list \<Rightarrow> (json \<times> nat) list \<Rightarrow> py_exc + (json \<times> nat) list" where
  "count_tags [] tag_counts = Inr tag_counts"
| "count_tags (t # ts) tag_counts =
     (if hashable t
      then count_tags ts (AList.update t ((case map_of tag_counts t of None \<Rightarrow> 0 | Some c \<Rightarrow> c) + 1) tag_counts)
      else Inl TypeError)"

text \<open>\<^verbatim>\<open>tag_chart\<close> up to the plot: \<open>None\<close> is the \<^verbatim>\<open>No tag data\<close> pane.\<close>

definition tag_chart_counts :: "regex_compile \<Rightarrow> dash_frame \<Rightarrow> filters \<Rightarrow> py_exc + (json \<times> nat) list option" where
  "tag_chart_counts re_compile df f =
     ebind (get_filtered_data re_compile df f) (\<lambda>fr. with_columns fr (\<lambda>filtered.
     if length (filter dr_has_tags filtered) = 0 then Inr None
     else ebind (count_tags (concat (map dr_tags_list (filter dr_has_tags filtered))) []) (\<lambda>c. Inr (Some c))))"

section \<open>Market segmentation\<close>

lemma tier_counts_sum:
  assumes "\<forall>r \<in> set rows. dr_cost_tier r \<in> set TIER_ORDER"
  shows "sum_list (map snd (tier_counts rows)) = length rows"
proof -
  let ?c = "\<lambda>t. length (filter (\<lambda>r. dr_cost_tier r = t) rows)"
  have "map snd (tier_counts rows) = map ?c (filter (\<lambda>t. t \<in> set (map dr_cost_tier rows)) TIER_ORDER)"
    unfolding tier_counts_def by (rule comprehension_snd)
  moreover have "sum_list (map ?c (filter (\<lambda>t. t \<in> set (map dr_cost_tier rows)) TIER_ORDER)) =
                 sum_list (map ?c TIER_ORDER)"
    by (rule sum_list_map_filter) (auto simp: filter_empty_conv)
  moreover have "sum_list (map ?c TIER_ORDER) = length rows"
    by (rule sum_counts_distinct [OF distinct_TIER_ORDER assms])
  ultimately show ?thesis by simp
qed

text \<open>
  C29 (segmentation covers the selection): the bars of the market segmentation are the tiers that occur among the filtered rows, in tier order, and their counts add up to the number of filtered rows: no row is dropped or counted twice.
\<close>

theorem market_segmentation_total:
  assumes "derive_frame rows = Inr df" and "market_segmentation re_compile df f = Inr bars"
  shows "\<exists>filtered. get_filtered_data re_compile df f = Inr (Rows filtered) \<and>
           sum_list (map snd bars) = length filtered \<and>
           map fst bars = filter (\<lambda>t. t \<in> dr_cost_tier ` set filtered) TIER_ORDER"
proof -
  obtain filtered where g: "get_filtered_data re_compile df f = Inr (Rows filtered)"
    and b: "bars = tier_counts filtered"
    using assms(2) by (auto simp: market_segmentation_def with_columns_eq_Inr ebind_eq_Inr)
  have "\<forall>r \<in> set filtered. dr_cost_tier r \<in> set TIER_ORDER"
    using get_filtered_data_subset [OF g] derive_frame_tiers [OF assms(1)] by auto
  then have "sum_list (map snd bars) = length filtered"
    using b tier_counts_sum by simp
  moreover have "map fst bars = filter (\<lambda>t. t \<in> dr_cost_tier ` set filtered) TIER_ORDER"
    unfolding b tier_counts_def comprehension_fst by simp
  ultimately show ?thesis using g by blast
qed

theorem market_segmentation_total_witness:
  "\<exists>df. derive_frame [JDict [(''ToolName'', JStr ''spark''), (''ToolCompany'', JList [JDict [(''value'', JStr ''acme'')]]),
      (''Tool Tags'', JList [JDict [(''value'', JStr ''ml'')]]), (''Annual License Cost'', JStr ''1200.50''),
      (''Overall Rating'', JInt 4), (''ToolDescription_long'', JStr ''d'')], JDict [(''ToolName'', JStr ''pandas''), (''ToolCompany'', JList []), (''Tool Tags'', JList []),
      (''Annual License Cost'', JNull), (''Overall Rating'', JInt 0), (''ToolDescription_long'', JStr [])]] = Inr df \<and>
     market_segmentation (\<lambda>p. None) df \<lparr>search = [], company_filter = [], tag_filter = [], cost_tier_filter = []\<rparr> = Inr [(''Medium ($500-$2K)'', 1), (''Unknown'', 1)] \<and>
     (\<exists>filtered. get_filtered_data (\<lambda>p. None) df \<lparr>search = [], company_filter = [], tag_filter = [], cost_tier_filter = []\<rparr> = Inr (Rows filtered) \<and>
        sum_list (map snd [(''Medium ($500-$2K)'', 1::nat), (''Unknown'', 1)]) = length filtered \<and>
        map fst [(''Medium ($500-$2K)'', 1::nat), (''Unknown'', 1)] =
          filter (\<lambda>t. t \<in> dr_cost_tier ` set filtered) TIER_ORDER)"
proof -
  obtain df where d: "derive_frame [JDict [(''ToolName'', JStr ''spark''), (''ToolCompany'', JList [JDict [(''value'', JStr ''acme'')]]),
      (''Tool Tags'', JList [JDict [(''value'', JStr ''ml'')]]), (''Annual License Cost'', JStr ''1200.50''),
      (''Overall Rating'', JInt 4), (''ToolDescription_long'', JStr ''d'')], JDict [(''ToolName'', JStr ''pandas''), (''ToolCompany'', JList []), (''Tool Tags'', JList []),
      (''Annual License Cost'', JNull), (''Overall Rating'', JInt 0), (''ToolDescription_long'', JStr [])]] = Inr df"
    and m: "market_segmentation (\<lambda>p. None) df \<lparr>search = [], company_filter = [], tag_filter = [], cost_tier_filter = []\<rparr> = Inr [(''Medium ($500-$2K)'', 1), (''Unknown'', 1)]"
    by (simp add: derive_frame_def column_def frame_cell_def extract_company_def extract_tags_list_def extract_tags_str_def mk_row_def parse_unsigned_def digit_val_def NO_COMPANY_def UNCATEGORIZED_def market_segmentation_def with_columns_def get_filtered_data_def search_filter_def tier_counts_def TIER_ORDER_def)
  show ?thesis using market_segmentation_total [OF d m] d m by blast
qed

section \<open>Order statistics\<close>

lemma floor_pos_facts:
  fixes h :: rat
  assumes "0 \<le> h"
  shows "of_nat (nat \<lfloor>h\<rfloor>) \<le> h" and "h < of_nat (nat \<lfloor>h\<rfloor>) + 1"
proof -
  have "of_nat (nat \<lfloor>h\<rfloor>) = (of_int \<lfloor>h\<rfloor> :: rat)" using assms by simp
  then show "of_nat (nat \<lfloor>h\<rfloor>) \<le> h" and "h < of_nat (nat \<lfloor>h\<rfloor>) + 1"
    using floor_correct [of h] by simp_all
qed

lemma floor_lt_length:
  fixes h :: rat
  assumes "0 \<le> h" "h \<le> of_nat (length ys - 1)" "ys \<noteq> []"
  shows "nat \<lfloor>h\<rfloor> < length ys"
proof -
  have "of_nat (nat \<lfloor>h\<rfloor>) \<le> (of_nat (length ys - 1) :: rat)"
    using floor_pos_facts(1) [OF assms(1)] assms(2) by linarith
  then have "nat \<lfloor>h\<rfloor> \<le> length ys - 1" by (simp only: of_nat_le_iff)
  with assms(3) show ?thesis by (cases ys) auto
qed

lemma interp_bounds:
  fixes ys :: "rat list"
  assumes "sorted ys" "0 \<le> h" "h \<le> of_nat (length ys - 1)" "ys \<noteq> []"
  shows "ys ! nat \<lfloor>h\<rfloor> \<le> interp ys h"
    and "interp ys h \<le> ys ! min (nat \<lfloor>h\<rfloor> + 1) (length ys - 1)"
proof -
  let ?lo = "nat \<lfloor>h\<rfloor>"
  have lo: "?lo < length ys" by (rule floor_lt_length [OF assms(2-4)])
  have f0: "0 \<le> h - of_nat ?lo" and f1: "h - of_nat ?lo \<le> 1"
    using floor_pos_facts [OF assms(2)] by linarith+
  show "ys ! ?lo \<le> interp ys h"
  proof (cases "?lo + 1 < length ys")
    case True
    then have "ys ! ?lo \<le> ys ! (?lo + 1)" using assms(1) by (simp add: sorted_iff_nth_mono)
    with True f0 show ?thesis by (simp add: interp_def Let_def)
  qed (simp add: interp_def Let_def)
  show "interp ys h \<le> ys ! min (?lo + 1) (length ys - 1)"
  proof (cases "?lo + 1 < length ys")
    case True
    then have d: "0 \<le> ys ! (?lo + 1) - ys ! ?lo" using assms(1) by (simp add: sorted_iff_nth_mono)
    have "(h - of_nat ?lo) * (ys ! (?lo + 1) - ys ! ?lo) \<le> 1 * (ys ! (?lo + 1) - ys ! ?lo)"
      by (rule mult_right_mono [OF f1 d])
    moreover have "min (?lo + 1) (length ys - 1) = ?lo + 1" using True by simp
    ultimately show ?thesis using True by (simp add: interp_def Let_def)
  next
    case False
    with lo have "?lo = length ys - 1" by simp
    with False show ?thesis by (simp add: interp_def Let_def)
  qed
qed

lemma interp_mono:
  fixes ys :: "rat list"
  assumes "sorted ys" "0 \<le> h1" "h1 \<le> h2" "h2 \<le> of_nat (length ys - 1)" "ys \<noteq> []"
  shows "interp ys h1 \<le> interp ys h2"
proof -
  let ?l1 = "nat \<lfloor>h1\<rfloor>" and ?l2 = "nat \<lfloor>h2\<rfloor>"
  have h1u: "h1 \<le> of_nat (length ys - 1)" using assms by linarith
  have le: "?l1 \<le> ?l2" using assms(3) by (simp add: floor_mono nat_mono)
  show ?thesis
  proof (cases "?l1 = ?l2")
    case True
    show ?thesis
    proof (cases "?l1 + 1 < length ys")
      case c: True
      then have d: "0 \<le> ys ! (?l1 + 1) - ys ! ?l1" using assms(1) by (simp add: sorted_iff_nth_mono)
      have "(h1 - of_nat ?l1) * (ys ! (?l1 + 1) - ys ! ?l1) \<le> (h2 - of_nat ?l1) * (ys ! (?l1 + 1) - ys ! ?l1)"
        by (rule mult_right_mono [OF _ d]) (use assms(3) in linarith)
      with c True show ?thesis by (simp add: interp_def Let_def)
    next
      case False
      with True show ?thesis by (simp add: interp_def Let_def)
    qed
  next
    case False
    with le have lt: "?l1 + 1 \<le> ?l2" by simp
    have l2: "?l2 < length ys" by (rule floor_lt_length [OF _ assms(4,5)]) (use assms in linarith)
    have "interp ys h1 \<le> ys ! min (?l1 + 1) (length ys - 1)"
      by (rule interp_bounds(2) [OF assms(1,2) h1u assms(5)])
    also have "\<dots> \<le> ys ! ?l2"
      using assms(1) lt l2 by (simp add: sorted_iff_nth_mono)
    also have "\<dots> \<le> interp ys h2"
      by (rule interp_bounds(1) [OF assms(1) _ assms(4,5)]) (use assms in linarith)
    finally show ?thesis .
  qed
qed

lemma floor_nat_half: "\<lfloor>(of_nat m + 1/2 :: rat)\<rfloor> = int m"
  by (rule floor_unique) simp_all

theorem py_median_quantile:
  assumes "xs \<noteq> []"
  shows "py_median xs = py_quantile xs (1/2)"
proof (cases "odd (length xs)")
  case True
  then obtain k where n: "length xs = 2 * k + 1" by (metis oddE)
  have h: "(of_nat (length xs - 1) * (1/2) :: rat) = of_nat k" using n by simp
  have "py_quantile xs (1/2) = sort xs ! k"
    unfolding py_quantile_def h by (simp add: interp_def Let_def)
  moreover have "py_median xs = sort xs ! k"
    using True n by (simp add: py_median_def)
  ultimately show ?thesis by simp
next
  case False
  then obtain k where n: "length xs = 2 * k" by (metis evenE)
  with assms have k: "1 \<le> k" by (cases k) auto
  have h: "(of_nat (length xs - 1) * (1/2) :: rat) = of_nat (k - 1) + 1/2"
    using n k by (simp add: of_nat_diff field_simps)
  have lo: "nat \<lfloor>(of_nat (k - 1) + 1/2 :: rat)\<rfloor> = k - 1"
    by (simp only: floor_nat_half nat_int)
  have lt: "k - 1 + 1 < length (sort xs)" using n k by simp
  have "py_quantile xs (1/2) = sort xs ! (k - 1) + (1/2) * (sort xs ! (k - 1 + 1) - sort xs ! (k - 1))"
    unfolding py_quantile_def h interp_def Let_def lo using lt by simp
  also have "\<dots> = (sort xs ! (k - 1) + sort xs ! k) / 2"
    using k by (simp add: field_simps)
  also have "\<dots> = py_median xs"
    using False n by (simp add: py_median_def Let_def)
  finally show ?thesis by simp
qed

lemma sort_Min_Max:
  fixes xs :: "rat list"
  assumes "xs \<noteq> []"
  shows "Min (set xs) = sort xs ! 0" and "Max (set xs) = sort xs ! (length xs - 1)"
proof -
  have s: "sorted (sort xs)" and l: "length (sort xs) = length xs" and st: "set (sort xs) = set xs" by simp_all
  have n: "0 < length xs" using assms by simp
  show "Min (set xs) = sort xs ! 0"
  proof (rule Min_eqI)
    show "sort xs ! 0 \<in> set xs" using n l st by (metis nth_mem)
    fix y assume "y \<in> set xs"
    then obtain i where "i < length xs" "sort xs ! i = y" using st l by (metis in_set_conv_nth)
    then show "sort xs ! 0 \<le> y" using s l by (metis le0 sorted_iff_nth_mono)
  qed simp
  show "Max (set xs) = sort xs ! (length xs - 1)"
  proof (rule Max_eqI)
    show "sort xs ! (length xs - 1) \<in> set xs" using n l st by (metis diff_less nth_mem zero_less_one)
    fix y assume "y \<in> set xs"
    then obtain i where "i < length xs" "sort xs ! i = y" using st l by (metis in_set_conv_nth)
    moreover from \<open>i < length xs\<close> have "i \<le> length xs - 1" by simp
    moreover have "length xs - 1 < length (sort xs)" using n l by simp
    ultimately show "y \<le> sort xs ! (length xs - 1)" using s by (metis sorted_iff_nth_mono)
  qed simp
qed

lemma py_quantile_mono:
  "xs \<noteq> [] \<Longrightarrow> 0 \<le> p \<Longrightarrow> p \<le> q \<Longrightarrow> q \<le> 1 \<Longrightarrow> py_quantile xs p \<le> py_quantile xs q"
proof -
  assume a: "xs \<noteq> []" "0 \<le> p" "p \<le> q" "q \<le> 1"
  have ne: "sort xs \<noteq> []" using a(1) by (metis length_0_conv length_sort)
  have "rat_of_nat (length xs - 1) * q \<le> rat_of_nat (length xs - 1)"
    using mult_left_le [OF a(4), of "rat_of_nat (length xs - 1)"] by simp
  then show ?thesis
    unfolding py_quantile_def
    by (intro interp_mono) (simp_all add: ne a(2) mult_left_mono [OF a(3)])
qed

lemma py_quantile_range:
  assumes "xs \<noteq> []" "0 \<le> p" "p \<le> 1"
  shows "Min (set xs) \<le> py_quantile xs p" and "py_quantile xs p \<le> Max (set xs)"
proof -
  have "py_quantile xs 0 \<le> py_quantile xs p" and "py_quantile xs p \<le> py_quantile xs 1"
    using py_quantile_mono assms by simp_all
  moreover have "py_quantile xs 0 = sort xs ! 0"
    by (simp add: py_quantile_def interp_def)
  moreover have "py_quantile xs 1 = sort xs ! (length xs - 1)"
    by (simp add: py_quantile_def interp_def Let_def)
  ultimately show "Min (set xs) \<le> py_quantile xs p" and "py_quantile xs p \<le> Max (set xs)"
    using sort_Min_Max [OF assms(1)] by simp_all
qed

lemma clean_nonempty:
  "calculate_statistics series = Some st \<Longrightarrow>
   [x. Some x \<leftarrow> series] \<noteq> [] \<and>
   st = stats_of [x. Some x \<leftarrow> series]"
  by (simp add: calculate_statistics_def Let_def split: if_splits)

lemma calculate_statistics_None:
  "calculate_statistics xs = None \<longleftrightarrow> list_all (\<lambda>x. x = None) xs"
proof -
  have "[x. Some x \<leftarrow> xs] = [] \<longleftrightarrow> list_all (\<lambda>x. x = None) xs"
    by (induction xs) (auto split: option.splits)
  then show ?thesis by (simp add: calculate_statistics_def Let_def)
qed

text \<open>
  C30 (order of the statistics): the statistics of a non-empty sample count its non-missing values and are ordered: minimum, lower quartile, median, upper quartile, maximum, with a non-negative interquartile range.
\<close>

theorem calculate_statistics_order:
  assumes "calculate_statistics series = Some st"
  shows "st_count st = length [x. Some x \<leftarrow> series] \<and> st_min st \<le> st_q25 st \<and> st_q25 st \<le> st_median st \<and>
         st_median st \<le> st_q75 st \<and> st_q75 st \<le> st_max st \<and> 0 \<le> st_iqr st"
proof -
  let ?c = "[x. Some x \<leftarrow> series]"
  have ne: "?c \<noteq> []" and st: "st = stats_of ?c"
    using clean_nonempty [OF assms] by blast+
  have m: "py_median ?c = py_quantile ?c (1/2)" by (rule py_median_quantile [OF ne])
  have "py_quantile ?c (1/4) \<le> py_quantile ?c (1/2)" "py_quantile ?c (1/2) \<le> py_quantile ?c (3/4)"
    by (rule py_quantile_mono [OF ne]; simp)+
  moreover have "Min (set ?c) \<le> py_quantile ?c (1/4)" "py_quantile ?c (3/4) \<le> Max (set ?c)"
    by (rule py_quantile_range [OF ne]; simp)+
  moreover have "py_quantile ?c (1/4) \<le> py_quantile ?c (3/4)"
    by (rule py_quantile_mono [OF ne]; simp)
  ultimately show ?thesis using st m by (simp add: stats_of_def)
qed

theorem calculate_statistics_order_witness:
  "calculate_statistics [Some 4, None, Some 1, Some 3, Some 2] \<noteq> None \<and>
   st_count (the (calculate_statistics [Some 4, None, Some 1, Some 3, Some 2])) = 4 \<and>
   st_q25 (the (calculate_statistics [Some 4, None, Some 1, Some 3, Some 2])) \<le>
   st_median (the (calculate_statistics [Some 4, None, Some 1, Some 3, Some 2]))"
proof -
  have ne: "calculate_statistics [Some 4, None, Some 1, Some 3, Some (2::rat)] \<noteq> None"
    by (simp add: calculate_statistics_None)
  then obtain st where s: "calculate_statistics [Some 4, None, Some 1, Some 3, Some (2::rat)] = Some st" by blast
  from calculate_statistics_order [OF s] s show ?thesis by simp
qed

section \<open>Overview cards\<close>

lemma pct_bounds:
  "a \<le> t \<Longrightarrow> 0 < t \<Longrightarrow> 0 \<le> of_nat a / of_nat t * (100::rat) \<and> of_nat a / of_nat t * (100::rat) \<le> 100"
  by (simp add: divide_le_eq)

section \<open>Tag counts\<close>

lemma count_tags_counts:
  "count_tags ts d = Inr d' \<Longrightarrow>
   map_of d' t = (if t \<in> set ts \<or> map_of d t \<noteq> None
                  then Some ((case map_of d t of None \<Rightarrow> 0 | Some c \<Rightarrow> c) + count (mset ts) t) else None)"
proof (induction ts d rule: count_tags.induct)
  case (1 tag_counts)
  then show ?case by (auto split: option.splits)
next
  case (2 x ts tag_counts)
  then show ?case
    by (cases "x = t") (auto split: option.splits if_splits)
qed

lemma count_tags_distinct:
  "count_tags ts d = Inr d' \<Longrightarrow> distinct (map fst d) \<Longrightarrow> distinct (map fst d')"
  by (induction ts d rule: count_tags.induct) (auto split: if_splits intro: distinct_keys_update)

lemma count_tags_ok:
  "list_all hashable ts \<Longrightarrow> \<exists>d'. count_tags ts d = Inr d'"
  by (induction ts d rule: count_tags.induct) auto

text \<open>The counts of the tag chart's loop, for the chart theorems.\<close>

lemma tag_chart_counts_Some:
  assumes "tag_chart_counts re_compile df f = Inr (Some d)"
  shows "\<exists>filtered. get_filtered_data re_compile df f = Inr (Rows filtered) \<and> distinct (map fst d) \<and>
           (\<forall>t. map_of d t =
                  (if t \<in> set (concat (map dr_tags_list (filter dr_has_tags filtered)))
                   then Some (count (mset (concat (map dr_tags_list (filter dr_has_tags filtered)))) t)
                   else None))"
proof -
  obtain filtered where g: "get_filtered_data re_compile df f = Inr (Rows filtered)"
    and c: "count_tags (concat (map dr_tags_list (filter dr_has_tags filtered))) [] = Inr d"
    using assms by (auto simp: tag_chart_counts_def with_columns_eq_Inr ebind_eq_Inr split: if_splits)
  have "distinct (map fst d)" using count_tags_distinct [OF c] by simp
  moreover have "\<forall>t. map_of d t =
                  (if t \<in> set (concat (map dr_tags_list (filter dr_has_tags filtered)))
                   then Some (count (mset (concat (map dr_tags_list (filter dr_has_tags filtered)))) t)
                   else None)"
  proof
    fix t
    show "map_of d t =
                  (if t \<in> set (concat (map dr_tags_list (filter dr_has_tags filtered)))
                   then Some (count (mset (concat (map dr_tags_list (filter dr_has_tags filtered)))) t)
                   else None)"
      using count_tags_counts [OF c, of t] by (simp only: map_of.simps option.case simp_thms add_0)
  qed
  ultimately show ?thesis using g by blast
qed

end
