(* ===== verification/Dash_Charts.thy ===== *)
theory Dash_Charts
  imports Dash_Stats
begin

text \<open>
  The chart and table panels of the dashboard (\<^verbatim>\<open>tools_dashboard.py\<close>: \<^verbatim>\<open>cost_boxplot\<close>,
  \<^verbatim>\<open>cost_histogram\<close>, \<^verbatim>\<open>company_chart\<close>, the selection of \<^verbatim>\<open>tag_chart\<close>, \<^verbatim>\<open>data_table\<close>)
  up to the data they hand to the plotting library. pandas sorts counts with an
  unspecified algorithm (\<^verbatim>\<open>value_counts\<close>, \<^verbatim>\<open>sort_values\<close> with its default, unstable
  kind), so the order of equal counts is not fixed by the code: the sort is a parameter
  \<open>count_sort\<close>, and the theorems assume only \<open>sorts_by_count\<close>, that it permutes the
  counts into the requested order. Every panel here reads a column of the filtered frame,
  so on the column-less frame the tag filter can leave it raises KeyError (\<open>with_columns\<close>).
\<close>

section \<open>Sorting counts\<close>

type_synonym count_sort = "(json \<times> nat) list \<Rightarrow> (json \<times> nat) list"

definition count_order :: "bool \<Rightarrow> 'k \<times> nat \<Rightarrow> 'k \<times> nat \<Rightarrow> bool" where
  "count_order ascending a b = (if ascending then snd a \<le> snd b else snd b \<le> snd a)"

definition sorts_by_count :: "bool \<Rightarrow> count_sort \<Rightarrow> bool" where
  "sorts_by_count ascending srt =
     (\<forall>cs. mset (srt cs) = mset cs \<and> sorted_wrt (count_order ascending) (srt cs))"

text \<open>
  \<^verbatim>\<open>Series.value_counts()\<close> on an object column: missing values (\<^verbatim>\<open>None\<close>) are dropped,
  the distinct values are counted in order of first appearance and sorted by
  decreasing count; an unhashable value (a list or dict) raises \<^verbatim>\<open>TypeError\<close>.
\<close>

text \<open>The counts \<^verbatim>\<open>value_counts\<close> computes before sorting: one entry per distinct value, with its count.\<close>

definition counts_of :: "'a list \<Rightarrow> ('a \<times> nat) list" where
  "counts_of ys = map (\<lambda>k. (k, count_list ys k)) (remdups ys)"

definition value_counts :: "count_sort \<Rightarrow> json list \<Rightarrow> py_exc + (json \<times> nat) list" where
  "value_counts srt xs =
     (if list_all hashable xs then Inr (srt (counts_of (filter (\<lambda>x. x \<noteq> JNull) xs))) else Inl TypeError)"

text \<open>\<^verbatim>\<open>Series.tail(k)\<close>: the last \<open>k\<close> items.\<close>

definition py_tail :: "nat \<Rightarrow> 'a list \<Rightarrow> 'a list" where
  "py_tail k xs = drop (length xs - k) xs"

section \<open>Company and tag charts\<close>

text \<open>
  \<^verbatim>\<open>company_chart\<close> up to the plot: \<open>None\<close> is the \<^verbatim>\<open>No company data\<close> pane, otherwise
  \<^verbatim>\<open>value_counts().head(15)\<close> of the companies of the rows with a company.
\<close>

definition company_chart_data :: "count_sort \<Rightarrow> regex_compile \<Rightarrow> dash_frame \<Rightarrow> filters \<Rightarrow> py_exc + (json \<times> nat) list option" where
  "company_chart_data srt re_compile df f =
     ebind (get_filtered_data re_compile df f) (\<lambda>fr. with_columns fr (\<lambda>filtered.
     if length (filter dr_has_company filtered) = 0 then Inr None
     else ebind (value_counts srt (map dr_company (filter dr_has_company filtered))) (\<lambda>vc. Inr (Some (take 15 vc)))))"

text \<open>
  \<^verbatim>\<open>tag_chart\<close> up to the plot: \<^verbatim>\<open>pd.Series(tag_counts).sort_values(ascending=True).tail(15)\<close>
  of the counts of the loop.
\<close>

definition tag_chart_data :: "count_sort \<Rightarrow> regex_compile \<Rightarrow> dash_frame \<Rightarrow> filters \<Rightarrow> py_exc + (json \<times> nat) list option" where
  "tag_chart_data srt re_compile df f =
     ebind (tag_chart_counts re_compile df f) (\<lambda>r. Inr (map_option (\<lambda>c. py_tail 15 (srt c)) r))"

section \<open>Cost panels\<close>

text \<open>
  \<^verbatim>\<open>cost_boxplot\<close> up to the plot: \<open>None\<close> is the \<^verbatim>\<open>No cost data available\<close> pane,
  otherwise the \<^verbatim>\<open>Cost\<close> column of \<^verbatim>\<open>filtered[filtered['HasCost']]\<close> and the \<open>n\<close> of the title.
\<close>

definition cost_boxplot :: "regex_compile \<Rightarrow> dash_frame \<Rightarrow> filters \<Rightarrow> py_exc + (rat option list \<times> nat) option" where
  "cost_boxplot re_compile df f =
     ebind (get_filtered_data re_compile df f) (\<lambda>fr. with_columns fr (\<lambda>filtered.
     let cost_data = filter dr_has_cost filtered in
     if length cost_data = 0 then Inr None
     else Inr (Some (map dr_cost cost_data, length cost_data))))"

text \<open>
  \<^verbatim>\<open>cost_histogram\<close> up to the plot: the plotted column with the mean and standard
  deviation of its title; \<^verbatim>\<open>stats_info["mean"]\<close> on the empty dict raises \<^verbatim>\<open>KeyError\<close>.
\<close>

definition cost_histogram :: "regex_compile \<Rightarrow> dash_frame \<Rightarrow> filters \<Rightarrow> py_exc + (rat option list \<times> rat \<times> real option) option" where
  "cost_histogram re_compile df f =
     ebind (get_filtered_data re_compile df f) (\<lambda>fr. with_columns fr (\<lambda>filtered.
     let cost_data = map dr_cost (filter dr_has_cost filtered) in
     if length cost_data = 0 then Inr None
     else (case calculate_statistics cost_data of
             None \<Rightarrow> Inl KeyError
           | Some stats_info \<Rightarrow> Inr (Some (cost_data, st_mean stats_info, st_std stats_info)))))"

section \<open>Data table\<close>

record table_row =
  tbl_tool :: cell
  tbl_company :: json
  tbl_categories :: json
  tbl_cost :: "rat option"
  tbl_rating :: "rat option"
  tbl_tier :: string

text \<open>
  \<^verbatim>\<open>data_table\<close> up to the widget: the six columns selected and renamed; selecting
  \<^verbatim>\<open>ToolName\<close> from a frame without that column raises \<^verbatim>\<open>KeyError\<close>.
\<close>

definition data_table :: "regex_compile \<Rightarrow> dash_frame \<Rightarrow> filters \<Rightarrow> py_exc + table_row list" where
  "data_table re_compile df f =
     ebind (get_filtered_data re_compile df f) (\<lambda>fr. with_columns fr (\<lambda>filtered.
     if \<not> df_has_name df then Inl KeyError
     else Inr (map (\<lambda>r. \<lparr>tbl_tool = dr_name r, tbl_company = dr_company r, tbl_categories = dr_tags r,
                           tbl_cost = dr_cost r, tbl_rating = dr_rating r, tbl_tier = dr_cost_tier r\<rparr>) filtered)))"

section \<open>Top-k selection\<close>

lemma sorted_wrt_take_drop_le:
  assumes "sorted_wrt (count_order False) ys" "p \<in> set (drop k ys)" "q \<in> set (take k ys)"
  shows "snd p \<le> snd q"
proof -
  have "sorted_wrt (count_order False) (take k ys @ drop k ys)" using assms(1) by (simp only: append_take_drop_id)
  then show ?thesis using assms(2,3) unfolding sorted_wrt_append count_order_def by simp
qed

lemma top_k_desc:
  assumes m: "mset ys = mset xs" and s: "sorted_wrt (count_order False) ys" and d: "distinct (map fst xs)"
  shows "distinct (map fst (take k ys)) \<and> length (take k ys) = min k (length xs) \<and>
         set (take k ys) \<subseteq> set xs \<and> sorted_wrt (count_order False) (take k ys) \<and>
         (\<forall>p \<in> set xs. fst p \<notin> fst ` set (take k ys) \<longrightarrow> (\<forall>q \<in> set (take k ys). snd p \<le> snd q))"
proof -
  have set_eq: "set ys = set xs" using m by (rule mset_eq_setD)
  have "mset (map fst ys) = mset (map fst xs)" using m by (simp only: mset_map)
  then have dy: "distinct (map fst ys)" using d by (metis mset_eq_imp_distinct_iff)
  have len: "length ys = length xs" using m by (rule mset_eq_length)
  have out: "snd p \<le> snd q" if p: "p \<in> set xs" "fst p \<notin> fst ` set (take k ys)" and q: "q \<in> set (take k ys)" for p q
  proof -
    have "p \<in> set (take k ys @ drop k ys)" using p(1) set_eq by simp
    moreover have "p \<notin> set (take k ys)" using p(2) by force
    ultimately have "p \<in> set (drop k ys)" by (simp only: set_append Un_iff) blast
    then show ?thesis using sorted_wrt_take_drop_le [OF s _ q] by simp
  qed
  have "distinct (map fst (take k ys))" using dy by (simp add: take_map [symmetric])
  moreover have "set (take k ys) \<subseteq> set xs" using set_eq by (metis set_take_subset)
  moreover have "sorted_wrt (count_order False) (take k ys)" using s by (rule sorted_wrt_take)
  ultimately show ?thesis using len out by simp
qed

lemma py_tail_rev: "py_tail k ys = rev (take k (rev ys))"
  by (simp add: py_tail_def take_rev)

lemma count_order_flip: "(\<lambda>a b. count_order asc b a) = count_order (\<not> asc)"
  by (auto simp: count_order_def fun_eq_iff)

lemma top_k_asc:
  assumes m: "mset ys = mset xs" and s: "sorted_wrt (count_order True) ys" and d: "distinct (map fst xs)"
  shows "distinct (map fst (py_tail k ys)) \<and> length (py_tail k ys) = min k (length xs) \<and>
         set (py_tail k ys) \<subseteq> set xs \<and> sorted_wrt (count_order True) (py_tail k ys) \<and>
         (\<forall>p \<in> set xs. fst p \<notin> fst ` set (py_tail k ys) \<longrightarrow> (\<forall>q \<in> set (py_tail k ys). snd p \<le> snd q))"
proof -
  have m': "mset (rev ys) = mset xs" using m by simp
  have s': "sorted_wrt (count_order False) (rev ys)" using s by (simp add: sorted_wrt_rev count_order_flip)
  have t: "sorted_wrt (count_order True) (rev (take k (rev ys)))"
    using sorted_wrt_take [OF s', of k] by (simp add: sorted_wrt_rev count_order_flip)
  show ?thesis using top_k_desc [OF m' s' d, of k] t unfolding py_tail_rev by (simp add: rev_map [symmetric])
qed


section \<open>Sorters and counts\<close>

lemma count_order_True: "count_order True = (\<lambda>a b. snd a \<le> snd b)"
  by (simp add: count_order_def fun_eq_iff)

lemma sorts_by_count_sort_key: "sorts_by_count True (sort_key snd)"
  unfolding sorts_by_count_def count_order_True by (metis mset_sort sorted_map sorted_sort_key)

lemma sorts_by_count_rev_sort_key: "sorts_by_count False (\<lambda>cs. rev (sort_key snd cs))"
  using sorts_by_count_sort_key by (simp add: sorts_by_count_def sorted_wrt_rev count_order_flip)

lemma counts_of_props:
  "distinct (map fst (counts_of ys)) \<and> set (counts_of ys) = (\<lambda>c. (c, count_list ys c)) ` set ys"
  by (auto simp: counts_of_def comp_def)

lemma value_counts_Inr:
  assumes "value_counts srt xs = Inr vc" "sorts_by_count False srt"
  shows "mset vc = mset (counts_of (filter (\<lambda>x. x \<noteq> JNull) xs)) \<and> sorted_wrt (count_order False) vc"
  using assms by (auto simp: value_counts_def sorts_by_count_def split: if_splits)

text \<open>A dict of counts with distinct keys, read as a list of pairs.\<close>

lemma map_of_counts_set:
  assumes d: "distinct (map fst d)" and m: "\<forall>t. map_of d t = (if t \<in> set ts then Some (count_list ts t) else None)"
  shows "set d = (\<lambda>c. (c, count_list ts c)) ` set ts"
proof -
  have key: "(a, b) \<in> set d \<longleftrightarrow> a \<in> set ts \<and> b = count_list ts a" for a b
  proof -
    have "(a, b) \<in> set d \<longleftrightarrow> map_of d a = Some b" using map_of_is_SomeI [OF d] map_of_SomeD by metis
    also have "\<dots> \<longleftrightarrow> a \<in> set ts \<and> b = count_list ts a" using m [rule_format, of a] by auto
    finally show ?thesis .
  qed
  show ?thesis
  proof (intro set_eqI)
    fix p :: "'a \<times> nat"
    show "p \<in> set d \<longleftrightarrow> p \<in> (\<lambda>c. (c, count_list ts c)) ` set ts"
      using key [of "fst p" "snd p"] by (cases p) auto
  qed
qed

text \<open>
  A selection \<open>sel\<close> from the counts \<open>xs\<close> of \<open>cs\<close> that keeps \<open>k\<close> entries and omits none
  that is larger than a kept one (what \<open>top_k_desc\<close> and \<open>top_k_asc\<close> give), restated in
  terms of the counted values.
\<close>

lemma top_k_counts:
  assumes xs: "distinct (map fst xs)" "set xs = (\<lambda>c. (c, count_list cs c)) ` set cs"
    and sel: "distinct (map fst sel) \<and> length sel = min k (length xs) \<and> set sel \<subseteq> set xs \<and> sorted_wrt R sel \<and>
      (\<forall>p \<in> set xs. fst p \<notin> fst ` set sel \<longrightarrow> (\<forall>q \<in> set sel. snd p \<le> snd q))"
  shows "distinct (map fst sel) \<and> length sel = min k (card (set cs)) \<and>
         (\<forall>p \<in> set sel. fst p \<in> set cs \<and> snd p = count_list cs (fst p)) \<and> sorted_wrt R sel \<and>
         (\<forall>c \<in> set cs. c \<notin> fst ` set sel \<longrightarrow> (\<forall>q \<in> set sel. count_list cs c \<le> snd q))"
proof -
  have "length xs = card (set (map fst xs))" using xs(1) by (simp only: distinct_card length_map)
  also have "set (map fst xs) = set cs" using xs(2) by force
  finally have len: "length xs = card (set cs)" .
  have sub: "set sel \<subseteq> set xs" using sel by blast
  have mem: "fst p \<in> set cs \<and> snd p = count_list cs (fst p)" if "p \<in> set sel" for p
    using that sub xs(2) by auto
  have out: "count_list cs c \<le> snd q" if c: "c \<in> set cs" "c \<notin> fst ` set sel" and q: "q \<in> set sel" for c q
  proof -
    have x: "(c, count_list cs c) \<in> set xs" using c(1) xs(2) by simp
    have A: "\<forall>p \<in> set xs. fst p \<notin> fst ` set sel \<longrightarrow> (\<forall>q \<in> set sel. snd p \<le> snd q)"
      using sel by (elim conjE)
    show ?thesis using A [rule_format, OF x _ q] c(2) by simp
  qed
  show ?thesis using sel len mem out by simp
qed

section \<open>Rows of a derived frame\<close>

text \<open>The flag columns of a loaded frame agree with the columns they test.\<close>

lemma derive_frame_flags:
  assumes "derive_frame rows = Inr df" "r \<in> set (df_rows df)"
  shows "(dr_has_cost r \<longleftrightarrow> dr_cost r \<noteq> None) \<and> (dr_has_company r \<longleftrightarrow> dr_company r \<noteq> NO_COMPANY) \<and>
         (dr_has_tags r \<longleftrightarrow> dr_tags r \<noteq> UNCATEGORIZED)"
  using derive_frame_rows [OF assms] by (auto simp: mk_row_def split: option.splits)

lemma cost_column_of_flags:
  "\<forall>r \<in> set rs. dr_has_cost r \<longleftrightarrow> dr_cost r \<noteq> None \<Longrightarrow>
   map dr_cost (filter dr_has_cost rs) = map Some [c. Some c \<leftarrow> map dr_cost rs]"
  by (induction rs) (auto split: option.splits)

lemma filtered_flags:
  assumes "derive_frame rows = Inr df" "get_filtered_data re_compile df f = Inr (Rows filtered)"
  shows "\<forall>r \<in> set filtered. (dr_has_cost r \<longleftrightarrow> dr_cost r \<noteq> None) \<and> (dr_has_company r \<longleftrightarrow> dr_company r \<noteq> NO_COMPANY) \<and>
           (dr_has_tags r \<longleftrightarrow> dr_tags r \<noteq> UNCATEGORIZED)"
  using derive_frame_flags [OF assms(1)] get_filtered_data_subset [OF assms(2)] by auto

lemma clean_map_Some: "[x. Some x \<leftarrow> map Some xs] = xs"
  by (induction xs) auto

lemma calculate_statistics_Some_map:
  "calculate_statistics (map Some cs) = (if cs = [] then None else Some (stats_of cs))"
  unfolding calculate_statistics_def Let_def clean_map_Some ..

section \<open>Properties of the charts\<close>

text \<open>
  C33 (top companies): for any sort that orders counts decreasingly, the company chart
  shows one bar per company, for the 15 most frequent companies among the rows with a
  company (fewer when there are fewer companies), each with its number of tools, in
  decreasing order; no company left out has more tools than one shown. A company that is
  \<^verbatim>\<open>None\<close> is counted in the title's \<open>n\<close> but has no bar.
\<close>

theorem company_chart_top15:
  assumes srt: "sorts_by_count False srt"
    and chart: "company_chart_data srt re_compile df f = Inr (Some data)"
  shows "\<exists>filtered. get_filtered_data re_compile df f = Inr (Rows filtered) \<and>
     (let cs = filter (\<lambda>c. c \<noteq> JNull) (map dr_company (filter dr_has_company filtered)) in
      distinct (map fst data) \<and> length data = min 15 (card (set cs)) \<and>
      (\<forall>p \<in> set data. fst p \<in> set cs \<and> snd p = count_list cs (fst p)) \<and>
      sorted_wrt (count_order False) data \<and>
      (\<forall>c \<in> set cs. c \<notin> fst ` set data \<longrightarrow> (\<forall>q \<in> set data. count_list cs c \<le> snd q)))"
proof -
  obtain filtered vc where g: "get_filtered_data re_compile df f = Inr (Rows filtered)"
    and v: "value_counts srt (map dr_company (filter dr_has_company filtered)) = Inr vc"
    and d: "data = take 15 vc"
    using chart by (auto simp: company_chart_data_def ebind_eq_Inr with_columns_eq_Inr split: if_splits)
  define cs where "cs = filter (\<lambda>c. c \<noteq> JNull) (map dr_company (filter dr_has_company filtered))"
  have vc: "mset vc = mset (counts_of cs)" "sorted_wrt (count_order False) vc"
    using value_counts_Inr [OF v srt] unfolding cs_def by auto
  have "distinct (map fst (take 15 vc)) \<and> length (take 15 vc) = min 15 (card (set cs)) \<and>
        (\<forall>p \<in> set (take 15 vc). fst p \<in> set cs \<and> snd p = count_list cs (fst p)) \<and>
        sorted_wrt (count_order False) (take 15 vc) \<and>
        (\<forall>c \<in> set cs. c \<notin> fst ` set (take 15 vc) \<longrightarrow> (\<forall>q \<in> set (take 15 vc). count_list cs c \<le> snd q))"
    by (rule top_k_counts [OF counts_of_props [THEN conjunct1] counts_of_props [THEN conjunct2]
                             top_k_desc [OF vc counts_of_props [THEN conjunct1]]])
  then show ?thesis using g unfolding d cs_def Let_def by blast
qed

text \<open>
  C34 (top tags): for any sort that orders counts increasingly, the tag chart shows one bar
  per tag, for the 15 most frequent tags of the tagged rows (fewer when there are fewer
  tags), each with its number of occurrences, in increasing order; no tag left out occurs
  more often than one shown.
\<close>

theorem tag_chart_top15:
  assumes srt: "sorts_by_count True srt"
    and chart: "tag_chart_data srt re_compile df f = Inr (Some data)"
  shows "\<exists>filtered. get_filtered_data re_compile df f = Inr (Rows filtered) \<and>
     (let ts = concat (map dr_tags_list (filter dr_has_tags filtered)) in
      distinct (map fst data) \<and> length data = min 15 (card (set ts)) \<and>
      (\<forall>p \<in> set data. fst p \<in> set ts \<and> snd p = count_list ts (fst p)) \<and>
      sorted_wrt (count_order True) data \<and>
      (\<forall>t \<in> set ts. t \<notin> fst ` set data \<longrightarrow> (\<forall>q \<in> set data. count_list ts t \<le> snd q)))"
proof -
  obtain c where tc: "tag_chart_counts re_compile df f = Inr (Some c)" and d: "data = py_tail 15 (srt c)"
    using chart by (auto simp: tag_chart_data_def ebind_eq_Inr)
  obtain filtered where g: "get_filtered_data re_compile df f = Inr (Rows filtered)"
    and dc: "distinct (map fst c)"
    and mc: "\<forall>t. map_of c t = (if t \<in> set (concat (map dr_tags_list (filter dr_has_tags filtered)))
                   then Some (count (mset (concat (map dr_tags_list (filter dr_has_tags filtered)))) t) else None)"
    using tag_chart_counts_Some [OF tc] by blast
  define ts where "ts = concat (map dr_tags_list (filter dr_has_tags filtered))"
  have mc': "\<forall>t. map_of c t = (if t \<in> set ts then Some (count_list ts t) else None)"
    using mc unfolding ts_def by (simp only: count_mset simp_thms)
  have s: "mset (srt c) = mset c" "sorted_wrt (count_order True) (srt c)"
    using srt by (simp_all add: sorts_by_count_def)
  have "distinct (map fst (py_tail 15 (srt c))) \<and> length (py_tail 15 (srt c)) = min 15 (card (set ts)) \<and>
        (\<forall>p \<in> set (py_tail 15 (srt c)). fst p \<in> set ts \<and> snd p = count_list ts (fst p)) \<and>
        sorted_wrt (count_order True) (py_tail 15 (srt c)) \<and>
        (\<forall>t \<in> set ts. t \<notin> fst ` set (py_tail 15 (srt c)) \<longrightarrow> (\<forall>q \<in> set (py_tail 15 (srt c)). count_list ts t \<le> snd q))"
    by (rule top_k_counts [OF dc map_of_counts_set [OF dc mc'] top_k_asc [OF s dc]])
  then show ?thesis using g unfolding d ts_def Let_def by blast
qed

text \<open>
  C35 (cost panels): on a loaded frame, when the filters leave rows with their columns, the box plot and the histogram show the same sample, the costs of the filtered rows that have one, and both show the no-data pane exactly when there is none; the histogram's title never meets the empty statistics dict and shows the mean and the sample standard deviation of that sample (NaN for a single cost). When the tag filter has left the frame without columns, both panels raise KeyError reading HasCost.
\<close>

theorem cost_panels_agree:
  assumes frame: "derive_frame rows = Inr df" and g: "get_filtered_data re_compile df f = Inr fr"
  shows "(case fr of
           Rows filtered \<Rightarrow>
             cost_boxplot re_compile df f =
               Inr (if [c. Some c \<leftarrow> map dr_cost filtered] = [] then None
                    else Some (map Some [c. Some c \<leftarrow> map dr_cost filtered], length [c. Some c \<leftarrow> map dr_cost filtered])) \<and>
             cost_histogram re_compile df f =
               Inr (if [c. Some c \<leftarrow> map dr_cost filtered] = [] then None
                    else Some (map Some [c. Some c \<leftarrow> map dr_cost filtered], py_mean [c. Some c \<leftarrow> map dr_cost filtered],
                               py_std [c. Some c \<leftarrow> map dr_cost filtered]))
         | NoColumns \<Rightarrow> cost_boxplot re_compile df f = Inl KeyError \<and> cost_histogram re_compile df f = Inl KeyError)"
proof (cases fr)
  case (Rows filtered)
  define cs where "cs = [c. Some c \<leftarrow> map dr_cost filtered]"
  have g': "get_filtered_data re_compile df f = Inr (Rows filtered)" using g Rows by simp
  have col: "map dr_cost (filter dr_has_cost filtered) = map Some cs"
    unfolding cs_def using filtered_flags [OF frame g'] by (intro cost_column_of_flags) blast
  then have len: "length (filter dr_has_cost filtered) = length cs"
    by (metis length_map)
  then have e: "filter dr_has_cost filtered = [] \<longleftrightarrow> cs = []"
    by (metis length_0_conv)
  have box: "cost_boxplot re_compile df f = Inr (if cs = [] then None else Some (map Some cs, length cs))"
    using g' col len e by (simp add: cost_boxplot_def with_columns_def Let_def)
  have hist: "cost_histogram re_compile df f =
      Inr (if cs = [] then None else Some (map Some cs, py_mean cs, py_std cs))"
    using g' col e by (simp add: cost_histogram_def with_columns_def Let_def calculate_statistics_Some_map stats_of_def)
  show ?thesis using box hist Rows unfolding cs_def by simp
next
  case NoColumns
  then show ?thesis using g by (simp add: cost_boxplot_def cost_histogram_def with_columns_def)
qed

text \<open>
  C36 (table and cards agree): on a loaded frame, when the cards and the table are both
  shown, the table has as many rows as the sample size card, as many rows with a company
  as the attribution card counts, as many categorised rows as the categories card counts,
  and the share of its rows with a cost is the pricing percentage of the cards.
\<close>

theorem data_table_cards:
  assumes frame: "derive_frame rows = Inr df"
    and tbl: "data_table re_compile df f = Inr t" and cards: "stats_cards re_compile df f = Inr (Some c)"
  shows "length t = card_total c \<and>
         length (filter (\<lambda>x. tbl_company x \<noteq> NO_COMPANY) t) = card_company_count c \<and>
         length (filter (\<lambda>x. tbl_categories x \<noteq> UNCATEGORIZED) t) = card_tags_count c \<and>
         of_nat (length (filter (\<lambda>x. tbl_cost x \<noteq> None) t)) * 100 = card_cost_pct c * of_nat (card_total c)"
proof -
  obtain filtered where g: "get_filtered_data re_compile df f = Inr (Rows filtered)"
    and tv: "t = map (\<lambda>r. \<lparr>tbl_tool = dr_name r, tbl_company = dr_company r, tbl_categories = dr_tags r,
                  tbl_cost = dr_cost r, tbl_rating = dr_rating r, tbl_tier = dr_cost_tier r\<rparr>) filtered"
    using tbl by (auto simp: data_table_def ebind_eq_Inr with_columns_eq_Inr split: if_splits)
  have ne: "filtered \<noteq> []" and cv: "c = \<lparr>card_total = length filtered,
       card_company_count = length (filter dr_has_company filtered),
       card_company_pct = of_nat (length (filter dr_has_company filtered)) / of_nat (length filtered) * 100,
       card_tags_count = length (filter dr_has_tags filtered),
       card_tags_pct = of_nat (length (filter dr_has_tags filtered)) / of_nat (length filtered) * 100,
       card_cost_pct = of_nat (length (filter dr_has_cost filtered)) / of_nat (length filtered) * 100,
       card_median_cost = map_option st_median (calculate_statistics (map dr_cost filtered))\<rparr>"
    using cards g by (auto simp: stats_cards_def Let_def split: if_splits)
  have fl: "\<forall>r \<in> set filtered. (dr_has_cost r \<longleftrightarrow> dr_cost r \<noteq> None) \<and> (dr_has_company r \<longleftrightarrow> dr_company r \<noteq> NO_COMPANY) \<and>
           (dr_has_tags r \<longleftrightarrow> dr_tags r \<noteq> UNCATEGORIZED)"
    by (rule filtered_flags [OF frame g])
  have a: "filter dr_has_company filtered = filter (\<lambda>r. dr_company r \<noteq> NO_COMPANY) filtered"
    and b: "filter dr_has_tags filtered = filter (\<lambda>r. dr_tags r \<noteq> UNCATEGORIZED) filtered"
    and d: "filter dr_has_cost filtered = filter (\<lambda>r. dr_cost r \<noteq> None) filtered"
    using fl by (auto intro: filter_cong)
  have n: "(0::rat) < of_nat (length filtered)" using ne by simp
  show ?thesis using n unfolding tv cv by (simp add: filter_map comp_def a b d)
qed

theorem company_chart_top15_witness:
  "company_chart_data (\<lambda>cs. rev (sort_key snd cs)) (\<lambda>p. None) \<lparr>df_has_name = True, df_rows = [\<lparr>dr_name = Val (JStr ''a''), dr_company = JStr ''acme'', dr_tags_list = [JStr ''ml'', JStr ''ai''], dr_tags = JStr ''ml, ai'', dr_cost = Some 100, dr_rating = None, dr_has_company = True, dr_has_tags = True, dr_has_cost = True, dr_has_description = False, dr_has_rating = False, dr_cost_tier = ''Low (<$500)''\<rparr>,
      \<lparr>dr_name = Val (JStr ''b''), dr_company = JStr ''acme'', dr_tags_list = [JStr ''ml''], dr_tags = JStr ''ml'', dr_cost = None, dr_rating = None, dr_has_company = True, dr_has_tags = True, dr_has_cost = False, dr_has_description = False, dr_has_rating = False, dr_cost_tier = ''Unknown''\<rparr>,
      \<lparr>dr_name = Val (JStr ''c''), dr_company = JStr ''beta'', dr_tags_list = [JStr ''ml''], dr_tags = JStr ''ml'', dr_cost = Some 3000, dr_rating = None, dr_has_company = True, dr_has_tags = True, dr_has_cost = True, dr_has_description = False, dr_has_rating = False, dr_cost_tier = ''High ($2K-$10K)''\<rparr>]\<rparr> \<lparr>search = [], company_filter = [], tag_filter = [], cost_tier_filter = []\<rparr> = Inr (Some [(JStr ''acme'', 2::nat), (JStr ''beta'', 1::nat)]) \<and>
   (\<exists>filtered. get_filtered_data (\<lambda>p. None) \<lparr>df_has_name = True, df_rows = [\<lparr>dr_name = Val (JStr ''a''), dr_company = JStr ''acme'', dr_tags_list = [JStr ''ml'', JStr ''ai''], dr_tags = JStr ''ml, ai'', dr_cost = Some 100, dr_rating = None, dr_has_company = True, dr_has_tags = True, dr_has_cost = True, dr_has_description = False, dr_has_rating = False, dr_cost_tier = ''Low (<$500)''\<rparr>,
      \<lparr>dr_name = Val (JStr ''b''), dr_company = JStr ''acme'', dr_tags_list = [JStr ''ml''], dr_tags = JStr ''ml'', dr_cost = None, dr_rating = None, dr_has_company = True, dr_has_tags = True, dr_has_cost = False, dr_has_description = False, dr_has_rating = False, dr_cost_tier = ''Unknown''\<rparr>,
      \<lparr>dr_name = Val (JStr ''c''), dr_company = JStr ''beta'', dr_tags_list = [JStr ''ml''], dr_tags = JStr ''ml'', dr_cost = Some 3000, dr_rating = None, dr_has_company = True, dr_has_tags = True, dr_has_cost = True, dr_has_description = False, dr_has_rating = False, dr_cost_tier = ''High ($2K-$10K)''\<rparr>]\<rparr> \<lparr>search = [], company_filter = [], tag_filter = [], cost_tier_filter = []\<rparr> = Inr (Rows filtered) \<and>
     (let cs = filter (\<lambda>c. c \<noteq> JNull) (map dr_company (filter dr_has_company filtered)) in
      distinct (map fst [(JStr ''acme'', 2::nat), (JStr ''beta'', 1::nat)]) \<and> length [(JStr ''acme'', 2::nat), (JStr ''beta'', 1::nat)] = min 15 (card (set cs)) \<and>
      (\<forall>p \<in> set [(JStr ''acme'', 2::nat), (JStr ''beta'', 1::nat)]. fst p \<in> set cs \<and> snd p = count_list cs (fst p)) \<and>
      sorted_wrt (count_order False) [(JStr ''acme'', 2::nat), (JStr ''beta'', 1::nat)] \<and>
      (\<forall>c \<in> set cs. c \<notin> fst ` set [(JStr ''acme'', 2::nat), (JStr ''beta'', 1::nat)] \<longrightarrow> (\<forall>q \<in> set [(JStr ''acme'', 2::nat), (JStr ''beta'', 1::nat)]. count_list cs c \<le> snd q))))"
proof -
  have c: "company_chart_data (\<lambda>cs. rev (sort_key snd cs)) (\<lambda>p. None) \<lparr>df_has_name = True, df_rows = [\<lparr>dr_name = Val (JStr ''a''), dr_company = JStr ''acme'', dr_tags_list = [JStr ''ml'', JStr ''ai''], dr_tags = JStr ''ml, ai'', dr_cost = Some 100, dr_rating = None, dr_has_company = True, dr_has_tags = True, dr_has_cost = True, dr_has_description = False, dr_has_rating = False, dr_cost_tier = ''Low (<$500)''\<rparr>,
      \<lparr>dr_name = Val (JStr ''b''), dr_company = JStr ''acme'', dr_tags_list = [JStr ''ml''], dr_tags = JStr ''ml'', dr_cost = None, dr_rating = None, dr_has_company = True, dr_has_tags = True, dr_has_cost = False, dr_has_description = False, dr_has_rating = False, dr_cost_tier = ''Unknown''\<rparr>,
      \<lparr>dr_name = Val (JStr ''c''), dr_company = JStr ''beta'', dr_tags_list = [JStr ''ml''], dr_tags = JStr ''ml'', dr_cost = Some 3000, dr_rating = None, dr_has_company = True, dr_has_tags = True, dr_has_cost = True, dr_has_description = False, dr_has_rating = False, dr_cost_tier = ''High ($2K-$10K)''\<rparr>]\<rparr> \<lparr>search = [], company_filter = [], tag_filter = [], cost_tier_filter = []\<rparr> = Inr (Some [(JStr ''acme'', 2::nat), (JStr ''beta'', 1::nat)])"
    by (simp add: company_chart_data_def with_columns_def get_filtered_data_def search_filter_def value_counts_def counts_of_def)
  show ?thesis by (rule conjI [OF c company_chart_top15 [OF sorts_by_count_rev_sort_key c]])
qed

theorem tag_chart_top15_witness:
  "tag_chart_data (sort_key snd) (\<lambda>p. None) \<lparr>df_has_name = True, df_rows = [\<lparr>dr_name = Val (JStr ''a''), dr_company = JStr ''acme'', dr_tags_list = [JStr ''ml'', JStr ''ai''], dr_tags = JStr ''ml, ai'', dr_cost = Some 100, dr_rating = None, dr_has_company = True, dr_has_tags = True, dr_has_cost = True, dr_has_description = False, dr_has_rating = False, dr_cost_tier = ''Low (<$500)''\<rparr>,
      \<lparr>dr_name = Val (JStr ''b''), dr_company = JStr ''acme'', dr_tags_list = [JStr ''ml''], dr_tags = JStr ''ml'', dr_cost = None, dr_rating = None, dr_has_company = True, dr_has_tags = True, dr_has_cost = False, dr_has_description = False, dr_has_rating = False, dr_cost_tier = ''Unknown''\<rparr>,
      \<lparr>dr_name = Val (JStr ''c''), dr_company = JStr ''beta'', dr_tags_list = [JStr ''ml''], dr_tags = JStr ''ml'', dr_cost = Some 3000, dr_rating = None, dr_has_company = True, dr_has_tags = True, dr_has_cost = True, dr_has_description = False, dr_has_rating = False, dr_cost_tier = ''High ($2K-$10K)''\<rparr>]\<rparr> \<lparr>search = [], company_filter = [], tag_filter = [], cost_tier_filter = []\<rparr> = Inr (Some [(JStr ''ai'', 1::nat), (JStr ''ml'', 3::nat)]) \<and>
   (\<exists>filtered. get_filtered_data (\<lambda>p. None) \<lparr>df_has_name = True, df_rows = [\<lparr>dr_name = Val (JStr ''a''), dr_company = JStr ''acme'', dr_tags_list = [JStr ''ml'', JStr ''ai''], dr_tags = JStr ''ml, ai'', dr_cost = Some 100, dr_rating = None, dr_has_company = True, dr_has_tags = True, dr_has_cost = True, dr_has_description = False, dr_has_rating = False, dr_cost_tier = ''Low (<$500)''\<rparr>,
      \<lparr>dr_name = Val (JStr ''b''), dr_company = JStr ''acme'', dr_tags_list = [JStr ''ml''], dr_tags = JStr ''ml'', dr_cost = None, dr_rating = None, dr_has_company = True, dr_has_tags = True, dr_has_cost = False, dr_has_description = False, dr_has_rating = False, dr_cost_tier = ''Unknown''\<rparr>,
      \<lparr>dr_name = Val (JStr ''c''), dr_company = JStr ''beta'', dr_tags_list = [JStr ''ml''], dr_tags = JStr ''ml'', dr_cost = Some 3000, dr_rating = None, dr_has_company = True, dr_has_tags = True, dr_has_cost = True, dr_has_description = False, dr_has_rating = False, dr_cost_tier = ''High ($2K-$10K)''\<rparr>]\<rparr> \<lparr>search = [], company_filter = [], tag_filter = [], cost_tier_filter = []\<rparr> = Inr (Rows filtered) \<and>
     (let ts = concat (map dr_tags_list (filter dr_has_tags filtered)) in
      distinct (map fst [(JStr ''ai'', 1::nat), (JStr ''ml'', 3::nat)]) \<and> length [(JStr ''ai'', 1::nat), (JStr ''ml'', 3::nat)] = min 15 (card (set ts)) \<and>
      (\<forall>p \<in> set [(JStr ''ai'', 1::nat), (JStr ''ml'', 3::nat)]. fst p \<in> set ts \<and> snd p = count_list ts (fst p)) \<and>
      sorted_wrt (count_order True) [(JStr ''ai'', 1::nat), (JStr ''ml'', 3::nat)] \<and>
      (\<forall>t \<in> set ts. t \<notin> fst ` set [(JStr ''ai'', 1::nat), (JStr ''ml'', 3::nat)] \<longrightarrow> (\<forall>q \<in> set [(JStr ''ai'', 1::nat), (JStr ''ml'', 3::nat)]. count_list ts t \<le> snd q))))"
proof -
  have c: "tag_chart_data (sort_key snd) (\<lambda>p. None) \<lparr>df_has_name = True, df_rows = [\<lparr>dr_name = Val (JStr ''a''), dr_company = JStr ''acme'', dr_tags_list = [JStr ''ml'', JStr ''ai''], dr_tags = JStr ''ml, ai'', dr_cost = Some 100, dr_rating = None, dr_has_company = True, dr_has_tags = True, dr_has_cost = True, dr_has_description = False, dr_has_rating = False, dr_cost_tier = ''Low (<$500)''\<rparr>,
      \<lparr>dr_name = Val (JStr ''b''), dr_company = JStr ''acme'', dr_tags_list = [JStr ''ml''], dr_tags = JStr ''ml'', dr_cost = None, dr_rating = None, dr_has_company = True, dr_has_tags = True, dr_has_cost = False, dr_has_description = False, dr_has_rating = False, dr_cost_tier = ''Unknown''\<rparr>,
      \<lparr>dr_name = Val (JStr ''c''), dr_company = JStr ''beta'', dr_tags_list = [JStr ''ml''], dr_tags = JStr ''ml'', dr_cost = Some 3000, dr_rating = None, dr_has_company = True, dr_has_tags = True, dr_has_cost = True, dr_has_description = False, dr_has_rating = False, dr_cost_tier = ''High ($2K-$10K)''\<rparr>]\<rparr> \<lparr>search = [], company_filter = [], tag_filter = [], cost_tier_filter = []\<rparr> = Inr (Some [(JStr ''ai'', 1::nat), (JStr ''ml'', 3::nat)])"
    by (simp add: tag_chart_data_def tag_chart_counts_def with_columns_def get_filtered_data_def search_filter_def py_tail_def)
  show ?thesis by (rule conjI [OF c tag_chart_top15 [OF sorts_by_count_sort_key c]])
qed

theorem cost_panels_agree_witness:
  "\<exists>df. derive_frame [JDict [(''ToolName'', JStr ''spark''), (''ToolCompany'', JList [JDict [(''value'', JStr ''acme'')]]),
      (''Tool Tags'', JList [JDict [(''value'', JStr ''ml'')]]), (''Annual License Cost'', JStr ''1200.50''),
      (''Overall Rating'', JInt 4), (''ToolDescription_long'', JStr ''d'')], JDict [(''ToolName'', JStr ''pandas''), (''ToolCompany'', JList []), (''Tool Tags'', JList []),
      (''Annual License Cost'', JNull), (''Overall Rating'', JInt 0), (''ToolDescription_long'', JStr [])]] = Inr df \<and>
     cost_boxplot (\<lambda>p. Some (\<lambda>s. s = p)) df \<lparr>search = [], company_filter = [], tag_filter = [], cost_tier_filter = []\<rparr> = Inr (Some ([Some (2401 / 2)], 1)) \<and>
     cost_histogram (\<lambda>p. Some (\<lambda>s. s = p)) df \<lparr>search = [], company_filter = [], tag_filter = [], cost_tier_filter = []\<rparr> = Inr (Some ([Some (2401 / 2)], 2401 / 2, None)) \<and>
     cost_boxplot (\<lambda>p. Some (\<lambda>s. s = p)) df \<lparr>search = ''zzz'', company_filter = [], tag_filter = [JStr ''ml''], cost_tier_filter = []\<rparr> = Inl KeyError \<and>
     cost_histogram (\<lambda>p. Some (\<lambda>s. s = p)) df \<lparr>search = ''zzz'', company_filter = [], tag_filter = [JStr ''ml''], cost_tier_filter = []\<rparr> = Inl KeyError"
proof -
  obtain df where d: "derive_frame [JDict [(''ToolName'', JStr ''spark''), (''ToolCompany'', JList [JDict [(''value'', JStr ''acme'')]]),
      (''Tool Tags'', JList [JDict [(''value'', JStr ''ml'')]]), (''Annual License Cost'', JStr ''1200.50''),
      (''Overall Rating'', JInt 4), (''ToolDescription_long'', JStr ''d'')], JDict [(''ToolName'', JStr ''pandas''), (''ToolCompany'', JList []), (''Tool Tags'', JList []),
      (''Annual License Cost'', JNull), (''Overall Rating'', JInt 0), (''ToolDescription_long'', JStr [])]] = Inr df"
    and g: "get_filtered_data (\<lambda>p. Some (\<lambda>s. s = p)) df \<lparr>search = [], company_filter = [], tag_filter = [], cost_tier_filter = []\<rparr> = Inr (Rows (df_rows df))"
    and g2: "get_filtered_data (\<lambda>p. Some (\<lambda>s. s = p)) df \<lparr>search = ''zzz'', company_filter = [], tag_filter = [JStr ''ml''], cost_tier_filter = []\<rparr> = Inr NoColumns"
    and cs: "[c. Some c \<leftarrow> map dr_cost (df_rows df)] = [2401 / 2]"
    by (simp add: derive_frame_def column_def frame_cell_def extract_company_def extract_tags_list_def extract_tags_str_def mk_row_def parse_unsigned_def digit_val_def NO_COMPANY_def UNCATEGORIZED_def get_filtered_data_def search_filter_def tag_filter_step_def)
  have "cost_boxplot (\<lambda>p. Some (\<lambda>s. s = p)) df \<lparr>search = [], company_filter = [], tag_filter = [], cost_tier_filter = []\<rparr> = Inr (Some ([Some (2401 / 2)], 1)) \<and>
     cost_histogram (\<lambda>p. Some (\<lambda>s. s = p)) df \<lparr>search = [], company_filter = [], tag_filter = [], cost_tier_filter = []\<rparr> = Inr (Some ([Some (2401 / 2)], 2401 / 2, None))"
    using cost_panels_agree [OF d g, unfolded filtered_frame.case cs] by (simp add: py_mean_def py_std_def)
  moreover have "cost_boxplot (\<lambda>p. Some (\<lambda>s. s = p)) df \<lparr>search = ''zzz'', company_filter = [], tag_filter = [JStr ''ml''], cost_tier_filter = []\<rparr> = Inl KeyError \<and>
     cost_histogram (\<lambda>p. Some (\<lambda>s. s = p)) df \<lparr>search = ''zzz'', company_filter = [], tag_filter = [JStr ''ml''], cost_tier_filter = []\<rparr> = Inl KeyError"
    using cost_panels_agree [OF d g2] by simp
  ultimately show ?thesis using d by blast
qed

theorem data_table_cards_witness:
  "\<exists>df t c. derive_frame [JDict [(''ToolName'', JStr ''spark''), (''ToolCompany'', JList [JDict [(''value'', JStr ''acme'')]]),
      (''Tool Tags'', JList [JDict [(''value'', JStr ''ml'')]]), (''Annual License Cost'', JStr ''1200.50''),
      (''Overall Rating'', JInt 4), (''ToolDescription_long'', JStr ''d'')], JDict [(''ToolName'', JStr ''pandas''), (''ToolCompany'', JList []), (''Tool Tags'', JList []),
      (''Annual License Cost'', JNull), (''Overall Rating'', JInt 0), (''ToolDescription_long'', JStr [])]] = Inr df \<and> data_table (\<lambda>p. None) df \<lparr>search = [], company_filter = [], tag_filter = [], cost_tier_filter = []\<rparr> = Inr t \<and>
     stats_cards (\<lambda>p. None) df \<lparr>search = [], company_filter = [], tag_filter = [], cost_tier_filter = []\<rparr> = Inr (Some c) \<and> card_total c = 2 \<and>
     length (filter (\<lambda>x. tbl_company x \<noteq> NO_COMPANY) t) = card_company_count c \<and> card_company_count c = 1 \<and>
     length (filter (\<lambda>x. tbl_categories x \<noteq> UNCATEGORIZED) t) = card_tags_count c \<and>
     of_nat (length (filter (\<lambda>x. tbl_cost x \<noteq> None) t)) * 100 = card_cost_pct c * of_nat (card_total c) \<and>
     card_cost_pct c = 50"
proof -
  obtain df t c where d: "derive_frame [JDict [(''ToolName'', JStr ''spark''), (''ToolCompany'', JList [JDict [(''value'', JStr ''acme'')]]),
      (''Tool Tags'', JList [JDict [(''value'', JStr ''ml'')]]), (''Annual License Cost'', JStr ''1200.50''),
      (''Overall Rating'', JInt 4), (''ToolDescription_long'', JStr ''d'')], JDict [(''ToolName'', JStr ''pandas''), (''ToolCompany'', JList []), (''Tool Tags'', JList []),
      (''Annual License Cost'', JNull), (''Overall Rating'', JInt 0), (''ToolDescription_long'', JStr [])]] = Inr df" and tb: "data_table (\<lambda>p. None) df \<lparr>search = [], company_filter = [], tag_filter = [], cost_tier_filter = []\<rparr> = Inr t"
    and cd: "stats_cards (\<lambda>p. None) df \<lparr>search = [], company_filter = [], tag_filter = [], cost_tier_filter = []\<rparr> = Inr (Some c)" and n: "card_total c = 2"
    and k: "card_company_count c = 1" and p: "card_cost_pct c = 50"
    by (simp add: derive_frame_def column_def frame_cell_def extract_company_def extract_tags_list_def extract_tags_str_def mk_row_def parse_unsigned_def digit_val_def NO_COMPANY_def UNCATEGORIZED_def get_filtered_data_def search_filter_def with_columns_def data_table_def stats_cards_def Let_def)
  show ?thesis using data_table_cards [OF d tb cd] d tb cd n k p by blast
qed

end
