(* ===== verification/Dash_Text.thy ===== *)
theory Dash_Text
  imports Dash_Stats
begin

section \<open>Printing numbers\<close>

text \<open>Round half to even, as float formatting rounds a value that lies exactly between two integers.\<close>

definition round_half_even :: "rat \<Rightarrow> int" where
  "round_half_even x =
     (let f = \<lfloor>x\<rfloor>; d = x - of_int f in
      if d < 1/2 then f else if 1/2 < d then f + 1 else if even f then f else f + 1)"

definition fmt_f0 :: "rat \<Rightarrow> string" where
  "fmt_f0 x = (if x < 0 then ''-'' else []) @ str_of_nat (nat \<bar>round_half_even x\<bar>)"

fun commas_rev :: "string \<Rightarrow> string" where
  "commas_rev (a # b # c # d # rest) = a # b # c # CHR '','' # commas_rev (d # rest)"
| "commas_rev xs = xs"

definition group_thousands :: "string \<Rightarrow> string" where
  "group_thousands s = rev (commas_rev (rev s))"

definition fmt_comma_f0 :: "rat \<Rightarrow> string" where
  "fmt_comma_f0 x = (if x < 0 then ''-'' else []) @ group_thousands (str_of_nat (nat \<bar>round_half_even x\<bar>))"

section \<open>Card texts\<close>

text \<open>
  The values the overview cards interpolate into their HTML (lines 146--167 of
  \<^verbatim>\<open>stats_cards\<close>): each count as \<^verbatim>\<open>str\<close> of an integer, each percentage with
  \<^verbatim>\<open>:.0f\<close> and a suffix, the median cost with \<^verbatim>\<open>:,.0f\<close> after a dollar sign, or
  \<^verbatim>\<open>N/A\<close> when the statistics dict is empty. The markup around them is constant text.
\<close>

record card_text =
  ct_total :: string
  ct_company_pct :: string
  ct_company_records :: string
  ct_tags_pct :: string
  ct_tags_count :: string
  ct_median :: string
  ct_cost_pct :: string

definition median_text :: "rat option \<Rightarrow> string" where
  "median_text cost_median = (case cost_median of Some m \<Rightarrow> CHR ''$'' # fmt_comma_f0 m | None \<Rightarrow> ''N/A'')"

definition card_texts :: "cards \<Rightarrow> card_text" where
  "card_texts c =
     \<lparr>ct_total = str_of_nat (card_total c),
      ct_company_pct = fmt_f0 (card_company_pct c) @ ''%'',
      ct_company_records = str_of_nat (card_company_count c) @ '' records'',
      ct_tags_pct = fmt_f0 (card_tags_pct c) @ ''%'',
      ct_tags_count = str_of_nat (card_tags_count c) @ '' with tags'',
      ct_median = median_text (card_median_cost c),
      ct_cost_pct = fmt_f0 (card_cost_pct c) @ ''% with pricing''\<rparr>"

text \<open>\<^verbatim>\<open>stats_cards\<close> as text: \<open>None\<close> is the \<^verbatim>\<open>No data available\<close> pane.\<close>

definition stats_cards_text :: "regex_compile \<Rightarrow> dash_frame \<Rightarrow> filters \<Rightarrow> py_exc + card_text option" where
  "stats_cards_text re_compile df f = ebind (stats_cards re_compile df f) (\<lambda>r. Inr (map_option card_texts r))"

section \<open>Number printing read back\<close>

lemma round_half_even_near: "\<bar>x - of_int (round_half_even x)\<bar> \<le> 1/2"
  using floor_correct [of x] by (auto simp: round_half_even_def Let_def)

lemma round_half_even_sign: "x < 0 \<Longrightarrow> round_half_even x \<le> 0" "0 \<le> x \<Longrightarrow> 0 \<le> round_half_even x"
proof -
  have b: "x - 1/2 \<le> of_int (round_half_even x)" "of_int (round_half_even x) \<le> x + 1/2"
    using round_half_even_near [of x] unfolding abs_le_iff by linarith+
  show "x < 0 \<Longrightarrow> round_half_even x \<le> 0"
  proof -
    assume "x < 0"
    then have "(of_int (round_half_even x) :: rat) < 1" using b(2) by linarith
    then show ?thesis by simp
  qed
  show "0 \<le> x \<Longrightarrow> 0 \<le> round_half_even x"
  proof -
    assume "0 \<le> x"
    then have "(-1 :: rat) < of_int (round_half_even x)" using b(1) by linarith
    then show ?thesis by simp
  qed
qed

lemma str_of_nat_digits: "\<forall>c \<in> set (str_of_nat n). CHR ''0'' \<le> c \<and> c \<le> CHR ''9''"
proof (induction n rule: str_of_nat.induct)
  case (1 n)
  have d: "CHR ''0'' \<le> char_of (48 + k) \<and> char_of (48 + k) \<le> CHR ''9''" if "k < 10" for k :: nat
    using that by (simp add: less_eq_char_def)
  show ?case using 1 d [of n] d [of "n mod 10"] by (subst str_of_nat.simps) auto
qed

lemma str_of_nat_ne: "str_of_nat n \<noteq> []"
  by (subst str_of_nat.simps) simp

lemma digit_val_char: "k < 10 \<Longrightarrow> digit_val (char_of (48 + k)) = Some k"
  by (simp add: digit_val_def less_eq_char_def)

lemma digits_val_append:
  "digits_val acc (xs @ ys) = (case digits_val acc xs of None \<Rightarrow> None | Some a \<Rightarrow> digits_val a ys)"
  by (induction acc xs rule: digits_val.induct) (auto split: option.splits)

lemma digits_val_str_of_nat: "digits_val acc (str_of_nat n) = Some (acc * 10 ^ length (str_of_nat n) + n)"
proof (induction n arbitrary: acc rule: str_of_nat.induct)
  case (1 n)
  show ?case
  proof (cases "n < 10")
    case True
    then show ?thesis by (subst (1 2) str_of_nat.simps) (simp add: digit_val_char)
  next
    case False
    then have "str_of_nat n = str_of_nat (n div 10) @ [char_of (48 + n mod 10)]"
      by (subst str_of_nat.simps) simp
    then show ?thesis using 1 [OF False] False
      by (simp add: digits_val_append digit_val_char algebra_simps)
  qed
qed

lemma parse_unsigned_str_of_nat: "parse_unsigned (str_of_nat n) = Some (of_nat n)"
proof -
  have "\<forall>c \<in> set (str_of_nat n). c \<noteq> CHR ''.''" using str_of_nat_digits [of n] by fastforce
  then have tw: "takeWhile (\<lambda>c. c \<noteq> CHR ''.'') (str_of_nat n) = str_of_nat n"
    and dw: "dropWhile (\<lambda>c. c \<noteq> CHR ''.'') (str_of_nat n) = []" by simp_all
  show ?thesis unfolding parse_unsigned_def Let_def tw dw using str_of_nat_ne [of n] by (simp add: digits_val_str_of_nat)
qed

lemma parse_decimal_digits:
  assumes "s \<noteq> []" "\<forall>c \<in> set s. CHR ''0'' \<le> c \<and> c \<le> CHR ''9''"
  shows "parse_decimal s = parse_unsigned s"
proof (cases s)
  case (Cons c r)
  then have "c \<noteq> CHR ''-''" "c \<noteq> CHR ''+''" using assms(2) by (auto simp: less_eq_char_def)
  then show ?thesis using Cons by simp
qed (use assms in simp)

lemma parse_decimal_str_of_nat: "parse_decimal (str_of_nat n) = Some (of_nat n)"
  using parse_decimal_digits [OF str_of_nat_ne str_of_nat_digits] parse_unsigned_str_of_nat by simp

lemma parse_decimal_signed:
  "parse_decimal ((if x < 0 then ''-'' else []) @ str_of_nat (nat \<bar>round_half_even x\<bar>)) = Some (of_int (round_half_even x))"
proof (cases "x < 0")
  case True
  then have "round_half_even x \<le> 0" by (rule round_half_even_sign)
  then show ?thesis using True by (simp add: parse_unsigned_str_of_nat)
next
  case False
  then have "0 \<le> round_half_even x" by (simp add: round_half_even_sign)
  then show ?thesis using False by (simp add: parse_decimal_str_of_nat)
qed

lemma parse_decimal_fmt_f0: "parse_decimal (fmt_f0 x) = Some (of_int (round_half_even x))"
  unfolding fmt_f0_def by (rule parse_decimal_signed)

lemma commas_rev_filter: "filter (\<lambda>c. c \<noteq> CHR '','') (commas_rev xs) = filter (\<lambda>c. c \<noteq> CHR '','') xs"
  by (induction xs rule: commas_rev.induct) simp_all

lemma commas_rev_length: "length (commas_rev xs) = length xs + (length xs - 1) div 3"
  by (induction xs rule: commas_rev.induct) simp_all

text \<open>Grouping inserts one comma per full group of three digits and nothing else.\<close>

lemma group_thousands_props:
  "filter (\<lambda>c. c \<noteq> CHR '','') (group_thousands s) = filter (\<lambda>c. c \<noteq> CHR '','') s \<and>
   length (group_thousands s) = length s + (length s - 1) div 3"
  by (simp add: group_thousands_def rev_filter [symmetric] commas_rev_filter commas_rev_length)

lemma parse_decimal_fmt_comma_f0:
  "parse_decimal (filter (\<lambda>c. c \<noteq> CHR '','') (fmt_comma_f0 x)) = Some (of_int (round_half_even x))"
proof -
  have "\<forall>c \<in> set (str_of_nat n). c \<noteq> CHR '',''" for n using str_of_nat_digits [of n] by fastforce
  then have "filter (\<lambda>c. c \<noteq> CHR '','') (group_thousands (str_of_nat n)) = str_of_nat n" for n
    using group_thousands_props [of "str_of_nat n"] by (simp add: filter_id_conv)
  then show ?thesis unfolding fmt_comma_f0_def by (simp add: parse_decimal_signed [simplified])
qed

section \<open>Card texts read back\<close>

lemma stats_cards_pcts:
  assumes "stats_cards re_compile df f = Inr (Some c)"
  shows "0 \<le> card_company_pct c \<and> card_company_pct c \<le> 100 \<and> 0 \<le> card_tags_pct c \<and> card_tags_pct c \<le> 100 \<and>
         0 \<le> card_cost_pct c \<and> card_cost_pct c \<le> 100"
proof -
  obtain fr where "get_filtered_data re_compile df f = Inr fr" and ne: "frame_rows fr \<noteq> []"
    and cv: "card_company_pct c = of_nat (length (filter dr_has_company (frame_rows fr))) / of_nat (length (frame_rows fr)) * 100"
      "card_tags_pct c = of_nat (length (filter dr_has_tags (frame_rows fr))) / of_nat (length (frame_rows fr)) * 100"
      "card_cost_pct c = of_nat (length (filter dr_has_cost (frame_rows fr))) / of_nat (length (frame_rows fr)) * 100"
    using assms by (auto simp: stats_cards_def ebind_eq_Inr Let_def split: if_splits)
  have t: "0 < length (frame_rows fr)" using ne by simp
  show ?thesis unfolding cv using pct_bounds [OF length_filter_le t] by simp
qed

text \<open>A percentage between 0 and 100, printed with \<^verbatim>\<open>:.0f\<close>, reads back as an integer between 0 and 100 within 1/2 of it.\<close>

lemma pct_text:
  assumes "0 \<le> p" "p \<le> 100"
  shows "\<exists>k. parse_decimal (fmt_f0 p) = Some (of_int k) \<and> 0 \<le> k \<and> k \<le> 100 \<and> \<bar>of_int k - p\<bar> \<le> 1/2"
proof (intro exI conjI)
  show "parse_decimal (fmt_f0 p) = Some (of_int (round_half_even p))" by (rule parse_decimal_fmt_f0)
  show "0 \<le> round_half_even p" using assms(1) by (rule round_half_even_sign)
  show n: "\<bar>of_int (round_half_even p) - p\<bar> \<le> 1/2" using round_half_even_near [of p] by (simp add: abs_minus_commute)
  have "(of_int (round_half_even p) :: rat) < 101" using n assms(2) unfolding abs_le_iff by linarith
  then show "round_half_even p \<le> 100" by simp
qed

text \<open>
  C31 (card texts): every number the overview cards show reads back, with the parser
  \<^verbatim>\<open>pd.to_numeric\<close> applies to strings, as the nearest integer to the exact value: the
  sample size exactly, each percentage (before its suffix) as an integer between 0 and 100
  within 1/2 of the exact percentage, the median cost (after the dollar sign, without its
  thousands separators) as the median rounded half to even; \<^verbatim>\<open>N/A\<close> when there is no cost.
\<close>

theorem stats_cards_text_readback:
  assumes "stats_cards_text re_compile df f = Inr (Some t)"
  shows "\<exists>c. stats_cards re_compile df f = Inr (Some c) \<and>
     parse_decimal (ct_total t) = Some (of_nat (card_total c)) \<and>
     (\<exists>s k. ct_company_pct t = s @ ''%'' \<and> parse_decimal s = Some (of_int k) \<and> 0 \<le> k \<and> k \<le> 100 \<and>
            \<bar>of_int k - card_company_pct c\<bar> \<le> 1/2) \<and>
     (\<exists>s k. ct_tags_pct t = s @ ''%'' \<and> parse_decimal s = Some (of_int k) \<and> 0 \<le> k \<and> k \<le> 100 \<and>
            \<bar>of_int k - card_tags_pct c\<bar> \<le> 1/2) \<and>
     (\<exists>s k. ct_cost_pct t = s @ ''% with pricing'' \<and> parse_decimal s = Some (of_int k) \<and> 0 \<le> k \<and> k \<le> 100 \<and>
            \<bar>of_int k - card_cost_pct c\<bar> \<le> 1/2) \<and>
     (case card_median_cost c of
        None \<Rightarrow> ct_median t = ''N/A''
      | Some m \<Rightarrow> \<exists>s. ct_median t = CHR ''$'' # s \<and>
                    parse_decimal (filter (\<lambda>ch. ch \<noteq> CHR '','') s) = Some (of_int (round_half_even m)) \<and>
                    \<bar>of_int (round_half_even m) - m\<bar> \<le> 1/2)"
proof -
  obtain c where sc: "stats_cards re_compile df f = Inr (Some c)" and t: "t = card_texts c"
    using assms by (auto simp: stats_cards_text_def ebind_eq_Inr)
  note P = stats_cards_pcts [OF sc]
  have "\<exists>s k. ct_company_pct t = s @ ''%'' \<and> parse_decimal s = Some (of_int k) \<and> 0 \<le> k \<and> k \<le> 100 \<and>
            \<bar>of_int k - card_company_pct c\<bar> \<le> 1/2"
    using pct_text [of "card_company_pct c"] P unfolding t card_texts_def by auto
  moreover have "\<exists>s k. ct_tags_pct t = s @ ''%'' \<and> parse_decimal s = Some (of_int k) \<and> 0 \<le> k \<and> k \<le> 100 \<and>
            \<bar>of_int k - card_tags_pct c\<bar> \<le> 1/2"
    using pct_text [of "card_tags_pct c"] P unfolding t card_texts_def by auto
  moreover have "\<exists>s k. ct_cost_pct t = s @ ''% with pricing'' \<and> parse_decimal s = Some (of_int k) \<and> 0 \<le> k \<and> k \<le> 100 \<and>
            \<bar>of_int k - card_cost_pct c\<bar> \<le> 1/2"
    using pct_text [of "card_cost_pct c"] P unfolding t card_texts_def by auto
  moreover have "case card_median_cost c of
        None \<Rightarrow> ct_median t = ''N/A''
      | Some m \<Rightarrow> \<exists>s. ct_median t = CHR ''$'' # s \<and>
                    parse_decimal (filter (\<lambda>ch. ch \<noteq> CHR '','') s) = Some (of_int (round_half_even m)) \<and>
                    \<bar>of_int (round_half_even m) - m\<bar> \<le> 1/2"
    using round_half_even_near parse_decimal_fmt_comma_f0
    by (auto simp: t card_texts_def median_text_def abs_minus_commute split: option.splits)
  moreover have "parse_decimal (ct_total t) = Some (of_nat (card_total c))"
    by (simp add: t card_texts_def parse_decimal_str_of_nat)
  ultimately show ?thesis using sc by blast
qed

theorem stats_cards_text_readback_witness:
  "\<exists>t c. stats_cards_text (\<lambda>p. None) \<lparr>df_has_name = True, df_rows = [\<lparr>dr_name = Val (JStr ''a''), dr_company = JStr ''acme'', dr_tags_list = [JStr ''ml''], dr_tags = JStr ''ml'', dr_cost = Some (2469 / 2), dr_rating = None, dr_has_company = True, dr_has_tags = True, dr_has_cost = True, dr_has_description = False, dr_has_rating = False, dr_cost_tier = ''Medium ($500-$2K)''\<rparr>, \<lparr>dr_name = Val (JStr ''b''), dr_company = JStr ''No Company Data'', dr_tags_list = [JStr ''ml''], dr_tags = JStr ''ml'', dr_cost = None, dr_rating = None, dr_has_company = False, dr_has_tags = True, dr_has_cost = False, dr_has_description = False, dr_has_rating = False, dr_cost_tier = ''Unknown''\<rparr>, \<lparr>dr_name = Val (JStr ''c''), dr_company = JStr ''No Company Data'', dr_tags_list = [JStr ''ml''], dr_tags = JStr ''Uncategorized'', dr_cost = None, dr_rating = None, dr_has_company = False, dr_has_tags = False, dr_has_cost = False, dr_has_description = False, dr_has_rating = False, dr_cost_tier = ''Unknown''\<rparr>]\<rparr> \<lparr>search = [], company_filter = [], tag_filter = [], cost_tier_filter = []\<rparr> = Inr (Some t) \<and> stats_cards (\<lambda>p. None) \<lparr>df_has_name = True, df_rows = [\<lparr>dr_name = Val (JStr ''a''), dr_company = JStr ''acme'', dr_tags_list = [JStr ''ml''], dr_tags = JStr ''ml'', dr_cost = Some (2469 / 2), dr_rating = None, dr_has_company = True, dr_has_tags = True, dr_has_cost = True, dr_has_description = False, dr_has_rating = False, dr_cost_tier = ''Medium ($500-$2K)''\<rparr>, \<lparr>dr_name = Val (JStr ''b''), dr_company = JStr ''No Company Data'', dr_tags_list = [JStr ''ml''], dr_tags = JStr ''ml'', dr_cost = None, dr_rating = None, dr_has_company = False, dr_has_tags = True, dr_has_cost = False, dr_has_description = False, dr_has_rating = False, dr_cost_tier = ''Unknown''\<rparr>, \<lparr>dr_name = Val (JStr ''c''), dr_company = JStr ''No Company Data'', dr_tags_list = [JStr ''ml''], dr_tags = JStr ''Uncategorized'', dr_cost = None, dr_rating = None, dr_has_company = False, dr_has_tags = False, dr_has_cost = False, dr_has_description = False, dr_has_rating = False, dr_cost_tier = ''Unknown''\<rparr>]\<rparr> \<lparr>search = [], company_filter = [], tag_filter = [], cost_tier_filter = []\<rparr> = Inr (Some c) \<and>
     card_company_pct c = 100 / 3 \<and> card_tags_pct c = 200 / 3 \<and> card_median_cost c = Some (2469 / 2) \<and>
     round_half_even (2469 / 2) = 1234 \<and>
     (\<exists>s k. ct_company_pct t = s @ ''%'' \<and> parse_decimal s = Some (of_int k) \<and> 0 \<le> k \<and> k \<le> 100 \<and>
            \<bar>of_int k - card_company_pct c\<bar> \<le> 1/2)"
proof -
  obtain c where sc: "stats_cards (\<lambda>p. None) \<lparr>df_has_name = True, df_rows = [\<lparr>dr_name = Val (JStr ''a''), dr_company = JStr ''acme'', dr_tags_list = [JStr ''ml''], dr_tags = JStr ''ml'', dr_cost = Some (2469 / 2), dr_rating = None, dr_has_company = True, dr_has_tags = True, dr_has_cost = True, dr_has_description = False, dr_has_rating = False, dr_cost_tier = ''Medium ($500-$2K)''\<rparr>, \<lparr>dr_name = Val (JStr ''b''), dr_company = JStr ''No Company Data'', dr_tags_list = [JStr ''ml''], dr_tags = JStr ''ml'', dr_cost = None, dr_rating = None, dr_has_company = False, dr_has_tags = True, dr_has_cost = False, dr_has_description = False, dr_has_rating = False, dr_cost_tier = ''Unknown''\<rparr>, \<lparr>dr_name = Val (JStr ''c''), dr_company = JStr ''No Company Data'', dr_tags_list = [JStr ''ml''], dr_tags = JStr ''Uncategorized'', dr_cost = None, dr_rating = None, dr_has_company = False, dr_has_tags = False, dr_has_cost = False, dr_has_description = False, dr_has_rating = False, dr_cost_tier = ''Unknown''\<rparr>]\<rparr> \<lparr>search = [], company_filter = [], tag_filter = [], cost_tier_filter = []\<rparr> = Inr (Some c)" and v: "card_company_pct c = 100 / 3"
      "card_tags_pct c = 200 / 3" "card_median_cost c = Some (2469 / 2)"
    by (simp add: stats_cards_def get_filtered_data_def search_filter_def calculate_statistics_def stats_of_def py_median_def Let_def)
  have st: "stats_cards_text (\<lambda>p. None) \<lparr>df_has_name = True, df_rows = [\<lparr>dr_name = Val (JStr ''a''), dr_company = JStr ''acme'', dr_tags_list = [JStr ''ml''], dr_tags = JStr ''ml'', dr_cost = Some (2469 / 2), dr_rating = None, dr_has_company = True, dr_has_tags = True, dr_has_cost = True, dr_has_description = False, dr_has_rating = False, dr_cost_tier = ''Medium ($500-$2K)''\<rparr>, \<lparr>dr_name = Val (JStr ''b''), dr_company = JStr ''No Company Data'', dr_tags_list = [JStr ''ml''], dr_tags = JStr ''ml'', dr_cost = None, dr_rating = None, dr_has_company = False, dr_has_tags = True, dr_has_cost = False, dr_has_description = False, dr_has_rating = False, dr_cost_tier = ''Unknown''\<rparr>, \<lparr>dr_name = Val (JStr ''c''), dr_company = JStr ''No Company Data'', dr_tags_list = [JStr ''ml''], dr_tags = JStr ''Uncategorized'', dr_cost = None, dr_rating = None, dr_has_company = False, dr_has_tags = False, dr_has_cost = False, dr_has_description = False, dr_has_rating = False, dr_cost_tier = ''Unknown''\<rparr>]\<rparr> \<lparr>search = [], company_filter = [], tag_filter = [], cost_tier_filter = []\<rparr> = Inr (Some (card_texts c))"
    using sc by (simp add: stats_cards_text_def)
  have r: "round_half_even (2469 / 2) = 1234"
  proof -
    have "\<lfloor>2469 / 2 :: rat\<rfloor> = 1234" by (simp add: floor_eq_iff)
    then show ?thesis by (simp add: round_half_even_def Let_def)
  qed
  obtain c' where "stats_cards (\<lambda>p. None) \<lparr>df_has_name = True, df_rows = [\<lparr>dr_name = Val (JStr ''a''), dr_company = JStr ''acme'', dr_tags_list = [JStr ''ml''], dr_tags = JStr ''ml'', dr_cost = Some (2469 / 2), dr_rating = None, dr_has_company = True, dr_has_tags = True, dr_has_cost = True, dr_has_description = False, dr_has_rating = False, dr_cost_tier = ''Medium ($500-$2K)''\<rparr>, \<lparr>dr_name = Val (JStr ''b''), dr_company = JStr ''No Company Data'', dr_tags_list = [JStr ''ml''], dr_tags = JStr ''ml'', dr_cost = None, dr_rating = None, dr_has_company = False, dr_has_tags = True, dr_has_cost = False, dr_has_description = False, dr_has_rating = False, dr_cost_tier = ''Unknown''\<rparr>, \<lparr>dr_name = Val (JStr ''c''), dr_company = JStr ''No Company Data'', dr_tags_list = [JStr ''ml''], dr_tags = JStr ''Uncategorized'', dr_cost = None, dr_rating = None, dr_has_company = False, dr_has_tags = False, dr_has_cost = False, dr_has_description = False, dr_has_rating = False, dr_cost_tier = ''Unknown''\<rparr>]\<rparr> \<lparr>search = [], company_filter = [], tag_filter = [], cost_tier_filter = []\<rparr> = Inr (Some c')" and
    "\<exists>s k. ct_company_pct (card_texts c) = s @ ''%'' \<and> parse_decimal s = Some (of_int k) \<and> 0 \<le> k \<and> k \<le> 100 \<and>
            \<bar>of_int k - card_company_pct c'\<bar> \<le> 1/2"
    using stats_cards_text_readback [OF st] by blast
  then show ?thesis using st sc v r by auto
qed

end
