(* ===== verification/Dash_Export.thy ===== *)
theory Dash_Export
  imports Dash_Text
begin

text \<open>
  The automatic HTML export at the end of \<^verbatim>\<open>tools_dashboard.py\<close> (lines 321--337): when
  the module runs as a script (\<^verbatim>\<open>__main__\<close>) or as a Bokeh server session
  (\<^verbatim>\<open>bokeh_app_...\<close>), the page is saved as
  \<^verbatim>\<open>exports/<%Y%m%d_%H%M%S>_tools_dashboard.html\<close>. The page itself is rendered by
  Panel and is a parameter; the clock reading \<^verbatim>\<open>datetime.now()\<close> is a parameter too.
  \<^verbatim>\<open>%Y\<close> is formatted as glibc does, as the plain decimal year; the other fields are
  zero-padded to two digits. The \<^verbatim>\<open>exports\<close> directory is implicit in \<open>fs\<close>.
\<close>

section \<open>Timestamps and the export file\<close>

record datetime =
  dt_year :: nat
  dt_month :: nat
  dt_day :: nat
  dt_hour :: nat
  dt_minute :: nat
  dt_second :: nat

definition pad2 :: "nat \<Rightarrow> string" where
  "pad2 n = (let s = str_of_nat n in replicate (2 - length s) CHR ''0'' @ s)"

definition strftime_stamp :: "datetime \<Rightarrow> string" where
  "strftime_stamp t =
     str_of_nat (dt_year t) @ pad2 (dt_month t) @ pad2 (dt_day t) @ ''_'' @
     pad2 (dt_hour t) @ pad2 (dt_minute t) @ pad2 (dt_second t)"

definition export_filename :: "datetime \<Rightarrow> string" where
  "export_filename now = path_join ''exports'' (strftime_stamp now @ ''_tools_dashboard.html'')"

text \<open>\<^verbatim>\<open>__name__ == "__main__" or __name__.startswith('bokeh_app')\<close>\<close>

definition runs_export :: "string \<Rightarrow> bool" where
  "runs_export module_name = (module_name = ''__main__'' \<or> take 9 module_name = ''bokeh_app'')"

definition dashboard_export :: "string \<Rightarrow> datetime \<Rightarrow> string \<Rightarrow> fs \<Rightarrow> fs" where
  "dashboard_export module_name now page disk =
     (if runs_export module_name then disk(export_filename now \<mapsto> NonJsonFile page) else disk)"

text \<open>
  The fields a \<^verbatim>\<open>datetime\<close> can hold, with a four-digit year (\<^verbatim>\<open>datetime.now()\<close> in
  any year from 1000 to 9999), and the reading of a stamp back into its fields.
\<close>

definition valid_datetime :: "datetime \<Rightarrow> bool" where
  "valid_datetime t =
     (1000 \<le> dt_year t \<and> dt_year t \<le> 9999 \<and> 1 \<le> dt_month t \<and> dt_month t \<le> 12 \<and>
      1 \<le> dt_day t \<and> dt_day t \<le> 31 \<and> dt_hour t < 24 \<and> dt_minute t < 60 \<and> dt_second t < 60)"

definition parse_stamp :: "string \<Rightarrow> datetime option" where
  "parse_stamp s =
     (if length s = 15 \<and> s ! 8 = CHR ''_'' then
        (case (digits_val 0 (take 4 s), digits_val 0 (take 2 (drop 4 s)), digits_val 0 (take 2 (drop 6 s)),
               digits_val 0 (take 2 (drop 9 s)), digits_val 0 (take 2 (drop 11 s)), digits_val 0 (take 2 (drop 13 s))) of
           (Some y, Some mo, Some d, Some h, Some mi, Some se) \<Rightarrow>
             Some \<lparr>dt_year = y, dt_month = mo, dt_day = d, dt_hour = h, dt_minute = mi, dt_second = se\<rparr>
         | _ \<Rightarrow> None)
      else None)"

section \<open>Fixed-width fields\<close>

lemma str_of_nat_length_bounds:
  "(0 < n \<longrightarrow> 10 ^ (length (str_of_nat n) - 1) \<le> n) \<and> n < 10 ^ length (str_of_nat n)"
proof (induction n rule: str_of_nat.induct)
  case (1 n)
  show ?case
  proof (cases "n < 10")
    case True
    then show ?thesis by (subst (1 2) str_of_nat.simps) simp
  next
    case False
    then have e: "str_of_nat n = str_of_nat (n div 10) @ [char_of (48 + n mod 10)]"
      by (subst str_of_nat.simps) simp
    obtain L where L: "length (str_of_nat (n div 10)) = Suc L"
      using str_of_nat_ne [of "n div 10"] by (cases "str_of_nat (n div 10)") auto
    from 1 [OF False] False L have a: "10 ^ L \<le> n div 10" "n div 10 < 10 ^ Suc L" by simp_all
    have "10 * 10 ^ L \<le> 10 * (n div 10)" using a(1) by simp
    moreover have "10 * (n div 10) \<le> n" by simp
    ultimately have lo: "10 ^ Suc L \<le> n" by simp
    have "n = 10 * (n div 10) + n mod 10" by simp
    moreover have "n mod 10 < 10" by simp
    moreover have "10 * (n div 10 + 1) \<le> 10 * 10 ^ Suc L" using a(2) by simp
    ultimately have hi: "n < 10 ^ Suc (Suc L)" by simp
    show ?thesis unfolding e using L lo hi by simp
  qed
qed

lemma str_of_nat_length_4: "1000 \<le> n \<Longrightarrow> n \<le> 9999 \<Longrightarrow> length (str_of_nat n) = 4"
proof -
  assume a: "1000 \<le> n" "n \<le> 9999"
  note b = str_of_nat_length_bounds [of n]
  have "\<not> length (str_of_nat n) \<le> 3"
  proof
    assume "length (str_of_nat n) \<le> 3"
    then have "(10::nat) ^ length (str_of_nat n) \<le> 10 ^ 3" by (rule power_increasing) simp
    then show False using a b by simp
  qed
  moreover have "\<not> 5 \<le> length (str_of_nat n)"
  proof
    assume "5 \<le> length (str_of_nat n)"
    then have "(10::nat) ^ 4 \<le> 10 ^ (length (str_of_nat n) - 1)" by (intro power_increasing) simp_all
    then show False using a b by simp
  qed
  ultimately show ?thesis by simp
qed

lemma str_of_nat_small: "n < 10 \<Longrightarrow> str_of_nat n = [char_of (48 + n)]"
  by (subst str_of_nat.simps) simp

lemma str_of_nat_length_le_2: "n < 100 \<Longrightarrow> length (str_of_nat n) \<le> 2"
proof (rule ccontr)
  assume "n < 100" "\<not> length (str_of_nat n) \<le> 2"
  then have "(10::nat) ^ 2 \<le> 10 ^ (length (str_of_nat n) - 1)" by (intro power_increasing) simp_all
  then show False using \<open>n < 100\<close> str_of_nat_length_bounds [of n] by (cases "n = 0") (simp_all add: str_of_nat_small)
qed

lemma digits_val_zeros: "digits_val 0 (replicate k CHR ''0'' @ s) = digits_val 0 s"
  by (induction k) (simp_all add: digit_val_def)

lemma pad2_props: "n < 100 \<Longrightarrow> length (pad2 n) = 2 \<and> digits_val 0 (pad2 n) = Some n"
  using str_of_nat_length_le_2 [of n] by (simp add: pad2_def Let_def digits_val_zeros digits_val_str_of_nat)

section \<open>Properties of the export\<close>

text \<open>Six fields of fixed width, read back from their concatenation.\<close>

lemma parse_stamp_fields:
  assumes "length Y = 4" "length M = 2" "length D = 2" "length H = 2" "length I = 2" "length S = 2"
    and "digits_val 0 Y = Some y" "digits_val 0 M = Some mo" "digits_val 0 D = Some d"
      "digits_val 0 H = Some h" "digits_val 0 I = Some mi" "digits_val 0 S = Some se"
  shows "parse_stamp (Y @ M @ D @ ''_'' @ H @ I @ S) =
           Some \<lparr>dt_year = y, dt_month = mo, dt_day = d, dt_hour = h, dt_minute = mi, dt_second = se\<rparr>"
proof -
  let ?s = "Y @ M @ D @ ''_'' @ H @ I @ S"
  have l: "length ?s = 15" using assms(1-6) by simp
  have u: "?s ! 8 = CHR ''_''" using assms(1-3) by (simp add: nth_append)
  have t: "take 4 ?s = Y" "take 2 (drop 4 ?s) = M" "take 2 (drop 6 ?s) = D"
    "take 2 (drop 9 ?s) = H" "take 2 (drop 11 ?s) = I" "take 2 (drop 13 ?s) = S"
    using assms(1-6) by simp_all
  show ?thesis unfolding parse_stamp_def l u t using assms(7-12) by simp
qed

text \<open>The stamp of a valid clock reading has 15 characters and reads back as that reading.\<close>

lemma parse_stamp_strftime:
  assumes "valid_datetime t"
  shows "parse_stamp (strftime_stamp t) = Some t"
proof -
  have v: "1000 \<le> dt_year t" "dt_year t \<le> 9999" "dt_month t < 100" "dt_day t < 100" "dt_hour t < 100"
    "dt_minute t < 100" "dt_second t < 100" using assms by (simp_all add: valid_datetime_def)
  have y: "length (str_of_nat (dt_year t)) = 4" "digits_val 0 (str_of_nat (dt_year t)) = Some (dt_year t)"
    using str_of_nat_length_4 [OF v(1,2)] digits_val_str_of_nat [of 0 "dt_year t"] by simp_all
  have "parse_stamp (strftime_stamp t) =
          Some \<lparr>dt_year = dt_year t, dt_month = dt_month t, dt_day = dt_day t, dt_hour = dt_hour t,
                dt_minute = dt_minute t, dt_second = dt_second t\<rparr>"
    unfolding strftime_stamp_def
    by (rule parse_stamp_fields [OF y(1) pad2_props [OF v(3), THEN conjunct1] pad2_props [OF v(4), THEN conjunct1]
          pad2_props [OF v(5), THEN conjunct1] pad2_props [OF v(6), THEN conjunct1] pad2_props [OF v(7), THEN conjunct1]
          y(2) pad2_props [OF v(3), THEN conjunct2] pad2_props [OF v(4), THEN conjunct2]
          pad2_props [OF v(5), THEN conjunct2] pad2_props [OF v(6), THEN conjunct2] pad2_props [OF v(7), THEN conjunct2]])
  then show ?thesis by simp
qed

text \<open>Exports at two different valid clock readings never write the same file.\<close>

lemma export_filename_inj:
  assumes "valid_datetime t1" "valid_datetime t2" "export_filename t1 = export_filename t2"
  shows "t1 = t2"
proof -
  have "strftime_stamp t1 = strftime_stamp t2"
    using assms(3) unfolding export_filename_def path_join_def by (simp only: same_append_eq append_same_eq)
  then have "parse_stamp (strftime_stamp t1) = parse_stamp (strftime_stamp t2)" by (rule arg_cong)
  then have "Some t1 = Some t2" by (simp only: parse_stamp_strftime [OF assms(1)] parse_stamp_strftime [OF assms(2)])
  then show ?thesis by (simp only: option.inject)
qed

text \<open>Two exports within the same second: the later page replaces the earlier one.\<close>

lemma export_same_second:
  "dashboard_export m now p2 (dashboard_export m now p1 disk) = dashboard_export m now p2 disk"
  by (simp add: dashboard_export_def)

text \<open>Every Bokeh server session (\<^verbatim>\<open>panel serve\<close> names the module \<^verbatim>\<open>bokeh_app_<id>\<close>) writes an export file.\<close>

lemma export_each_session:
  "dashboard_export (''bokeh_app_'' @ sid) now page disk (export_filename now) = Some (NonJsonFile page)"
  by (simp add: dashboard_export_def runs_export_def)

text \<open>The export is an \<^verbatim>\<open>.html\<close> file, so it never replaces the \<^verbatim>\<open>.json\<close> the dashboard reads.\<close>

lemma export_filename_not_json: "export_filename now \<noteq> path_join d (n @ ''.json'')"
proof
  assume "export_filename now = path_join d (n @ ''.json'')"
  then have "last (export_filename now) = last (path_join d (n @ ''.json''))" by simp
  then show False by (simp add: export_filename_def path_join_def)
qed

lemma load_dashboard_after_export:
  "load_dashboard (dashboard_export m now page disk) data_dir = load_dashboard disk data_dir"
proof -
  have "export_filename now \<noteq> path_join data_dir (''tools'' @ ''.json'')" by (rule export_filename_not_json)
  then show ?thesis by (simp add: load_dashboard_def dashboard_export_def json_load_def)
qed

text \<open>
  C26 (exports in sequence): when the dashboard runs as a script or a server session and
  exports twice, at two valid clock readings, with different pages, the later page is in
  its file, the earlier page survives exactly when the two exports fall in different
  seconds, and neither export changes what the dashboard loads.
\<close>

theorem export_sequence:
  assumes "valid_datetime t1" "valid_datetime t2" "runs_export m" "p1 \<noteq> p2"
  shows "(dashboard_export m t2 p2 (dashboard_export m t1 p1 disk) (export_filename t1) = Some (NonJsonFile p1)
            \<longleftrightarrow> t1 \<noteq> t2) \<and>
         dashboard_export m t2 p2 (dashboard_export m t1 p1 disk) (export_filename t2) = Some (NonJsonFile p2) \<and>
         load_dashboard (dashboard_export m t2 p2 (dashboard_export m t1 p1 disk)) data_dir = load_dashboard disk data_dir"
proof -
  have f: "export_filename t1 = export_filename t2 \<longleftrightarrow> t1 = t2"
    using export_filename_inj [OF assms(1,2)] by blast
  have "dashboard_export m t2 p2 (dashboard_export m t1 p1 disk) (export_filename t1) = Some (NonJsonFile p1)
          \<longleftrightarrow> t1 \<noteq> t2"
    using f assms(3,4) by (auto simp: dashboard_export_def)
  moreover have "dashboard_export m t2 p2 (dashboard_export m t1 p1 disk) (export_filename t2) = Some (NonJsonFile p2)"
    using assms(3) by (simp add: dashboard_export_def)
  moreover have "load_dashboard (dashboard_export m t2 p2 (dashboard_export m t1 p1 disk)) data_dir = load_dashboard disk data_dir"
    by (simp only: load_dashboard_after_export)
  ultimately show ?thesis by blast
qed

theorem export_sequence_witness:
  "valid_datetime \<lparr>dt_year = 2025, dt_month = 6, dt_day = 1, dt_hour = 12, dt_minute = 0, dt_second = 0\<rparr> \<and> valid_datetime \<lparr>dt_year = 2025, dt_month = 6, dt_day = 1, dt_hour = 12, dt_minute = 0, dt_second = 1\<rparr> \<and> runs_export ''bokeh_app_42'' \<and>
   (dashboard_export ''bokeh_app_42'' \<lparr>dt_year = 2025, dt_month = 6, dt_day = 1, dt_hour = 12, dt_minute = 0, dt_second = 1\<rparr> ''b'' (dashboard_export ''bokeh_app_42'' \<lparr>dt_year = 2025, dt_month = 6, dt_day = 1, dt_hour = 12, dt_minute = 0, dt_second = 0\<rparr> ''a'' Map.empty) (export_filename \<lparr>dt_year = 2025, dt_month = 6, dt_day = 1, dt_hour = 12, dt_minute = 0, dt_second = 0\<rparr>) =
      Some (NonJsonFile ''a'') \<longleftrightarrow> \<lparr>dt_year = 2025, dt_month = 6, dt_day = 1, dt_hour = 12, dt_minute = 0, dt_second = 0\<rparr> \<noteq> \<lparr>dt_year = 2025, dt_month = 6, dt_day = 1, dt_hour = 12, dt_minute = 0, dt_second = 1\<rparr>) \<and>
   dashboard_export ''bokeh_app_42'' \<lparr>dt_year = 2025, dt_month = 6, dt_day = 1, dt_hour = 12, dt_minute = 0, dt_second = 1\<rparr> ''b'' (dashboard_export ''bokeh_app_42'' \<lparr>dt_year = 2025, dt_month = 6, dt_day = 1, dt_hour = 12, dt_minute = 0, dt_second = 0\<rparr> ''a'' Map.empty) (export_filename \<lparr>dt_year = 2025, dt_month = 6, dt_day = 1, dt_hour = 12, dt_minute = 0, dt_second = 1\<rparr>) =
      Some (NonJsonFile ''b'') \<and>
   load_dashboard (dashboard_export ''bokeh_app_42'' \<lparr>dt_year = 2025, dt_month = 6, dt_day = 1, dt_hour = 12, dt_minute = 0, dt_second = 1\<rparr> ''b'' (dashboard_export ''bokeh_app_42'' \<lparr>dt_year = 2025, dt_month = 6, dt_day = 1, dt_hour = 12, dt_minute = 0, dt_second = 0\<rparr> ''a'' Map.empty)) ''d'' =
      load_dashboard Map.empty ''d''"
proof -
  have v: "valid_datetime \<lparr>dt_year = 2025, dt_month = 6, dt_day = 1, dt_hour = 12, dt_minute = 0, dt_second = 0\<rparr>" "valid_datetime \<lparr>dt_year = 2025, dt_month = 6, dt_day = 1, dt_hour = 12, dt_minute = 0, dt_second = 1\<rparr>" by (simp_all add: valid_datetime_def)
  have r: "runs_export ''bokeh_app_42''" by (simp add: runs_export_def)
  show ?thesis using export_sequence [OF v r, of "''a''" "''b''" Map.empty "''d''"] v r by simp
qed

end
