(* ===== verification/Spec2Isabelle.thy ===== *)
theory Spec2Isabelle
  imports Fetch_Main Denorm_Main Dash_Charts Dash_Export
begin

text \<open>
  \<^bold>\<open>Verification of the Baserow export pipeline.\<close>

  The repository's core is two scripts that run one after the other.
  \<^item> The Fetcher (\<^verbatim>\<open>src/baserow_api/scripts/baserow/fetch_baserow_tables.py\<close>) pages
    through three tables of a hosted database API (companies, tools, libraries), retrying
    each page request, and writes each table as a JSON list to
    \<^verbatim>\<open><output_dir>/<table>.json\<close>.
  \<^item> The Denormalizer (\<^verbatim>\<open>src/baserow_api/scripts/process_for_web.py\<close>) loads those
    snapshots from \<^verbatim>\<open>data/snapshots\<close>, joins companies and tools through their reference
    lists, builds a search index, a tag catalog and statistics, and writes six files to
    \<^verbatim>\<open>data/web\<close>.
  \<^item> The dashboard (\<^verbatim>\<open>src/dashboard/tools_dashboard.py\<close>, a Panel app) reads the
    tools snapshot \<^verbatim>\<open>../baserow_api/data/snapshots/tools.json\<close> into a pandas frame,
    derives company, tag, cost and tier columns, and shows widgets (search box, company,
    tag and price-tier selections) that filter the frame, with statistics cards and charts
    computed from the filtered rows.
  The scripts interact only through the snapshot files: the Denormalizer and the dashboard
  both read what the Fetcher wrote.

  \<^bold>\<open>Theories.\<close>
  \<^item> \<open>Prelude\<close>: the Python exceptions (\<open>py_exc\<close>; \<open>is_exception\<close> says which of them an
    \<^verbatim>\<open>except Exception\<close> catches), exception-propagating sequencing \<open>ebind\<close> and
    \<open>mapE\<close> (a loop or comprehension whose body may raise), and lemmas on association
    lists (\<open>AList.update\<close> is assignment to a Python dict: in place if the key is present,
    appended otherwise).
  \<^item> \<open>Py_Json\<close>: JSON values (\<open>json\<close>) and the builtins the scripts apply to them
    (\<open>py_truthy\<close>, \<open>dict_get\<close>, \<open>dict_getitem\<close>, \<open>py_iter\<close>, \<open>hashable\<close>, \<open>py_lower\<close>,
    \<open>py_join\<close>, \<open>py_str\<close>, \<open>py_sorted_items\<close>), each with the exception Python raises;
    the file system \<open>fs\<close> with \<open>json_load\<close>/\<open>json_dump\<close>; the \<open>world\<close> record of the
    Fetcher (files, log of requests, log of sleeps).
  \<^item> \<open>Fetch_Retry\<close>: \<open>config\<close>, \<open>TABLES\<close>, \<open>MAX_RETRIES\<close>, \<open>RETRY_DELAYS\<close> and the retry
    loop \<open>get_with_retry\<close>/\<open>get_page\<close> (the \<^verbatim>\<open>for attempt in range(MAX_RETRIES)\<close> loop of
    \<^verbatim>\<open>fetch_table_with_pagination\<close>). The server is a function \<open>network\<close> from the URL
    and the index of the request in the run to an outcome, so retries can meet different
    answers.
  \<^item> \<open>Fetch_Pages\<close>: the \<^verbatim>\<open>while url\<close> page loop \<open>paginate\<close>, the row limit
    (\<open>limit_cut\<close>, \<open>py_slice_to\<close>) and \<open>fetch_table_with_pagination\<close>;
    \<open>serves_pages\<close> describes a server answering a finite chain of pages.
  \<^item> \<open>Fetch_Main\<close>: \<open>validate_config\<close>, \<open>export_to_json\<close> and \<^verbatim>\<open>main\<close> as
    \<open>fetch_all\<close>/\<open>fetch_main\<close>, with the per-table summary \<open>table_status\<close>.
  \<^item> \<open>Denorm_Enrich\<close>: the lookup dictionaries (\<open>build_index\<close>), the shared reference
    loop \<open>resolve_refs\<close>, \<open>create_web_companies\<close> and \<open>create_web_tools\<close> (with the tag
    loop \<open>tag_info\<close>). The dicts the code builds with literal keys are records
    (\<open>web_company\<close>, \<open>tool_summary\<close>, \<open>web_tool\<close>, \<open>company_summary\<close>).
  \<^item> \<open>Denorm_Index\<close>: \<open>create_search_index\<close>, \<open>extract_all_tags\<close> (\<open>first_colors\<close>,
    \<open>collect_tag_colors\<close>) and \<open>calculate_stats\<close>.
  \<^item> \<open>Denorm_Main\<close>: \<open>load_snapshots\<close>, the JSON encoding of the records as
    \<^verbatim>\<open>json.dump\<close> writes them, the sequence of writes \<open>dump_all\<close>, and \<^verbatim>\<open>main\<close> as
    \<open>process\<close>/\<open>denorm_main\<close>; the script's directory is the parameter \<open>root\<close>.
  \<^item> \<open>Dash_Frame\<close>: lines 12--48 of the dashboard. A frame cell is a JSON value or
    \<open>NaN\<close> (\<open>cell\<close>: pandas fills a key a row lacks with NaN, which is truthy, not
    iterable and not subscriptable); \<open>read_json\<close> (\<^verbatim>\<open>DataFrame\<close> of the loaded
    document: a list of objects gives its rows, a later non-object AttributeError; a list
    of scalars or of lists gives integer-labelled columns only; \<^verbatim>\<open>null\<close> and \<open>{}\<close> the
    empty frame; a bare scalar ValueError; \<open>None\<close> for the shapes outside the model),
    \<open>column\<close>, the extractors
    \<open>extract_company\<close>, \<open>extract_tags_list\<close>, \<open>extract_tags_str\<close>;
    \<open>to_numeric\<close> with \<^verbatim>\<open>errors='coerce'\<close> (decimal strings are parsed, anything else
    is missing); \<open>categorize_cost\<close> and \<open>TIER_ORDER\<close>; the row record \<open>dash_row\<close> and
    \<open>derive_frame\<close>, which computes the columns in the order the code assigns them, so
    the first column that raises is the error the script shows; \<open>load_dashboard\<close>.
    \<open>derive_row\<close> computes one row from its own cells; it is the reference the
    column-wise \<open>derive_frame\<close> is compared with.
  \<^item> \<open>Dash_Views\<close>: lines 71--130. The widget values are the record \<open>filters\<close>;
    \<open>reset_filters\<close>; \<open>get_filtered_data\<close> applies the search, company, tag and tier
    filters in sequence and returns a \<open>filtered_frame\<close>: its rows, or \<open>NoColumns\<close>, the
    frame without columns that the tag filter (line 125) leaves when no row reaches it (on
    an empty frame \<^verbatim>\<open>apply\<close> returns an empty object Series, which pandas reads as a list
    of column labels, not as a mask). A panel that reads a column goes through
    \<open>with_columns\<close>, which raises KeyError on \<open>NoColumns\<close>. \<open>selected\<close> is the
    declarative selection the filters are compared with;
    the option lists \<open>all_companies\<close> and \<open>all_tags\<close> (\<open>py_unique\<close>, \<open>py_sorted\<close>).
  \<^item> \<open>Dash_Stats\<close>: \<open>calculate_statistics\<close> (lines 51--68; the dict is \<open>stats_of\<close>) with
    pandas' mean, median, sample standard deviation and linear-interpolation quantiles
    (\<open>interp\<close>, \<open>py_quantile\<close>) and scipy's skewness and kurtosis (\<open>central_moment\<close>,
    \<open>scipy_skew\<close>, \<open>scipy_kurtosis\<close>); the values of \<open>stats_cards\<close> (lines 133--146);
    the counts of \<open>market_segmentation\<close> (lines 214--220, \<open>tier_counts\<close>); the counting
    loop of \<open>tag_chart\<close> (lines 245--252, \<open>count_tags\<close>).
  \<^item> \<open>Dash_Charts\<close>: what the remaining panels hand to the plotting library:
    \<open>cost_boxplot\<close> and \<open>cost_histogram\<close> (lines 173--204), \<open>company_chart_data\<close> with
    \<open>value_counts\<close> (lines 232--236), \<open>tag_chart_data\<close> (the sort and \<^verbatim>\<open>tail(15)\<close> of
    line 253) and \<open>data_table\<close> (lines 262--265).
  \<^item> \<open>Dash_Text\<close>: the values the overview cards interpolate into their HTML (lines
    146--169): \<open>fmt_f0\<close> and \<open>fmt_comma_f0\<close> are the format specs \<^verbatim>\<open>.0f\<close> and
    \<^verbatim>\<open>,.0f\<close> (\<open>round_half_even\<close>, \<open>group_thousands\<close>), \<open>card_texts\<close> the texts of the
    four cards and \<open>stats_cards_text\<close> the whole callback; the numbers are printed with
    \<open>str_of_nat\<close> and read back with the frame's own \<open>parse_decimal\<close>.
  \<^item> \<open>Dash_Export\<close>: the automatic HTML export (lines 321--336): the \<^verbatim>\<open>__name__\<close> guard
    \<open>runs_export\<close>, the clock reading as a \<open>datetime\<close> record, the stamp
    \<^verbatim>\<open>%Y%m%d_%H%M%S\<close> (\<open>strftime_stamp\<close>, \<open>pad2\<close>), \<open>export_filename\<close> and the
    write \<open>dashboard_export\<close>; the rendered page is a parameter.
  \<^item> This theory: the properties of the two scripts run in sequence.

  \<^bold>\<open>Modelling choices.\<close>
  Every subscription, \<^verbatim>\<open>.get\<close>, iteration and method call on JSON data is the modelled
  builtin, so the KeyError/TypeError/AttributeError paths are branches of the model, and
  the run's outcome is a sum \<open>py_exc + 'a\<close>. The page loop has no bound in the code, so
  \<open>paginate\<close> is a \<^theory_text>\<open>partial_function\<close> in the option monad (\<open>None\<close> = it
  never returns); the theorems prove that it returns on every finite chain of pages, which
  is the termination the code has. No fuel is used. The retry loop is bounded by
  \<open>MAX_RETRIES\<close> and is structural recursion over \<open>[0..<MAX_RETRIES]\<close>.
  In the dashboard, numbers are rationals (\<open>rat\<close>): the data's costs and ratings are
  decimal numerals, and with rationals the statistics are exact; only the standard
  deviation needs a square root and is \<open>real\<close>. The \<^verbatim>\<open>re\<close> module is a parameter
  \<open>regex_compile\<close> (a pattern compiles to a match predicate on a name, or fails with
  \<^verbatim>\<open>re.error\<close>), so the filter theorems hold for every regular-expression engine;
  the widgets' values are the state, and a callback is a function of that state.
  pandas does not fix how \<^verbatim>\<open>value_counts\<close> and \<^verbatim>\<open>sort_values\<close> order equal counts (the
  default sort is not stable), so the charts take the sort as a parameter
  \<open>count_sort\<close>; the chart theorems assume only \<open>sorts_by_count\<close>, that it permutes the
  counts into the requested order, and their witnesses use \<open>sort_key snd\<close>. scipy's test
  for a vanishing second moment is a floating-point tolerance; with exact rationals it is
  \<open>m\<^sub>2 = 0\<close>, a constant sample. The card texts format the exact values; Python
  formats the double nearest to the computed value, and the two texts differ only when
  that double and the exact value lie on different sides of a rounding midpoint.

  \<^bold>\<open>What the theorems show.\<close>
  \<^item> Fetcher: recovery after k retryable outcomes and the delays slept; exhaustion
    (only 1s and 2s are slept; the third delay is never used); a non-retryable status ends
    the run at once; all pages of a finite chain are fetched, in order; the row limit;
    the token check; the run stops at \<^verbatim>\<open>sys.exit\<close> despite \<^verbatim>\<open>except Exception\<close>;
    each snapshot holds exactly its table's rows; against a server whose pages never end
    the loop never returns (nothing bounds it).
  \<^item> Denormalizer: embedded tools are resolved references only, and dangling ones are
    dropped; the search index order and search text; the tag catalog is sorted and
    distinct, with each name's first colour; within a tool the last colour wins; bounds of
    the statistics (company and tool totals, companies with a resolved tool, tools with a
    company, distinct coloured tags); idempotence; round trip of the six files; a missing
    snapshot is fatal.
  \<^item> Pipeline: fetched rows reach the Denormalizer unchanged; a table whose fetch fails
    softly leaves a stale snapshot, which the Denormalizer silently uses; fetched tool rows
    reach the dashboard's \<open>read_json\<close> unchanged, and when they are objects the frame is
    derived from exactly them.
  \<^item> Dashboard: the column-wise frame equals the row-wise computation when the columns
    exist (\<open>derive_frame_rowwise\<close>); a row without a company crashes the load (NaN is
    truthy); the tiers are ordered by cost for non-negative costs; the sequential filters
    equal the declarative selection, except that a tag filter no row reaches leaves the
    column-less frame, on which the tier filter and every column-reading panel raise
    KeyError; resetting shows every row; filtering raises exactly on a missing name
    column, a search text that is not a regular expression, or that column-less frame
    under a tier filter; the tag options are the sorted set of tags; the segmentation
    counts sum to the row count; min, quartiles, median and max are ordered; every number
    on the cards reads back as the nearest integer to its exact value (the median after
    removing its thousands separators); the company and tag charts show the 15 most
    frequent values with their counts; the box plot and the histogram show the same cost
    sample, and the histogram's title never meets the empty dict; the data table agrees
    with the cards.
  \<^item> Export: the stamp of a valid clock reading reads back as that reading
    (\<open>parse_stamp_strftime\<close>), so of two exports the earlier page survives exactly when
    they fall in different seconds, and no export changes what the dashboard loads
    (\<open>export_sequence\<close>); every Bokeh server session exports (\<open>export_each_session\<close>).

  \<^bold>\<open>Not modelled.\<close>
  In the dashboard: widget construction and layout, the hvplot and Tabulator calls and
  the template (lines 280--318), which are declarative rendering by the Panel library and
  change no state the theorems are about; the content of the exported page (rendered by
  Panel) and the final print of the export; the markup around the card values (constant
  text); pandas' dtype inference beyond the cases the data has (\<^verbatim>\<open>read_json\<close>'s
  conversion of numeric-looking string columns, the \<^verbatim>\<open>.str\<close> accessor's refusal of an
  all-integer or all-boolean name column); \<^verbatim>\<open>read_json\<close> of a non-empty top-level
  object, read column by column, and of a list of lists with a later non-list item
  (\<open>None\<close>). Reading of the environment and \<^verbatim>\<open>.env\<close> (the configuration
  is a given \<open>config\<close>); the print calls and \<^verbatim>\<open>page_num\<close> (they change no state the
  theorems are about); directory creation (directories are implicit in \<open>fs\<close>); JSON
  floats; Unicode case mapping beyond ASCII; the equality of \<^verbatim>\<open>True\<close> and \<^verbatim>\<open>1\<close> as dict
  keys; the text of a partly written file when \<^verbatim>\<open>json.dump\<close> raises (the theorems show
  that it does not raise on the pipeline's values); the HTTP timeout (a timeout is one of
  the \<open>RequestException\<close> outcomes).
\<close>

section \<open>The two scripts in sequence\<close>

text \<open>When the snapshots load, the Denormalizer's outcome is that of its pipeline.\<close>

lemma denorm_main_loaded:
  assumes "load_snapshots base disk = Inr (companies, tools, libraries)"
  shows "fst (denorm_main base disk) = (case process companies tools of Inl e \<Rightarrow> Inl e | Inr _ \<Rightarrow> Inr ())"
proof (cases "process companies tools")
  case (Inl e)
  then show ?thesis using assms by (simp add: denorm_main_def)
next
  case (Inr x)
  obtain wcs wts si tags st where x: "x = (wcs, wts, si, tags, st)" by (cases x) auto
  obtain tv where tv: "web_tools_json wts = Inr tv"
    using process_tools_json_ok [of companies tools wcs wts si tags st] Inr x by blast
  have "denorm_main base disk = dump_all disk (web_outputs base wcs wts si tags st)"
    using assms Inr x by (simp add: denorm_main_def)
  with tv Inr show ?thesis by (simp add: web_outputs_def)
qed

lemma snapshot_path_in_dir:
  "baserow_output_dir cfg = snapshots_dir base \<Longrightarrow>
   snapshot_path cfg n = path_join (snapshots_dir base) (n @ ''.json'')"
  by (simp add: snapshot_path_def)

lemma load_snapshots_from_files:
  assumes "json_load disk (path_join (snapshots_dir base) ''companies.json'') = Inr c"
    and "json_load disk (path_join (snapshots_dir base) ''tools.json'') = Inr t"
    and "json_load disk (path_join (snapshots_dir base) ''libraries.json'') = Inr l"
  shows "load_snapshots base disk = Inr (c, t, l)"
  using assms by (simp add: load_snapshots_def)

text \<open>A page whose body is not JSON raises \<^verbatim>\<open>JSONDecodeError\<close>, which \<^verbatim>\<open>main\<close> catches.\<close>

lemma paginate_not_json:
  "py_truthy url \<Longrightarrow> net (py_str url) (length (requests w)) = Response 200 None \<Longrightarrow>
   paginate net limit url acc w = Some (Inl JSONDecodeError, w\<lparr>requests := requests w @ [py_str url]\<rparr>)"
  by (subst paginate.simps) (simp add: get_page_ok)

section \<open>Properties of the pipeline\<close>

text \<open>
  C19 (hand-off): when the Fetcher writes into the Denormalizer's snapshot directory and
  the server serves each table as a finite chain of pages, the Fetcher succeeds, the
  Denormalizer loads exactly the fetched rows, and its outcome is that of its pipeline on
  those rows.
\<close>

theorem pipeline_end_to_end:
  assumes dir: "baserow_output_dir cfg = snapshots_dir base"
    and tok: "baserow_token cfg \<noteq> []"
    and c: "serves_pages net (length (requests w)) (JStr (initial_url cfg 813469)) pc"
    and t: "serves_pages net (length (requests w) + length pc) (JStr (initial_url cfg 813470)) pt"
    and l: "serves_pages net (length (requests w) + length pc + length pt) (JStr (initial_url cfg 813471)) pl"
  shows "\<exists>w'. fetch_main cfg net w =
                Some (Inr [(''companies'', Success (length (concat (map fst pc)))),
                           (''tools'', Success (length (concat (map fst pt)))),
                           (''libraries'', Success (length (concat (map fst pl))))], w') \<and>
              load_snapshots base (fsys w') =
                Inr (JList (concat (map fst pc)), JList (concat (map fst pt)), JList (concat (map fst pl))) \<and>
              fst (denorm_main base (fsys w')) =
                (case process (JList (concat (map fst pc))) (JList (concat (map fst pt))) of
                   Inl e \<Rightarrow> Inl e | Inr _ \<Rightarrow> Inr ())"
proof -
  obtain w' where run: "fetch_main cfg net w =
                Some (Inr [(''companies'', Success (length (concat (map fst pc)))),
                           (''tools'', Success (length (concat (map fst pt)))),
                           (''libraries'', Success (length (concat (map fst pl))))], w')"
    and fc: "json_load (fsys w') (snapshot_path cfg ''companies'') = Inr (JList (concat (map fst pc)))"
    and ft: "json_load (fsys w') (snapshot_path cfg ''tools'') = Inr (JList (concat (map fst pt)))"
    and fl: "json_load (fsys w') (snapshot_path cfg ''libraries'') = Inr (JList (concat (map fst pl)))"
    using fetch_main_served [OF tok c t l] by blast
  have ld: "load_snapshots base (fsys w') =
      Inr (JList (concat (map fst pc)), JList (concat (map fst pt)), JList (concat (map fst pl)))"
    using fc ft fl by (intro load_snapshots_from_files) (simp_all add: snapshot_path_in_dir [OF dir])
  show ?thesis
    using run ld denorm_main_loaded [OF ld] by blast
qed

theorem pipeline_end_to_end_witness:
  "\<exists>w'. fetch_main \<lparr>baserow_token = ''t'', baserow_base_url = ''b'', baserow_page_size = 5,
                        baserow_output_dir = snapshots_dir ''r''\<rparr>
          (\<lambda>u n. Response 200 (Some (JDict [(''results'', JList
             [if n = 0 then JDict [(''id'', JInt 1), (''UUID'', JStr ''c1''), (''Company Name'', JStr ''Acme''),
                                   (''Tools'', JList [JDict [(''id'', JInt 10)]])]
              else if n = 1 then JDict [(''id'', JInt 10), (''UUID'', JStr ''t1''), (''ToolName'', JStr ''X''),
                                   (''ToolCompany'', JList [JDict [(''id'', JInt 1)]])]
              else JInt 0]), (''next'', JNull)])))
          \<lparr>fsys = Map.empty, requests = [], sleeps = []\<rparr> =
        Some (Inr [(''companies'', Success 1), (''tools'', Success 1), (''libraries'', Success 1)], w') \<and>
        fst (denorm_main ''r'' (fsys w')) = Inr ()"
proof -
  let ?cfg = "\<lparr>baserow_token = ''t'', baserow_base_url = ''b'', baserow_page_size = 5,
               baserow_output_dir = snapshots_dir ''r''\<rparr>"
  let ?c = "JDict [(''id'', JInt 1), (''UUID'', JStr ''c1''), (''Company Name'', JStr ''Acme''),
                   (''Tools'', JList [JDict [(''id'', JInt 10)]])]"
  let ?t = "JDict [(''id'', JInt 10), (''UUID'', JStr ''t1''), (''ToolName'', JStr ''X''),
                   (''ToolCompany'', JList [JDict [(''id'', JInt 1)]])]"
  let ?net = "\<lambda>(u::string) n. Response 200 (Some (JDict [(''results'', JList
             [if n = 0 then ?c else if n = 1 then ?t else JInt 0]), (''next'', JNull)]))"
  let ?w = "\<lparr>fsys = Map.empty, requests = [], sleeps = []\<rparr>"
  have s1: "serves_pages ?net (length (requests ?w)) (JStr (initial_url ?cfg 813469)) [([?c], JNull)]"
    by (simp add: initial_url_def)
  have s2: "serves_pages ?net (length (requests ?w) + length [([?c], JNull)])
              (JStr (initial_url ?cfg 813470)) [([?t], JNull)]"
    by (simp add: initial_url_def)
  have s3: "serves_pages ?net (length (requests ?w) + length [([?c], JNull)] + length [([?t], JNull)])
              (JStr (initial_url ?cfg 813471)) [([JInt 0], JNull)]"
    by (simp add: initial_url_def)
  have p: "\<exists>x. process (JList [?c]) (JList [?t]) = Inr x"
    by (simp add: process_def build_index_def create_web_companies_def web_company_of_def index_get_def
        tool_summary_of_def tag_values_def create_web_tools_def web_tool_of_def company_summary_of_def
        create_search_index_def company_entry_def tool_entry_def extract_all_tags_def py_sorted_items_def
        calculate_stats_def)
  from pipeline_end_to_end [of ?cfg "''r''" ?net ?w, OF _ _ s1 s2 s3] p show ?thesis
    by (auto split: sum.splits)
qed

text \<open>
  C20 (stale snapshot): when the first page of the tools table is not JSON, the Fetcher
  records the failure, fetches the libraries and exits normally, leaving the tools
  snapshot of an earlier run in place; the Denormalizer then loads that stale snapshot
  instead of failing, contrary to the specification's requirement that a failed table be
  detected as a missing file.
\<close>

theorem stale_tools_snapshot:
  assumes dir: "baserow_output_dir cfg = snapshots_dir base"
    and tok: "baserow_token cfg \<noteq> []"
    and c: "serves_pages net (length (requests w)) (JStr (initial_url cfg 813469)) pc"
    and t: "net (initial_url cfg 813470) (length (requests w) + length pc) = Response 200 None"
    and l: "serves_pages net (Suc (length (requests w) + length pc)) (JStr (initial_url cfg 813471)) pl"
    and old: "fsys w (path_join (snapshots_dir base) ''tools.json'') = Some (JsonFile old_tools)"
  shows "\<exists>w'. fetch_main cfg net w =
                Some (Inr [(''companies'', Success (length (concat (map fst pc)))),
                           (''tools'', Failed JSONDecodeError),
                           (''libraries'', Success (length (concat (map fst pl))))], w') \<and>
              load_snapshots base (fsys w') =
                Inr (JList (concat (map fst pc)), old_tools, JList (concat (map fst pl)))"
proof -
  obtain w1 where w1: "fetch_table_with_pagination cfg net ''companies'' 813469 None w =
      Some (Inr (concat (map fst pc)), w1)"
    and r1: "length (requests w1) = length (requests w) + length pc" and f1: "fsys w1 = fsys w"
    using fetch_table_served [OF c] by blast
  let ?v1 = "export_to_json cfg ''companies'' (concat (map fst pc)) w1"
  let ?v2 = "?v1\<lparr>requests := requests ?v1 @ [initial_url cfg 813470]\<rparr>"
  have w2: "fetch_table_with_pagination cfg net ''tools'' 813470 None ?v1 = Some (Inl JSONDecodeError, ?v2)"
    unfolding fetch_table_with_pagination_def
    using paginate_not_json [of "JStr (initial_url cfg 813470)" net ?v1] t r1 initial_url_truthy [of cfg 813470]
    by simp
  have l': "serves_pages net (length (requests ?v2)) (JStr (initial_url cfg 813471)) pl"
    using l r1 by simp
  obtain w3 where w3: "fetch_table_with_pagination cfg net ''libraries'' 813471 None ?v2 =
      Some (Inr (concat (map fst pl)), w3)" and f3: "fsys w3 = fsys ?v2"
    using fetch_table_served [OF l'] by blast
  let ?v3 = "export_to_json cfg ''libraries'' (concat (map fst pl)) w3"
  have run: "fetch_main cfg net w =
      Some (Inr [(''companies'', Success (length (concat (map fst pc)))),
                 (''tools'', Failed JSONDecodeError),
                 (''libraries'', Success (length (concat (map fst pl))))], ?v3)"
    using tok w1 w2 w3 by (simp add: fetch_main_def validate_config_def TABLES_def)
  have "load_snapshots base (fsys ?v3) = Inr (JList (concat (map fst pc)), old_tools, JList (concat (map fst pl)))"
  proof (rule load_snapshots_from_files)
    have "json_load (fsys w) (path_join (snapshots_dir base) ''tools.json'') = Inr old_tools"
      using old by (simp add: json_load_def)
    then show "json_load (fsys ?v3) (path_join (snapshots_dir base) ''tools.json'') = Inr old_tools"
      using f1 f3 dir by (simp add: export_to_json_def snapshot_path_def path_join_def snapshots_dir_def)
  qed (use f1 f3 dir in \<open>simp_all add: export_to_json_def snapshot_path_def path_join_def snapshots_dir_def\<close>)
  with run show ?thesis by blast
qed

theorem stale_tools_snapshot_witness:
  "\<exists>w'. fetch_main \<lparr>baserow_token = ''t'', baserow_base_url = ''b'', baserow_page_size = 5,
                        baserow_output_dir = snapshots_dir ''r''\<rparr>
          (\<lambda>u n. if n = 1 then Response 200 None
                  else Response 200 (Some (JDict [(''results'', JList [JInt (int n)]), (''next'', JNull)])))
          \<lparr>fsys = [path_join (snapshots_dir ''r'') ''tools.json'' \<mapsto> JsonFile (JList [JStr ''old''])],
             requests = [], sleeps = []\<rparr> =
        Some (Inr [(''companies'', Success 1), (''tools'', Failed JSONDecodeError), (''libraries'', Success 1)], w') \<and>
        load_snapshots ''r'' (fsys w') = Inr (JList [JInt 0], JList [JStr ''old''], JList [JInt 2])"
proof -
  let ?cfg = "\<lparr>baserow_token = ''t'', baserow_base_url = ''b'', baserow_page_size = 5,
               baserow_output_dir = snapshots_dir ''r''\<rparr>"
  let ?net = "\<lambda>(u::string) n. if n = 1 then Response 200 None
                  else Response 200 (Some (JDict [(''results'', JList [JInt (int n)]), (''next'', JNull)]))"
  let ?w = "\<lparr>fsys = [path_join (snapshots_dir ''r'') ''tools.json'' \<mapsto> JsonFile (JList [JStr ''old''])],
             requests = [], sleeps = []\<rparr>"
  have s1: "serves_pages ?net (length (requests ?w)) (JStr (initial_url ?cfg 813469)) [([JInt 0], JNull)]"
    by (simp add: initial_url_def)
  have t: "?net (initial_url ?cfg 813470) (length (requests ?w) + length [([JInt 0], JNull)]) = Response 200 None"
    by simp
  have s3: "serves_pages ?net (Suc (length (requests ?w) + length [([JInt 0], JNull)]))
              (JStr (initial_url ?cfg 813471)) [([JInt 2], JNull)]"
    by (simp add: initial_url_def)
  have old: "fsys ?w (path_join (snapshots_dir ''r'') ''tools.json'') = Some (JsonFile (JList [JStr ''old'']))"
    by simp
  from stale_tools_snapshot [of ?cfg "''r''", OF _ _ s1 t s3 old] show ?thesis
    by simp
qed

text \<open>
  C32 (dashboard hand-off): when the Fetcher writes into the dashboard's data directory and
  the server serves each table as a finite chain of pages, the Fetcher succeeds and the
  dashboard reads the snapshot of exactly the fetched tool rows with \<^verbatim>\<open>read_json\<close> and
  derives its frame from what that gives; when every fetched row is a JSON object, as Baserow
  returns them, the frame is derived from exactly those rows. The witness shows that a fetch
  whose tools carry no \<^verbatim>\<open>Tool Tags\<close> key makes the dashboard fail with KeyError.
\<close>

theorem dashboard_loads_fetched_tools:
  assumes dir: "baserow_output_dir cfg = data_dir"
    and tok: "baserow_token cfg \<noteq> []"
    and c: "serves_pages net (length (requests w)) (JStr (initial_url cfg 813469)) pc"
    and t: "serves_pages net (length (requests w) + length pc) (JStr (initial_url cfg 813470)) pt"
    and l: "serves_pages net (length (requests w) + length pc + length pt) (JStr (initial_url cfg 813471)) pl"
  shows "\<exists>w'. fetch_main cfg net w =
                Some (Inr [(''companies'', Success (length (concat (map fst pc)))),
                           (''tools'', Success (length (concat (map fst pt)))),
                           (''libraries'', Success (length (concat (map fst pl))))], w') \<and>
              load_dashboard (fsys w') data_dir =
                map_option (\<lambda>r. ebind r derive_frame) (read_json (JList (concat (map fst pt)))) \<and>
              (list_all is_dict (concat (map fst pt)) \<longrightarrow>
                 load_dashboard (fsys w') data_dir = Some (derive_frame (concat (map fst pt))))"
proof -
  obtain w' where run: "fetch_main cfg net w =
                Some (Inr [(''companies'', Success (length (concat (map fst pc)))),
                           (''tools'', Success (length (concat (map fst pt)))),
                           (''libraries'', Success (length (concat (map fst pl))))], w')"
    and ft: "json_load (fsys w') (snapshot_path cfg ''tools'') = Inr (JList (concat (map fst pt)))"
    using fetch_main_served [OF tok c t l] by blast
  have "load_dashboard (fsys w') data_dir = map_option (\<lambda>r. ebind r derive_frame) (read_json (JList (concat (map fst pt))))"
    using ft dir by (simp add: load_dashboard_def snapshot_path_def)
  then show ?thesis
    using run by (simp add: read_json_dicts)
qed

theorem dashboard_loads_fetched_tools_witness:
  "\<exists>w'. fetch_main \<lparr>baserow_token = ''t'', baserow_base_url = ''b'', baserow_page_size = 5,
                        baserow_output_dir = ''d''\<rparr>
          (\<lambda>u n. Response 200 (Some (JDict [(''results'', JList
             [if n = 1 then JDict [(''ToolName'', JStr ''X''), (''ToolCompany'', JList [JDict [(''id'', JInt 1), (''value'', JStr ''Acme'')]])]
              else JInt 0]), (''next'', JNull)])))
          \<lparr>fsys = Map.empty, requests = [], sleeps = []\<rparr> =
        Some (Inr [(''companies'', Success 1), (''tools'', Success 1), (''libraries'', Success 1)], w') \<and>
        load_dashboard (fsys w') ''d'' = Some (Inl KeyError)"
proof -
  let ?cfg = "\<lparr>baserow_token = ''t'', baserow_base_url = ''b'', baserow_page_size = 5,
               baserow_output_dir = ''d''\<rparr>"
  let ?t = "JDict [(''ToolName'', JStr ''X''), (''ToolCompany'', JList [JDict [(''id'', JInt 1), (''value'', JStr ''Acme'')]])]"
  let ?net = "\<lambda>(u::string) n. Response 200 (Some (JDict [(''results'', JList
             [if n = 1 then ?t else JInt 0]), (''next'', JNull)]))"
  let ?w = "\<lparr>fsys = Map.empty, requests = [], sleeps = []\<rparr>"
  have s1: "serves_pages ?net (length (requests ?w)) (JStr (initial_url ?cfg 813469)) [([JInt 0], JNull)]"
    by (simp add: initial_url_def)
  have s2: "serves_pages ?net (length (requests ?w) + length [([JInt 0], JNull)])
              (JStr (initial_url ?cfg 813470)) [([?t], JNull)]"
    by (simp add: initial_url_def)
  have s3: "serves_pages ?net (length (requests ?w) + length [([JInt 0], JNull)] + length [([?t], JNull)])
              (JStr (initial_url ?cfg 813471)) [([JInt 0], JNull)]"
    by (simp add: initial_url_def)
  have d: "derive_frame [?t] = Inl KeyError"
    by (simp add: derive_frame_def column_def frame_cell_def extract_company_def)
  from dashboard_loads_fetched_tools [of ?cfg "''d''" ?net ?w, OF _ _ s1 s2 s3] d show ?thesis
    by (simp add: read_json_def)
qed

end
